(* ===== verification/Prelude.thy ===== *)
theory Prelude
  imports Complex_Main "HOL-Library.Sublist"
begin

text \<open>
  Shared vocabulary of the development: the types that name the model's values
  (milliseconds, \<open>Math.random\<close> streams), the JavaScript string and number built-ins
  the repository's TypeScript calls (\<open>||\<close> on strings, \<open>split\<close>, \<open>includes\<close>,
  \<open>toLowerCase\<close>, \<open>replace\<close>, \<open>toString\<close>, \<open>padStart\<close>, string indexing), and the
  lemmas about them that the component theories share.  The collection \<open>js_eval\<close>
  holds the equations that evaluate the built-ins on concrete strings, so that
  witnesses are closed by \<open>simp add: js_eval\<close>.
\<close>

named_theorems js_eval "equations evaluating the JavaScript built-ins on literals"

section \<open>Time and randomness\<close>

text \<open>
  \<open>Date.now()\<close> and \<open>new Date().getTime()\<close> are integers of milliseconds; an ISO date
  string written by \<open>toISOString\<close> and read back by \<open>new Date(..)\<close> denotes the same
  millisecond, so stored dates are kept as the instant they denote.
\<close>

type_synonym ms = int

text \<open>
  \<open>Math.random()\<close> returns a value in \<open>[0, 1)\<close>.  A stream of such values is a
  function from the index of the call to its value; \<open>rng_ok\<close> says every value lies
  in the interval the engine guarantees.
\<close>

type_synonym rng = "nat \<Rightarrow> rat"

definition rng_ok :: "rng \<Rightarrow> bool" where
  "rng_ok r \<longleftrightarrow> (\<forall>i. 0 \<le> r i \<and> r i < 1)"

text \<open>\<open>Math.floor(Math.random() * n)\<close>.\<close>

definition rnd_index :: "nat \<Rightarrow> rat \<Rightarrow> nat" where
  "rnd_index n x = nat \<lfloor>x * of_nat n\<rfloor>"

section \<open>Strings\<close>

text \<open>
  JavaScript strings are \<open>string\<close> (\<open>char list\<close>); the characters the repository
  handles (host names, e-mail addresses, subjects) are ASCII.  The empty string is
  falsy, so \<open>s || d\<close> on a string is \<open>js_or\<close>, and on an optional field (absent is
  \<open>undefined\<close>) it is \<open>opt_or\<close>.
\<close>

definition js_or :: "string \<Rightarrow> string \<Rightarrow> string" where
  "js_or s d = (if s = [] then d else s)"

fun opt_or :: "string option \<Rightarrow> string \<Rightarrow> string" where
  "opt_or None d = d"
| "opt_or (Some s) d = js_or s d"

text \<open>\<open>s.split(c)\<close> for a one-character separator: the pieces between the separators.\<close>

fun js_split :: "char \<Rightarrow> string \<Rightarrow> string list" where
  "js_split c [] = [[]]"
| "js_split c (x # xs) =
     (if x = c then [] # js_split c xs
      else (case js_split c xs of [] \<Rightarrow> [[x]] | w # ws \<Rightarrow> (x # w) # ws))"

text \<open>\<open>ws.join(c)\<close>.\<close>

fun js_join :: "char \<Rightarrow> string list \<Rightarrow> string" where
  "js_join c [] = []"
| "js_join c [w] = w"
| "js_join c (w # ws) = w @ c # js_join c ws"

text \<open>\<open>s.includes(t)\<close>: \<open>t\<close> occurs contiguously in \<open>s\<close>.\<close>

definition js_includes :: "string \<Rightarrow> string \<Rightarrow> bool" where
  "js_includes s t = sublist t s"

text \<open>\<open>s.toLowerCase()\<close> on ASCII: upper-case letters move down by 32.\<close>

definition js_lower_char :: "char \<Rightarrow> char" where
  "js_lower_char c =
     (if 65 \<le> (of_char c :: nat) \<and> (of_char c :: nat) \<le> 90 then char_of (of_char c + (32 :: nat)) else c)"

definition js_lower :: "string \<Rightarrow> string" where
  "js_lower s = map js_lower_char s"

text \<open>\<open>s.replace(p, r)\<close> with a string pattern: only the first occurrence is replaced.\<close>

fun js_replace_first :: "string \<Rightarrow> string \<Rightarrow> string \<Rightarrow> string" where
  "js_replace_first [] p r = (if p = [] then r else [])"
| "js_replace_first (x # xs) p r =
     (if prefix p (x # xs) then r @ drop (length p) (x # xs)
      else x # js_replace_first xs p r)"

text \<open>
  \<open>s[i]\<close> reads \<open>undefined\<close> out of range, and \<open>+=\<close> then appends the text
  \<open>undefined\<close>; in range it is the one-character string.
\<close>

definition js_char_at :: "string \<Rightarrow> nat \<Rightarrow> string" where
  "js_char_at s i = (if i < length s then [s ! i] else ''undefined'')"

section \<open>Numbers as text\<close>

text \<open>\<open>n.toString()\<close> for a non-negative integer: its decimal digits.\<close>

definition digit_char :: "nat \<Rightarrow> char" where
  "digit_char d = char_of (48 + d)"

fun dec_string :: "nat \<Rightarrow> string" where
  "dec_string n = (if n < 10 then [digit_char n] else dec_string (n div 10) @ [digit_char (n mod 10)])"

declare dec_string.simps [simp del]

text \<open>\<open>Date.now().toString()\<close> and the \<open>${..}\<close> of an integer: a minus sign for negatives.\<close>

definition int_string :: "int \<Rightarrow> string" where
  "int_string i = (if i < 0 then CHR ''-'' # dec_string (nat (- i)) else dec_string (nat i))"

text \<open>Reading decimal digits back (the inverse used by the round-trip lemmas).\<close>

definition digit_val :: "char \<Rightarrow> nat" where
  "digit_val c = of_char c - 48"

definition parse_dec :: "string \<Rightarrow> nat" where
  "parse_dec s = foldl (\<lambda>acc c. 10 * acc + digit_val c) 0 s"

text \<open>\<open>s.padStart(n, c)\<close>.\<close>

definition pad_start :: "nat \<Rightarrow> char \<Rightarrow> string \<Rightarrow> string" where
  "pad_start n c s = replicate (n - length s) c @ s"

text \<open>\<open>a % b\<close> on integers: the remainder takes the sign of the dividend.\<close>

definition js_rem :: "int \<Rightarrow> int \<Rightarrow> int" where
  "js_rem a b = sgn a * (\<bar>a\<bar> mod \<bar>b\<bar>)"

section \<open>Lists and options\<close>

text \<open>A JavaScript \<open>Set\<close> of strings keeps insertion order and no duplicates.\<close>

definition set_add :: "'a \<Rightarrow> 'a list \<Rightarrow> 'a list" where
  "set_add x xs = (if x \<in> set xs then xs else xs @ [x])"

definition set_delete :: "'a \<Rightarrow> 'a list \<Rightarrow> 'a list" where
  "set_delete x xs = filter (\<lambda>y. y \<noteq> x) xs"

section \<open>Values of the host language\<close>

text \<open>
  Truthiness of an optional string (\<open>undefined\<close> and \<open>''\<close> are falsy), array
  reading \<open>xs[i]\<close> (\<open>undefined\<close> out of range), and the one exception the
  modelled code can raise by itself: a \<open>TypeError\<close> from reading a property of
  \<open>undefined\<close>.
\<close>

fun js_truthy :: "string option \<Rightarrow> bool" where
  "js_truthy None = False"
| "js_truthy (Some s) = (s \<noteq> [])"

definition js_nth :: "'a list \<Rightarrow> nat \<Rightarrow> 'a option" where
  "js_nth xs i = (if i < length xs then Some (xs ! i) else None)"

datatype js_error = TypeError

section \<open>Lemmas on the built-ins\<close>

lemma rnd_index_bound:
  assumes "0 \<le> x" "x < 1" "0 < n"
  shows "rnd_index n x < n"
proof -
  have "x * of_nat n < 1 * of_nat n"
    using assms by (intro mult_strict_right_mono) auto
  then have "\<lfloor>x * of_nat n\<rfloor> < int n"
    by (simp add: floor_less_iff)
  moreover have "0 \<le> \<lfloor>x * of_nat n\<rfloor>"
    using assms by simp
  ultimately show ?thesis
    by (simp add: rnd_index_def nat_less_iff)
qed

lemma rnd_index_zero [simp, js_eval]: "rnd_index n 0 = 0"
  by (simp add: rnd_index_def)

lemma js_or_simps [simp, js_eval]:
  "js_or [] d = d"
  "js_or (c # s) d = c # s"
  by (simp_all add: js_or_def)

lemma opt_or_nonempty: "d \<noteq> [] \<Longrightarrow> opt_or v d \<noteq> []"
  by (cases v) (auto simp: js_or_def)

lemma js_split_nonempty [simp]: "js_split c s \<noteq> []"
  by (induction s) (auto split: list.split)

lemma js_join_split: "js_join c (js_split c s) = s"
proof (induction s)
  case Nil
  then show ?case by simp
next
  case (Cons x xs)
  then show ?case
    by (cases "js_split c xs" rule: list.exhaust; cases "tl (js_split c xs)")
       (auto split: list.split)
qed

lemma js_split_no_sep: "c \<notin> set s \<Longrightarrow> js_split c s = [s]"
  by (induction s) auto

lemma js_split_append_sep:
  "c \<notin> set a \<Longrightarrow> js_split c (a @ c # b) = a # js_split c b"
  by (induction a) auto

lemma js_split_pieces: "x \<in> set (js_split c s) \<Longrightarrow> c \<notin> set x"
proof (induction s arbitrary: x)
  case Nil
  then show ?case by simp
next
  case (Cons y ys)
  then show ?case
    by (cases "js_split c ys") (auto split: if_splits)
qed

lemma length_filter_eq_distinct:
  "distinct xs \<Longrightarrow> length (filter (\<lambda>i. c = i) xs) = (if c \<in> set xs then 1 else 0)"
  by (induction xs) auto

lemma js_replace_first_prefix: "p \<noteq> [] \<Longrightarrow> js_replace_first (p @ rest) p r = r @ rest"
  by (cases p) simp_all

lemma js_replace_first_absent: "\<not> sublist p s \<Longrightarrow> js_replace_first s p r = s"
proof (induction s)
  case Nil
  then show ?case by auto
next
  case (Cons x xs)
  have "\<not> prefix p (x # xs)" using Cons.prems by (auto dest: prefix_imp_sublist)
  moreover have "\<not> sublist p xs" using Cons.prems by (auto simp: sublist_Cons_right)
  ultimately show ?case using Cons.IH by simp
qed

lemma js_includes_empty [simp, js_eval]: "js_includes s []"
  by (simp add: js_includes_def)

lemmas js_includes_eval [js_eval] = js_includes_def sublist_code prefix_code

lemma js_lower_Nil [simp, js_eval]: "js_lower [] = []"
  by (simp add: js_lower_def)

lemma js_char_at_in_range: "i < length s \<Longrightarrow> js_char_at s i = [s ! i]"
  by (simp add: js_char_at_def)

lemma digit_val_digit_char [simp]: "d < 10 \<Longrightarrow> digit_val (digit_char d) = d"
  by (simp add: digit_val_def digit_char_def)

lemma of_char_digit_char [simp]: "d < 10 \<Longrightarrow> (of_char (digit_char d) :: nat) = 48 + d"
  by (simp add: digit_char_def)

lemma digit_char_not_dash [simp]: "d < 10 \<Longrightarrow> digit_char d \<noteq> CHR ''-''"
proof
  assume "d < 10" "digit_char d = CHR ''-''"
  then have "(of_char (digit_char d) :: nat) = of_char (CHR ''-'')" by simp
  with \<open>d < 10\<close> show False by simp
qed

lemma dec_string_unfold:
  "dec_string n = (if n < 10 then [digit_char n] else dec_string (n div 10) @ [digit_char (n mod 10)])"
  by (rule dec_string.simps)

lemma dec_string_digits: "c \<in> set (dec_string n) \<Longrightarrow> \<exists>d < 10. c = digit_char d"
proof (induction n rule: dec_string.induct)
  case (1 n)
  show ?case
  proof (cases "n < 10")
    case True
    with "1.prems" show ?thesis by (auto simp: dec_string_unfold [of n])
  next
    case False
    then have "set (dec_string n) = insert (digit_char (n mod 10)) (set (dec_string (n div 10)))"
      by (simp add: dec_string_unfold [of n])
    with "1.prems" have "c \<in> set (dec_string (n div 10)) \<or> c = digit_char (n mod 10)"
      by blast
    moreover have "n mod 10 < 10" by simp
    ultimately show ?thesis using "1.IH" False by blast
  qed
qed

lemma dash_notin_dec_string [simp]: "CHR ''-'' \<notin> set (dec_string n)"
proof
  assume "CHR ''-'' \<in> set (dec_string n)"
  then obtain d where "d < 10" "CHR ''-'' = digit_char d"
    using dec_string_digits by blast
  then show False by (metis digit_char_not_dash)
qed

lemma dec_string_nonempty [simp]: "dec_string n \<noteq> []"
  by (subst dec_string_unfold) simp

lemma parse_dec_snoc: "parse_dec (s @ [c]) = 10 * parse_dec s + digit_val c"
  by (simp add: parse_dec_def)

lemma parse_dec_string [simp]: "parse_dec (dec_string n) = n"
proof (induction n rule: dec_string.induct)
  case (1 n)
  show ?case
  proof (cases "n < 10")
    case True
    then show ?thesis by (simp add: dec_string_unfold [of n] parse_dec_def)
  next
    case False
    with "1.IH" have "parse_dec (dec_string (n div 10)) = n div 10" by simp
    with False show ?thesis by (simp add: dec_string_unfold [of n] parse_dec_snoc)
  qed
qed

lemma parse_dec_zeros: "parse_dec (replicate k (CHR ''0'') @ s) = parse_dec s"
proof -
  have "foldl (\<lambda>acc c. 10 * acc + digit_val c) 0 (replicate k (CHR ''0'')) = 0"
    by (induction k) (simp_all add: digit_val_def)
  then show ?thesis by (simp add: parse_dec_def)
qed

lemma js_rem_nonneg [simp]: "0 \<le> a \<Longrightarrow> 0 < b \<Longrightarrow> js_rem a b = a mod b"
  by (cases "a = 0") (simp_all add: js_rem_def)

lemma dec_string_length_le: "n < 10 ^ k \<Longrightarrow> 0 < k \<Longrightarrow> length (dec_string n) \<le> k"
proof (induction n arbitrary: k rule: dec_string.induct)
  case (1 n)
  show ?case
  proof (cases "n < 10")
    case True
    with "1.prems" show ?thesis by (simp add: dec_string_unfold [of n])
  next
    case False
    then obtain j where k: "k = Suc j" and j: "0 < j"
      using "1.prems" by (cases k; cases "k - 1") (auto simp: power_Suc)
    from "1.prems" k have "n div 10 < 10 ^ j" by (simp add: less_mult_imp_div_less mult.commute)
    with "1.IH" False j have "length (dec_string (n div 10)) \<le> j" by simp
    with False k show ?thesis by (simp add: dec_string_unfold [of n])
  qed
qed

lemma dash_notin_int_string_nonneg: "0 \<le> i \<Longrightarrow> CHR ''-'' \<notin> set (int_string i)"
  by (simp add: int_string_def)

lemma digit_char_eval [js_eval]:
  "digit_char 0 = CHR ''0''" "digit_char 1 = CHR ''1''" "digit_char 2 = CHR ''2''"
  "digit_char 3 = CHR ''3''" "digit_char 4 = CHR ''4''" "digit_char 5 = CHR ''5''"
  "digit_char 6 = CHR ''6''" "digit_char 7 = CHR ''7''" "digit_char 8 = CHR ''8''"
  "digit_char 9 = CHR ''9''"
  by code_simp+

lemma js_nth_simps [simp, js_eval]:
  "js_nth [] i = None"
  "js_nth (x # xs) 0 = Some x"
  "js_nth (x # xs) (Suc i) = js_nth xs i"
  by (simp_all add: js_nth_def)

lemma js_nth_in_set: "js_nth xs i = Some y \<Longrightarrow> y \<in> set xs"
  by (auto simp: js_nth_def split: if_splits)

lemma set_set_add [simp]: "set (set_add x xs) = insert x (set xs)"
  by (auto simp: set_add_def)

lemma set_set_delete [simp]: "set (set_delete x xs) = set xs - {x}"
  by (auto simp: set_delete_def)

lemma distinct_set_add [simp]: "distinct xs \<Longrightarrow> distinct (set_add x xs)"
  by (simp add: set_add_def)

lemma distinct_set_delete [simp]: "distinct xs \<Longrightarrow> distinct (set_delete x xs)"
  by (simp add: set_delete_def)

end
