(* ===== verification/Email_Service.thy ===== *)
theory Email_Service
  imports Prelude "HOL-Library.Multiset"
begin

text \<open>
  Model of \<open>src/lib/email-service.ts\<close>: the account and storage records, the site keys
  of \<open>localStorage\<close>, the password generator, the REST calls with their fallbacks
  (\<open>loadDomains\<close>, \<open>createEmailAccount\<close>, \<open>deleteEmailAccount\<close>), the expiry
  arithmetic and the account life cycle (\<open>initializeEmailAccount\<close>,
  \<open>initialize5MinEmailAccount\<close>, the two clean-ups).  Browser state is passed
  explicitly: the window (\<open>None\<close> when \<open>typeof window === 'undefined'\<close>, otherwise
  the host name), the clock, the \<open>Math.random\<close> values and the \<open>localStorage\<close> map.
  A call to \<open>fetch\<close> is its outcome: it threw, or its JSON body.
\<close>

section \<open>Data\<close>

record domain =
  dom_id :: int
  dom_name :: string
  dom_accounts :: int
  dom_total_emails :: string
  dom_memory :: string

record email_account =
  acc_id :: string
  email :: string
  password :: string
  created_at :: ms
  domain_id :: string
  expires_at :: "ms option"
  is_5min :: "bool option"

record site_email_data =
  domains :: "domain list"
  currentAccount :: "email_account option"
  lastUpdated :: ms

type_synonym five_min_email_data = site_email_data

text \<open>
  A \<open>localStorage\<close> entry is either the JSON text of a stored record or some other
  text (corrupt, or not an object): \<open>JSON.parse\<close> fails on the latter or yields a value
  without \<open>currentAccount\<close>, which every caller treats as no data.
\<close>

datatype stored = Stored_Data site_email_data | Stored_Text string

type_synonym local_storage = "string \<Rightarrow> stored option"

type_synonym window = "string option"

datatype 'a fetch_result = Fetch_Error | Fetch_Json 'a

datatype 'a api_result = Api_Success 'a | Api_Failure string

section \<open>Site keys\<close>

text \<open>The character class \<open>[a-zA-Z0-9-]\<close> and \<open>.replace(/[^a-zA-Z0-9-]/g, '-')\<close>.\<close>

definition key_char :: "char \<Rightarrow> bool" where
  "key_char c \<longleftrightarrow>
     (let n = (of_char c :: nat)
      in (65 \<le> n \<and> n \<le> 90) \<or> (97 \<le> n \<and> n \<le> 122) \<or> (48 \<le> n \<and> n \<le> 57) \<or> n = 45)"

definition sanitize_key :: "string \<Rightarrow> string" where
  "sanitize_key s = map (\<lambda>c. if key_char c then c else CHR ''-'') s"

definition getSiteKey :: "window \<Rightarrow> string" where
  "getSiteKey w = (case w of
      None \<Rightarrow> ''tempmail-default''
    | Some hostname \<Rightarrow> sanitize_key (''tempmail-'' @ hostname))"

definition getFiveMinSiteKey :: "window \<Rightarrow> string" where
  "getFiveMinSiteKey w = (case w of
      None \<Rightarrow> ''tempmail-5min-default''
    | Some hostname \<Rightarrow> sanitize_key (''tempmail-5min-'' @ hostname))"

section \<open>Password generation\<close>

definition lowercase :: string where "lowercase = ''abcdefghijklmnopqrstuvwxyz''"
definition uppercase :: string where "uppercase = ''ABCDEFGHIJKLMNOPQRSTUVWXYZ''"
definition numbers :: string where "numbers = ''0123456789''"
definition symbols :: string where "symbols = ''!@#$%^&*()_+-=[]{}|;:,.<>?''"

definition allChars :: string where
  "allChars = lowercase @ uppercase @ numbers @ symbols"

text \<open>
  \<open>for (let i = 4; i < 12; i++) password += allChars[...]\<close>: the \<open>i\<close>-th call of
  \<open>Math.random()\<close> picks the \<open>i\<close>-th character (calls 0 to 3 picked the first four).
\<close>

function pw_fill :: "rng \<Rightarrow> nat \<Rightarrow> string \<Rightarrow> string" where
  "pw_fill r i pw =
     (if i < 12 then pw_fill r (Suc i) (pw @ js_char_at allChars (rnd_index (length allChars) (r i)))
      else pw)"
  by pat_completeness auto
termination
  by (relation "measure (\<lambda>(r, i, pw). 12 - i)") auto

declare pw_fill.simps [simp del]

text \<open>
  \<open>arr.sort(() => Math.random() - 0.5)\<close>: a comparison sort whose every comparison
  draws the next random value; a positive answer puts the element after the one it is
  compared with.  The engine's sort is modelled as insertion; the result
  \<open>(list, next draw)\<close> also says how many values were drawn.
\<close>

fun sort_insert :: "rng \<Rightarrow> nat \<Rightarrow> 'a \<Rightarrow> 'a list \<Rightarrow> 'a list \<times> nat" where
  "sort_insert r k x [] = ([x], k)"
| "sort_insert r k x (y # ys) =
     (if 0 < r k - 1/2
      then (case sort_insert r (Suc k) x ys of (zs, k') \<Rightarrow> (y # zs, k'))
      else (x # y # ys, Suc k))"

fun sort_random :: "rng \<Rightarrow> nat \<Rightarrow> 'a list \<Rightarrow> 'a list \<times> nat" where
  "sort_random r k [] = ([], k)"
| "sort_random r k (x # xs) = (case sort_random r k xs of (ys, k') \<Rightarrow> sort_insert r k' x ys)"

definition generateStrongPassword :: "rng \<Rightarrow> string" where
  "generateStrongPassword r =
     (let password =
            js_char_at lowercase (rnd_index (length lowercase) (r 0))
          @ js_char_at uppercase (rnd_index (length uppercase) (r 1))
          @ js_char_at numbers (rnd_index (length numbers) (r 2))
          @ js_char_at symbols (rnd_index (length symbols) (r 3));
          password' = pw_fill r 4 password
      in concat (fst (sort_random r 12 (map (\<lambda>c. [c]) password'))))"

section \<open>REST calls with fallbacks\<close>

text \<open>
  \<open>result.data.domains || result.data\<close>: the API answers either \<open>{domains: [...]}\<close> or
  the array itself; an array is truthy even when empty.  A missing \<open>data\<close> makes
  \<open>result.data.domains\<close> throw, which the \<open>catch\<close> turns into the fallback list.
\<close>

datatype domains_payload = Domains_Field "domain list" | Domains_Array "domain list"

definition fallback_domains :: "domain list" where
  "fallback_domains =
     [\<lparr>dom_id = 1, dom_name = ''sendbun.com'', dom_accounts = 0, dom_total_emails = ''0'', dom_memory = ''0''\<rparr>,
      \<lparr>dom_id = 2, dom_name = ''mailbun.cc'', dom_accounts = 0, dom_total_emails = ''0'', dom_memory = ''0''\<rparr>,
      \<lparr>dom_id = 3, dom_name = ''tempmail.org'', dom_accounts = 0, dom_total_emails = ''0'', dom_memory = ''0''\<rparr>]"

fun loadDomains :: "domains_payload option api_result fetch_result \<Rightarrow> domain list" where
  "loadDomains Fetch_Error = fallback_domains"
| "loadDomains (Fetch_Json (Api_Failure err)) = fallback_domains"
| "loadDomains (Fetch_Json (Api_Success None)) = fallback_domains"
| "loadDomains (Fetch_Json (Api_Success (Some (Domains_Field ds)))) = ds"
| "loadDomains (Fetch_Json (Api_Success (Some (Domains_Array ds)))) = ds"

text \<open>The fields of \<open>result.data\<close> that \<open>createEmailAccount\<close> reads.\<close>

record account_payload =
  ap_id :: "int option"
  ap_email :: "string option"
  ap_domain_id :: "string option"

definition expiry_for :: "bool \<Rightarrow> ms \<Rightarrow> ms option" where
  "expiry_for is5Min now = (if is5Min then Some (now + 5 * 60 * 1000) else None)"

text \<open>The account built when the API fails or is unreachable.\<close>

definition mock_account :: "string \<Rightarrow> string \<Rightarrow> bool \<Rightarrow> ms \<Rightarrow> email_account" where
  "mock_account em pw is5Min now =
     \<lparr>acc_id = int_string now, email = em, password = pw, created_at = now,
      domain_id = ''mock'', expires_at = expiry_for is5Min now, is_5min = Some is5Min\<rparr>"

fun createEmailAccount ::
  "string \<Rightarrow> string \<Rightarrow> bool \<Rightarrow> ms \<Rightarrow> account_payload option api_result fetch_result \<Rightarrow> email_account" where
  "createEmailAccount em pw is5Min now (Fetch_Json (Api_Success (Some apiData))) =
     \<lparr>acc_id = opt_or (map_option int_string (ap_id apiData)) (int_string now),
      email = opt_or (ap_email apiData) em, password = pw, created_at = now,
      domain_id = opt_or (ap_domain_id apiData) '''', expires_at = expiry_for is5Min now,
      is_5min = Some is5Min\<rparr>"
| "createEmailAccount em pw is5Min now (Fetch_Json (Api_Success None)) = mock_account em pw is5Min now"
| "createEmailAccount em pw is5Min now (Fetch_Json (Api_Failure err)) = mock_account em pw is5Min now"
| "createEmailAccount em pw is5Min now Fetch_Error = mock_account em pw is5Min now"

fun deleteEmailAccount :: "'a api_result fetch_result \<Rightarrow> bool" where
  "deleteEmailAccount (Fetch_Json (Api_Success x)) = True"
| "deleteEmailAccount (Fetch_Json (Api_Failure err)) = True"
| "deleteEmailAccount Fetch_Error = True"

section \<open>localStorage\<close>

fun parse_stored :: "stored option \<Rightarrow> site_email_data option" where
  "parse_stored None = None"
| "parse_stored (Some (Stored_Data d)) = Some d"
| "parse_stored (Some (Stored_Text s)) = None"

definition saveEmailData :: "window \<Rightarrow> site_email_data \<Rightarrow> local_storage \<Rightarrow> local_storage" where
  "saveEmailData w d st = (case w of None \<Rightarrow> st | Some h \<Rightarrow> st(getSiteKey w \<mapsto> Stored_Data d))"

definition loadEmailData :: "window \<Rightarrow> local_storage \<Rightarrow> site_email_data option" where
  "loadEmailData w st = (case w of None \<Rightarrow> None | Some h \<Rightarrow> parse_stored (st (getSiteKey w)))"

definition clearEmailData :: "window \<Rightarrow> local_storage \<Rightarrow> local_storage" where
  "clearEmailData w st = (case w of None \<Rightarrow> st | Some h \<Rightarrow> st(getSiteKey w := None))"

definition saveFiveMinEmailData :: "window \<Rightarrow> five_min_email_data \<Rightarrow> local_storage \<Rightarrow> local_storage" where
  "saveFiveMinEmailData w d st = (case w of None \<Rightarrow> st | Some h \<Rightarrow> st(getFiveMinSiteKey w \<mapsto> Stored_Data d))"

definition loadFiveMinEmailData :: "window \<Rightarrow> local_storage \<Rightarrow> five_min_email_data option" where
  "loadFiveMinEmailData w st = (case w of None \<Rightarrow> None | Some h \<Rightarrow> parse_stored (st (getFiveMinSiteKey w)))"

definition clearFiveMinEmailData :: "window \<Rightarrow> local_storage \<Rightarrow> local_storage" where
  "clearFiveMinEmailData w st = (case w of None \<Rightarrow> st | Some h \<Rightarrow> st(getFiveMinSiteKey w := None))"

section \<open>Expiry\<close>

text \<open>\<open>new Date() > new Date(account.expires_at)\<close>; an account without expiry never expires.\<close>

definition isAccountExpired :: "ms \<Rightarrow> email_account \<Rightarrow> bool" where
  "isAccountExpired now a = (case expires_at a of None \<Rightarrow> False | Some e \<Rightarrow> e < now)"

text \<open>\<open>Math.max(0, Math.floor((expiresAt - now) / 1000))\<close>: \<open>div\<close> on \<open>int\<close> rounds down as \<open>Math.floor\<close> does.\<close>

definition getTimeRemaining :: "ms \<Rightarrow> email_account \<Rightarrow> int" where
  "getTimeRemaining now a = (case expires_at a of None \<Rightarrow> 0 | Some e \<Rightarrow> max 0 ((e - now) div 1000))"

section \<open>Account life cycle\<close>

datatype init_error = No_Domains | Type_Error

text \<open>
  What the world answers while one account is provisioned: the domains call, the
  \<open>Math.random()\<close> value that picks the domain, the generated user name, the password's
  random values and the create call (the inputs of the two initialisers below).
\<close>

record provision_input =
  pi_domains :: "domains_payload option api_result fetch_result"
  pi_rdom :: rat
  pi_username :: string
  pi_rpw :: rng
  pi_create :: "account_payload option api_result fetch_result"

text \<open>
  The part of \<open>initializeEmailAccount\<close> and \<open>initialize5MinEmailAccount\<close> after the
  reuse check (the two functions repeat it, with \<open>is5Min\<close> false and true and their own
  save function): load the domains, fail on an empty list, pick a domain with
  \<open>Math.random()\<close> (an index out of range reads \<open>undefined\<close>, whose \<open>.name\<close> throws),
  create the account and store it.  The user name comes from \<open>generateHumanLikeEmail\<close>
  of \<open>./name-generator\<close>, which is not in the repository; it is an input.
\<close>

definition provision ::
  "bool \<Rightarrow> (site_email_data \<Rightarrow> local_storage \<Rightarrow> local_storage) \<Rightarrow> ms \<Rightarrow>
   domains_payload option api_result fetch_result \<Rightarrow> rat \<Rightarrow> string \<Rightarrow> rng \<Rightarrow>
   account_payload option api_result fetch_result \<Rightarrow> local_storage \<Rightarrow>
   (init_error + email_account) \<times> local_storage" where
  "provision is5Min save now dres rdom username rpw cres st =
     (let ds = loadDomains dres
      in if length ds = 0 then (Inl No_Domains, st)
         else let i = rnd_index (length ds) rdom
              in if length ds \<le> i then (Inl Type_Error, st)
                 else let em = username @ ''@'' @ dom_name (ds ! i);
                          pw = generateStrongPassword rpw;
                          account = createEmailAccount em pw is5Min now cres;
                          emailData = \<lparr>domains = ds, currentAccount = Some account, lastUpdated = now\<rparr>
                      in (Inr account, save emailData st))"

text \<open>A stored regular account is reused while it is less than 24 hours old.\<close>

definition reusable_account :: "ms \<Rightarrow> site_email_data option \<Rightarrow> email_account option" where
  "reusable_account now existing =
     (case existing of
        None \<Rightarrow> None
      | Some d \<Rightarrow> (case currentAccount d of
           None \<Rightarrow> None
         | Some a \<Rightarrow> if now - created_at a < 24 * 60 * 60 * 1000 then Some a else None))"

definition initializeEmailAccount ::
  "window \<Rightarrow> ms \<Rightarrow> domains_payload option api_result fetch_result \<Rightarrow> rat \<Rightarrow> string \<Rightarrow> rng \<Rightarrow>
   account_payload option api_result fetch_result \<Rightarrow> local_storage \<Rightarrow>
   (init_error + email_account) \<times> local_storage" where
  "initializeEmailAccount w now dres rdom username rpw cres st =
     (case reusable_account now (loadEmailData w st) of
        Some a \<Rightarrow> (Inr a, st)
      | None \<Rightarrow> provision False (saveEmailData w) now dres rdom username rpw cres st)"

text \<open>A stored five-minute account is reused while it has not expired.\<close>

definition reusable_5min :: "ms \<Rightarrow> five_min_email_data option \<Rightarrow> email_account option" where
  "reusable_5min now existing =
     (case existing of
        None \<Rightarrow> None
      | Some d \<Rightarrow> (case currentAccount d of
           None \<Rightarrow> None
         | Some a \<Rightarrow> if \<not> isAccountExpired now a then Some a else None))"

definition initialize5MinEmailAccount ::
  "window \<Rightarrow> ms \<Rightarrow> domains_payload option api_result fetch_result \<Rightarrow> rat \<Rightarrow> string \<Rightarrow> rng \<Rightarrow>
   account_payload option api_result fetch_result \<Rightarrow> local_storage \<Rightarrow>
   (init_error + email_account) \<times> local_storage" where
  "initialize5MinEmailAccount w now dres rdom username rpw cres st =
     (case reusable_5min now (loadFiveMinEmailData w st) of
        Some a \<Rightarrow> (Inr a, st)
      | None \<Rightarrow> provision True (saveFiveMinEmailData w) now dres rdom username rpw cres st)"

text \<open>
  One clean-up step: if the loaded record holds an expired account, call
  \<open>deleteEmailAccount\<close> on its id (the list of ids deleted is the effect on the API;
  the call always resolves to true and its result is not read), set
  \<open>currentAccount\<close> to null and save the record back.
\<close>

definition cleanup_slot ::
  "(local_storage \<Rightarrow> site_email_data option) \<Rightarrow> (site_email_data \<Rightarrow> local_storage \<Rightarrow> local_storage) \<Rightarrow>
   ms \<Rightarrow> local_storage \<Rightarrow> string list \<times> local_storage" where
  "cleanup_slot load save now st =
     (case load st of
        None \<Rightarrow> ([], st)
      | Some d \<Rightarrow> (case currentAccount d of
           None \<Rightarrow> ([], st)
         | Some a \<Rightarrow> if isAccountExpired now a
                    then ([acc_id a], save (d\<lparr>currentAccount := None\<rparr>) st)
                    else ([], st)))"

definition cleanupExpiredAccounts :: "window \<Rightarrow> ms \<Rightarrow> local_storage \<Rightarrow> string list \<times> local_storage" where
  "cleanupExpiredAccounts w now st =
     (let (del1, st1) = cleanup_slot (loadEmailData w) (saveEmailData w) now st;
          (del2, st2) = cleanup_slot (loadFiveMinEmailData w) (saveFiveMinEmailData w) now st1
      in (del1 @ del2, st2))"

definition cleanupExpired5MinAccounts :: "window \<Rightarrow> ms \<Rightarrow> local_storage \<Rightarrow> string list \<times> local_storage" where
  "cleanupExpired5MinAccounts w now st =
     cleanup_slot (loadFiveMinEmailData w) (saveFiveMinEmailData w) now st"

text \<open>The two other address styles (user names again from \<open>./name-generator\<close>).\<close>

definition generateProfessionalEmailAccount :: "string \<Rightarrow> string \<Rightarrow> rng \<Rightarrow> string \<times> string" where
  "generateProfessionalEmailAccount domain username r =
     (username @ ''@'' @ domain, generateStrongPassword r)"

definition generateCasualEmailAccount :: "string \<Rightarrow> string \<Rightarrow> rng \<Rightarrow> string \<times> string" where
  "generateCasualEmailAccount domain username r =
     (username @ ''@'' @ domain, generateStrongPassword r)"


section \<open>Lemmas: site keys and storage\<close>

lemma length_sanitize_key [simp]: "length (sanitize_key s) = length s"
  by (simp add: sanitize_key_def)

lemma key_char_dash [simp]: "key_char CHR ''-''"
  by (simp add: key_char_def)

lemma sanitize_key_chars: "c \<in> set (sanitize_key s) \<Longrightarrow> key_char c"
  by (auto simp: sanitize_key_def split: if_splits)

lemma sanitize_key_idem: "sanitize_key (sanitize_key s) = sanitize_key s"
  by (simp add: sanitize_key_def comp_def)

lemma length_site_keys:
  "length (getFiveMinSiteKey w) = length (getSiteKey w) + 5"
  by (cases w) (simp_all add: getSiteKey_def getFiveMinSiteKey_def)

lemma site_key_ne [simp]:
  "getSiteKey w = getFiveMinSiteKey w \<longleftrightarrow> False"
  "getFiveMinSiteKey w = getSiteKey w \<longleftrightarrow> False"
  using length_site_keys [of w] by (metis add_cancel_left_right zero_neq_numeral)+

lemmas storage_defs = saveEmailData_def loadEmailData_def clearEmailData_def
  saveFiveMinEmailData_def loadFiveMinEmailData_def clearFiveMinEmailData_def

section \<open>Lemmas: passwords\<close>

lemma mset_sort_insert: "mset (fst (sort_insert r k x ys)) = add_mset x (mset ys)"
  by (induction r k x ys rule: sort_insert.induct) (auto split: prod.splits)

lemma mset_sort_random: "mset (fst (sort_random r k xs)) = mset xs"
proof (induction xs arbitrary: k)
  case Nil
  then show ?case by simp
next
  case (Cons x xs)
  obtain ys k' where yk: "sort_random r k xs = (ys, k')" by fastforce
  with Cons.IH [of k] have "mset ys = mset xs" by simp
  with yk show ?case by (simp add: mset_sort_insert)
qed

text \<open>\<open>split('')\<close> then \<open>join('')\<close> around a permutation keeps the characters.\<close>

lemma concat_singletons_mset:
  assumes "mset ys = mset (map (\<lambda>c. [c]) p)"
  shows "mset (concat ys) = mset p"
proof -
  have "\<forall>y\<in>set ys. \<exists>c. y = [c]"
    using assms by (metis (mono_tags, lifting) ex_map_conv mset_eq_setD)
  then have "concat ys = map hd ys"
    by (induction ys) auto
  then have "mset (concat ys) = image_mset hd (mset ys)" by simp
  also have "\<dots> = mset p" using assms by (simp add: image_mset.compositionality comp_def)
  finally show ?thesis .
qed

lemma pw_fill_shape:
  "rng_ok r \<Longrightarrow> \<exists>t. pw_fill r i pw = pw @ t \<and> length t = 12 - i \<and> set t \<subseteq> set allChars"
proof (induction r i pw rule: pw_fill.induct)
  case (1 r i pw)
  show ?case
  proof (cases "i < 12")
    case True
    let ?k = "rnd_index (length allChars) (r i)"
    have "?k < length allChars"
      using "1.prems" by (intro rnd_index_bound) (auto simp: rng_ok_def allChars_def lowercase_def)
    then have c: "js_char_at allChars ?k = [allChars ! ?k]" "allChars ! ?k \<in> set allChars"
      by (simp_all add: js_char_at_def)
    from "1.IH" "1.prems" True obtain t where
      "pw_fill r (Suc i) (pw @ js_char_at allChars ?k) = (pw @ js_char_at allChars ?k) @ t"
      "length t = 12 - Suc i" "set t \<subseteq> set allChars" by blast
    with True c show ?thesis
      by (intro exI [of _ "allChars ! ?k # t"]) (simp add: pw_fill.simps [of r i pw])
  next
    case False
    then show ?thesis by (simp add: pw_fill.simps [of r i pw])
  qed
qed

lemma char_at_pick:
  assumes "rng_ok r" "s \<noteq> []"
  shows "js_char_at s (rnd_index (length s) (r k)) = [s ! rnd_index (length s) (r k)] \<and>
         s ! rnd_index (length s) (r k) \<in> set s"
proof -
  have "rnd_index (length s) (r k) < length s"
    using assms by (intro rnd_index_bound) (auto simp: rng_ok_def)
  then show ?thesis by (simp add: js_char_at_def)
qed

lemma password_classes_nonempty:
  "lowercase \<noteq> []" "uppercase \<noteq> []" "numbers \<noteq> []" "symbols \<noteq> []"
  by (simp_all add: lowercase_def uppercase_def numbers_def symbols_def)

lemma mset_generateStrongPassword:
  "mset (generateStrongPassword r) = mset (pw_fill r 4
     (js_char_at lowercase (rnd_index (length lowercase) (r 0))
    @ js_char_at uppercase (rnd_index (length uppercase) (r 1))
    @ js_char_at numbers (rnd_index (length numbers) (r 2))
    @ js_char_at symbols (rnd_index (length symbols) (r 3))))"
  unfolding generateStrongPassword_def Let_def
  by (rule concat_singletons_mset) (rule mset_sort_random)

section \<open>Lemmas: accounts, expiry and the life cycle\<close>

lemma createEmailAccount_common:
  "password (createEmailAccount em pw is5Min now res) = pw \<and>
   created_at (createEmailAccount em pw is5Min now res) = now \<and>
   expires_at (createEmailAccount em pw is5Min now res) = expiry_for is5Min now \<and>
   is_5min (createEmailAccount em pw is5Min now res) = Some is5Min"
  by (cases "(em, pw, is5Min, now, res)" rule: createEmailAccount.cases) (simp_all add: mock_account_def)

lemma getTimeRemaining_nonneg: "0 \<le> getTimeRemaining now a"
  by (simp add: getTimeRemaining_def split: option.split)

lemma fallback_domains_nonempty [simp]: "fallback_domains \<noteq> []"
  by (simp add: fallback_domains_def)

lemma loadDomains_empty:
  "loadDomains dres = [] \<longleftrightarrow>
     dres = Fetch_Json (Api_Success (Some (Domains_Field []))) \<or>
     dres = Fetch_Json (Api_Success (Some (Domains_Array [])))"
  by (cases dres rule: loadDomains.cases) auto

lemma provision_error:
  assumes "0 \<le> rdom" "rdom < 1"
    and "provision is5Min save now dres rdom username rpw cres st = (Inl e, st')"
  shows "e = No_Domains \<and> st' = st \<and> loadDomains dres = []"
proof -
  have "loadDomains dres \<noteq> [] \<Longrightarrow> rnd_index (length (loadDomains dres)) rdom < length (loadDomains dres)"
    using assms(1,2) by (intro rnd_index_bound) auto
  then show ?thesis using assms(3) by (auto simp: provision_def Let_def split: if_splits)
qed

lemma provision_success:
  assumes "provision is5Min save now dres rdom username rpw cres st = (Inr a, st')"
  shows "st' = save \<lparr>domains = loadDomains dres, currentAccount = Some a, lastUpdated = now\<rparr> st \<and>
         expires_at a = expiry_for is5Min now \<and> created_at a = now"
  using assms createEmailAccount_common
  by (auto simp: provision_def Let_def split: if_splits)

lemma load_save_five_min [simp]:
  "loadFiveMinEmailData (Some h) (saveFiveMinEmailData (Some h) d st) = Some d"
  "loadEmailData (Some h) (saveEmailData (Some h) d st) = Some d"
  "loadEmailData w (saveFiveMinEmailData w d st) = loadEmailData w st"
  "loadFiveMinEmailData w (saveEmailData w d st) = loadFiveMinEmailData w st"
  by (cases w; simp add: storage_defs)+


section \<open>Properties\<close>

text \<open>
  C7: \<open>generateStrongPassword\<close> returns 12 characters, all from \<open>allChars\<close>, with
  at least one lower-case letter, one upper-case letter, one digit and one symbol, for
  every stream of \<open>Math.random()\<close> values in \<open>[0, 1)\<close>: every index it reads is in
  range (so no \<open>undefined\<close> is appended) and the random shuffle is a permutation.
\<close>

theorem generateStrongPassword_strong:
  assumes "rng_ok r"
  shows "length (generateStrongPassword r) = 12 \<and>
         set (generateStrongPassword r) \<subseteq> set allChars \<and>
         set lowercase \<inter> set (generateStrongPassword r) \<noteq> {} \<and>
         set uppercase \<inter> set (generateStrongPassword r) \<noteq> {} \<and>
         set numbers \<inter> set (generateStrongPassword r) \<noteq> {} \<and>
         set symbols \<inter> set (generateStrongPassword r) \<noteq> {}"
proof -
  define l where "l = lowercase ! rnd_index (length lowercase) (r 0)"
  define u where "u = uppercase ! rnd_index (length uppercase) (r 1)"
  define n where "n = numbers ! rnd_index (length numbers) (r 2)"
  define y where "y = symbols ! rnd_index (length symbols) (r 3)"
  note pick = char_at_pick [OF assms]
  have pl: "js_char_at lowercase (rnd_index (length lowercase) (r 0)) = [l]" "l \<in> set lowercase"
    using pick [OF password_classes_nonempty(1), of 0] by (simp_all only: l_def)
  have pu: "js_char_at uppercase (rnd_index (length uppercase) (r 1)) = [u]" "u \<in> set uppercase"
    using pick [OF password_classes_nonempty(2), of 1] by (simp_all only: u_def)
  have pn: "js_char_at numbers (rnd_index (length numbers) (r 2)) = [n]" "n \<in> set numbers"
    using pick [OF password_classes_nonempty(3), of 2] by (simp_all only: n_def)
  have py: "js_char_at symbols (rnd_index (length symbols) (r 3)) = [y]" "y \<in> set symbols"
    using pick [OF password_classes_nonempty(4), of 3] by (simp_all only: y_def)
  obtain t where t: "pw_fill r 4 [l, u, n, y] = [l, u, n, y] @ t" "length t = 8" "set t \<subseteq> set allChars"
    using pw_fill_shape [OF assms, of 4 "[l, u, n, y]"] by auto
  have m: "mset (generateStrongPassword r) = mset ([l, u, n, y] @ t)"
    using mset_generateStrongPassword [of r] pl(1) pu(1) pn(1) py(1) t(1) by simp
  then have s: "set (generateStrongPassword r) = set ([l, u, n, y] @ t)"
    by (metis set_mset_mset)
  have "length (generateStrongPassword r) = size (mset ([l, u, n, y] @ t))"
    by (simp only: m [symmetric] size_mset)
  then have "length (generateStrongPassword r) = 12"
    using t(2) by simp
  moreover have "set ([l, u, n, y] @ t) \<subseteq> set allChars"
    using pl(2) pu(2) pn(2) py(2) t(3) by (auto simp: allChars_def)
  ultimately show ?thesis using s pl(2) pu(2) pn(2) py(2) by auto
qed

theorem generateStrongPassword_strong_witness:
  "rng_ok (\<lambda>_. 0) \<and> length (generateStrongPassword (\<lambda>_. 0)) = 12"
  using generateStrongPassword_strong [of "\<lambda>_. 0"] by (simp add: rng_ok_def)

text \<open>
  C2: The regular and the five-minute records live under different \<open>localStorage\<close>
  keys: saving one and loading it back gives the saved record, saving one leaves the
  other unchanged, and clearing one makes it load as null.
\<close>

theorem storage_roundtrip:
  "loadEmailData (Some h) (saveEmailData (Some h) d st) = Some d \<and>
   loadFiveMinEmailData (Some h) (saveFiveMinEmailData (Some h) d st) = Some d \<and>
   loadFiveMinEmailData w (saveEmailData w d st) = loadFiveMinEmailData w st \<and>
   loadEmailData w (saveFiveMinEmailData w d st) = loadEmailData w st \<and>
   loadEmailData w (clearEmailData w st) = None \<and>
   loadFiveMinEmailData w (clearFiveMinEmailData w st) = None"
  by (cases w) (simp_all add: storage_defs)

text \<open>
  For every host name the two site keys differ, and every character of a key
  is in \<open>[a-zA-Z0-9-]\<close>.
\<close>

theorem site_keys_distinct:
  "getSiteKey w \<noteq> getFiveMinSiteKey w \<and>
   (w \<noteq> None \<longrightarrow> set (getSiteKey w) \<union> set (getFiveMinSiteKey w) \<subseteq> Collect key_char)"
proof -
  have "w \<noteq> None \<Longrightarrow> set (getSiteKey w) \<union> set (getFiveMinSiteKey w) \<subseteq> Collect key_char"
    by (auto simp: getSiteKey_def getFiveMinSiteKey_def dest: sanitize_key_chars)
  then show ?thesis using site_key_ne(1) [of w] by blast
qed

theorem site_keys_distinct_witness:
  "getSiteKey (Some ''mail.example.com'') = ''tempmail-mail-example-com''"
  using site_keys_distinct [of "Some ''mail.example.com''"]
  by (simp add: getSiteKey_def sanitize_key_def key_char_def)

text \<open>
  C18: On every branch (API success, failure or exception) a five-minute account is
  created with 300 seconds remaining, is not expired 5 minutes later and is expired
  one millisecond after that; a regular account never expires.
\<close>

theorem fresh_5min_account_timing:
  "getTimeRemaining now (createEmailAccount em pw True now res) = 300 \<and>
   \<not> isAccountExpired (now + 5 * 60 * 1000) (createEmailAccount em pw True now res) \<and>
   isAccountExpired (now + 5 * 60 * 1000 + 1) (createEmailAccount em pw True now res) \<and>
   \<not> isAccountExpired t (createEmailAccount em pw False now res)"
  using createEmailAccount_common [of em pw True now res] createEmailAccount_common [of em pw False now res]
  by (simp add: getTimeRemaining_def isAccountExpired_def expiry_for_def)

text \<open>
  C19: For an account expiring at most five minutes ahead, \<open>getTimeRemaining\<close> lies
  in \<open>[0, 300]\<close>, is 0 once the account has expired, and is 0 exactly when less than
  a second is left, which includes the last second before expiry.
\<close>

theorem time_remaining_bounds:
  assumes "expires_at a = Some e" "e - 5 * 60 * 1000 \<le> now"
  shows "0 \<le> getTimeRemaining now a \<and> getTimeRemaining now a \<le> 300 \<and>
         (isAccountExpired now a \<longrightarrow> getTimeRemaining now a = 0) \<and>
         (getTimeRemaining now a = 0 \<longleftrightarrow> e < now + 1000)"
proof -
  have "(e - now) div 1000 \<le> 300000 div 1000"
    using assms(2) by (intro zdiv_mono1) auto
  moreover have "(e - now) div 1000 \<le> 0 \<longleftrightarrow> e - now < 1000"
    by auto
  ultimately show ?thesis
    using assms(1) by (auto simp: getTimeRemaining_def isAccountExpired_def)
qed

theorem time_remaining_bounds_witness:
  "getTimeRemaining 299500 (createEmailAccount ''a@b.c'' ''pw'' True 0 Fetch_Error) = 0"
proof -
  have e: "expires_at (createEmailAccount ''a@b.c'' ''pw'' True 0 Fetch_Error) = Some 300000"
    by (simp add: mock_account_def expiry_for_def)
  from time_remaining_bounds [OF e, of 299500] show ?thesis by simp
qed

text \<open>
  C12: With \<open>Math.random()\<close> in \<open>[0, 1)\<close>, the only way \<open>initializeEmailAccount\<close> or
  \<open>initialize5MinEmailAccount\<close> rejects is \<open>No domains available\<close>, when the domains
  API succeeded with an empty list (a failed or unreachable API falls back to three
  domains), and then nothing is stored.
\<close>

theorem initialize_error:
  assumes "0 \<le> rdom" "rdom < 1"
    and "initializeEmailAccount w now dres rdom username rpw cres st = (Inl e, st') \<or>
         initialize5MinEmailAccount w now dres rdom username rpw cres st = (Inl e, st')"
  shows "e = No_Domains \<and> st' = st \<and>
         (dres = Fetch_Json (Api_Success (Some (Domains_Field []))) \<or>
          dres = Fetch_Json (Api_Success (Some (Domains_Array []))))"
proof -
  from assms(3) obtain is5Min save
    where p: "provision is5Min save now dres rdom username rpw cres st = (Inl e, st')"
    by (auto simp: initializeEmailAccount_def initialize5MinEmailAccount_def split: option.splits)
  from provision_error [OF assms(1,2) p] loadDomains_empty show ?thesis by simp
qed

theorem initialize_error_witness:
  "initialize5MinEmailAccount (Some ''x'') 0 (Fetch_Json (Api_Success (Some (Domains_Field []))))
     0 ''u'' (\<lambda>_. 0) Fetch_Error Map.empty = (Inl No_Domains, Map.empty)"
proof -
  let ?r = "initialize5MinEmailAccount (Some ''x'') 0 (Fetch_Json (Api_Success (Some (Domains_Field []))))
              0 ''u'' (\<lambda>_. 0) Fetch_Error Map.empty"
  have h: "?r = (Inl (projl (fst ?r)), snd ?r)"
    by (simp add: initialize5MinEmailAccount_def reusable_5min_def storage_defs provision_def)
  have c: "projl (fst ?r) = No_Domains" "snd ?r = Map.empty"
    using initialize_error [OF _ _ disjI2 [OF h]] by simp_all
  show ?thesis by (subst h) (simp only: c)
qed

text \<open>
  C1: Whatever account \<open>initialize5MinEmailAccount\<close> resolves to in a browser is
  not expired at that instant and is the one stored under the five-minute key; the
  regular record is left as it was.
\<close>

theorem initialize5MinEmailAccount_valid:
  assumes "initialize5MinEmailAccount (Some h) now dres rdom username rpw cres st = (Inr a, st')"
  shows "\<not> isAccountExpired now a \<and>
         map_option currentAccount (loadFiveMinEmailData (Some h) st') = Some (Some a) \<and>
         loadEmailData (Some h) st' = loadEmailData (Some h) st"
proof (cases "reusable_5min now (loadFiveMinEmailData (Some h) st)")
  case None
  with assms have p: "provision True (saveFiveMinEmailData (Some h)) now dres rdom username rpw cres st = (Inr a, st')"
    by (simp add: initialize5MinEmailAccount_def)
  from provision_success [OF p] show ?thesis
    by (simp add: isAccountExpired_def expiry_for_def)
next
  case (Some b)
  with assms have "a = b" "st' = st" by (simp_all add: initialize5MinEmailAccount_def)
  with Some show ?thesis
    by (auto simp: reusable_5min_def split: option.splits if_splits)
qed

theorem initialize5MinEmailAccount_valid_witness:
  "map_option currentAccount (loadFiveMinEmailData (Some ''x'')
     (snd (initialize5MinEmailAccount (Some ''x'') 0 Fetch_Error 0 ''u'' (\<lambda>_. 0) Fetch_Error Map.empty)))
   = Some (Some (projr (fst (initialize5MinEmailAccount (Some ''x'') 0 Fetch_Error 0 ''u'' (\<lambda>_. 0) Fetch_Error Map.empty))))"
proof -
  let ?r = "initialize5MinEmailAccount (Some ''x'') 0 Fetch_Error 0 ''u'' (\<lambda>_. 0) Fetch_Error Map.empty"
  have "?r = (Inr (projr (fst ?r)), snd ?r)"
    by (simp add: initialize5MinEmailAccount_def reusable_5min_def storage_defs provision_def Let_def)
  from initialize5MinEmailAccount_valid [OF this] show ?thesis by simp
qed

text \<open>
  \<open>initializeEmailAccount\<close> returns the stored regular account, and stores
  nothing, while that account is less than 24 hours old.
\<close>

theorem initializeEmailAccount_reuse:
  assumes "loadEmailData w st = Some d" "currentAccount d = Some a"
    and "now - created_at a < 24 * 60 * 60 * 1000"
  shows "initializeEmailAccount w now dres rdom username rpw cres st = (Inr a, st)"
  using assms by (simp add: initializeEmailAccount_def reusable_account_def)

theorem initializeEmailAccount_reuse_witness:
  "initializeEmailAccount (Some ''x'') 1000 Fetch_Error 0 ''u'' (\<lambda>_. 0) Fetch_Error
     (saveEmailData (Some ''x'') \<lparr>domains = [], currentAccount = Some (mock_account ''a@b.c'' ''pw'' False 0), lastUpdated = 0\<rparr> Map.empty)
   = (Inr (mock_account ''a@b.c'' ''pw'' False 0),
      saveEmailData (Some ''x'') \<lparr>domains = [], currentAccount = Some (mock_account ''a@b.c'' ''pw'' False 0), lastUpdated = 0\<rparr> Map.empty)"
proof -
  let ?a = "mock_account ''a@b.c'' ''pw'' False 0"
  let ?d = "\<lparr>domains = [], currentAccount = Some ?a, lastUpdated = 0\<rparr>"
  have "loadEmailData (Some ''x'') (saveEmailData (Some ''x'') ?d Map.empty) = Some ?d"
    by (simp add: storage_defs)
  moreover have "currentAccount ?d = Some ?a" by simp
  moreover have "1000 - created_at ?a < 24 * 60 * 60 * 1000" by (simp add: mock_account_def)
  ultimately show ?thesis by (rule initializeEmailAccount_reuse)
qed

text \<open>
  C5: After \<open>cleanupExpired5MinAccounts\<close> no expired account is left in the
  five-minute record, the regular record is untouched, and at most one delete is
  issued, for the id of an account that was stored and expired.
\<close>

theorem cleanupExpired5MinAccounts_spec:
  assumes "cleanupExpired5MinAccounts w now st = (dels, st')"
  shows "(\<forall>d a. loadFiveMinEmailData w st' = Some d \<longrightarrow> currentAccount d = Some a \<longrightarrow>
                \<not> isAccountExpired now a) \<and>
         loadEmailData w st' = loadEmailData w st \<and>
         length dels \<le> 1 \<and>
         (\<forall>i \<in> set dels. \<exists>d a. loadFiveMinEmailData w st = Some d \<and> currentAccount d = Some a \<and>
                               acc_id a = i \<and> isAccountExpired now a)"
  using assms
  by (cases w) (auto simp: cleanupExpired5MinAccounts_def cleanup_slot_def storage_defs
                     split: option.splits if_splits)

theorem cleanupExpired5MinAccounts_spec_witness:
  "fst (cleanupExpired5MinAccounts (Some ''x'') 400000
     (saveFiveMinEmailData (Some ''x'') \<lparr>domains = [], currentAccount = Some (mock_account ''a@b.c'' ''pw'' True 0), lastUpdated = 0\<rparr> Map.empty))
   = [''0'']"
proof -
  let ?st = "saveFiveMinEmailData (Some ''x'') \<lparr>domains = [], currentAccount = Some (mock_account ''a@b.c'' ''pw'' True 0), lastUpdated = 0\<rparr> Map.empty"
  have "cleanupExpired5MinAccounts (Some ''x'') 400000 ?st
        = (fst (cleanupExpired5MinAccounts (Some ''x'') 400000 ?st), snd (cleanupExpired5MinAccounts (Some ''x'') 400000 ?st))"
    by simp
  from cleanupExpired5MinAccounts_spec [OF this] show ?thesis
    by (simp add: cleanupExpired5MinAccounts_def cleanup_slot_def mock_account_def isAccountExpired_def
                  expiry_for_def int_string_def dec_string_unfold js_eval)
qed

end
