(* ===== verification/Notification_Client.thy ===== *)
theory Notification_Client
  imports Prelude
begin

text \<open>
  The real-time notification client \<open>EmailNotificationClient\<close> that both inbox pages
  import from \<open>@/lib/email-notification-client\<close>.  That file is not among the
  repository's sources, so this theory models it from the specification (section 4.1):
  a record of its state, one function per public method and per transport callback,
  composed into a deterministic step function over events, and the set of states
  reachable from construction as an inductive predicate.  Handlers are values of a
  type parameter \<open>'h\<close> (the host decides what a handler is); messages sent to the
  server are recorded in \<open>outbox\<close>.
\<close>

section \<open>State\<close>

datatype transport = Disconnected | Connecting | Connected | Closed

datatype out_msg = Authenticate string | Join_Room string

text \<open>
  A "new email" push (section 6 and 9): optional sender and subject, and the other fields,
  passed through uninterpreted.
\<close>

record notif_payload =
  np_from :: "string option"
  np_subject :: "string option"
  np_extra :: "(string \<times> string) list"

text \<open>
  Besides the connection, the client keeps its duplicate records (sender, subject, arrival
  instant) and, as the observable effect of dispatch, the log of handler invocations with
  the payload each was given.
\<close>

record 'h client =
  enabled :: bool
  transport :: transport
  reconnectAttempts :: nat
  maxReconnectAttempts :: nat
  session_account :: "string option"
  session_room :: "string option"
  callbacks :: "'h list"
  reconnect_due :: "ms option"
  outbox :: "out_msg list"
  recent :: "(string \<times> string \<times> ms) list"
  delivered :: "('h \<times> notif_payload) list"

record conn_status =
  isConnected :: bool
  reconnectAttempts_st :: nat
  isEnabled :: bool

section \<open>Operations\<close>

text \<open>
  A URL of the REST API (the host tests for \<open>uapi.sendbun.com\<close>) disables the client for
  its whole life; any other URL opens the transport at once.
\<close>

definition is_rest_url :: "string \<Rightarrow> bool" where
  "is_rest_url url = js_includes url ''uapi.sendbun.com''"

definition newEmailNotificationClient :: "string \<Rightarrow> nat \<Rightarrow> 'h client" where
  "newEmailNotificationClient url maxA =
     \<lparr>enabled = \<not> is_rest_url url,
      transport = (if is_rest_url url then Disconnected else Connecting),
      reconnectAttempts = 0, maxReconnectAttempts = maxA,
      session_account = None, session_room = None, callbacks = [],
      reconnect_due = None, outbox = [], recent = [], delivered = []\<rparr>"

text \<open>The handshake for a known session: authenticate, then join the mailbox's room.\<close>

definition handshake :: "'h client \<Rightarrow> out_msg list" where
  "handshake c =
     (case (session_account c, session_room c) of
        (Some a, Some r) \<Rightarrow> [Authenticate a, Join_Room r]
      | _ \<Rightarrow> [])"

definition on_open :: "'h client \<Rightarrow> 'h client" where
  "on_open c =
     (if transport c = Connecting
      then c\<lparr>transport := Connected, reconnectAttempts := 0, outbox := outbox c @ handshake c\<rparr>
      else c)"

text \<open>Back-off before reconnect attempt \<open>n\<close>: doubling from one second, at most thirty.\<close>

definition backoff_delay :: "nat \<Rightarrow> ms" where
  "backoff_delay n = min (1000 * 2 ^ n) 30000"

definition on_close :: "ms \<Rightarrow> 'h client \<Rightarrow> 'h client" where
  "on_close now c =
     (if transport c = Connecting \<or> transport c = Connected
      then (if reconnectAttempts c < maxReconnectAttempts c
            then c\<lparr>transport := Disconnected,
                   reconnect_due := Some (now + backoff_delay (reconnectAttempts c)),
                   reconnectAttempts := Suc (reconnectAttempts c)\<rparr>
            else c\<lparr>transport := Disconnected, reconnect_due := None\<rparr>)
      else c)"

definition reconnect_fire :: "ms \<Rightarrow> 'h client \<Rightarrow> 'h client" where
  "reconnect_fire now c =
     (case reconnect_due c of
        Some due \<Rightarrow> if due \<le> now \<and> transport c = Disconnected
                    then c\<lparr>transport := Connecting, reconnect_due := None\<rparr> else c
      | None \<Rightarrow> c)"

text \<open>
  \<open>authenticate\<close> and \<open>joinEmailRoom\<close> cache the session identity and send only while
  connected; otherwise the message is dropped and resent by the next \<open>on_open\<close>.
\<close>

definition authenticate :: "string \<Rightarrow> 'h client \<Rightarrow> 'h client" where
  "authenticate a c =
     (if \<not> enabled c then c
      else c\<lparr>session_account := Some a,
             outbox := outbox c @ (if transport c = Connected then [Authenticate a] else [])\<rparr>)"

definition joinEmailRoom :: "string \<Rightarrow> 'h client \<Rightarrow> 'h client" where
  "joinEmailRoom r c =
     (if \<not> enabled c then c
      else c\<lparr>session_room := Some r,
             outbox := outbox c @ (if transport c = Connected then [Join_Room r] else [])\<rparr>)"

definition onNewEmail :: "'h \<Rightarrow> 'h client \<Rightarrow> 'h client" where
  "onNewEmail h c = c\<lparr>callbacks := callbacks c @ [h]\<rparr>"

definition clearNotificationCallbacks :: "'h client \<Rightarrow> 'h client" where
  "clearNotificationCallbacks c = c\<lparr>callbacks := []\<rparr>"

definition disconnect :: "'h client \<Rightarrow> 'h client" where
  "disconnect c = (if \<not> enabled c then c else c\<lparr>transport := Closed, reconnect_due := None\<rparr>)"

definition getConnectionStatus :: "'h client \<Rightarrow> conn_status" where
  "getConnectionStatus c =
     \<lparr>isConnected = (transport c = Connected), reconnectAttempts_st = reconnectAttempts c,
      isEnabled = enabled c\<rparr>"

definition isWebSocketAvailable :: "'h client \<Rightarrow> bool" where
  "isWebSocketAvailable c = enabled c"

text \<open>A "new email" push: the handlers to call, in registration order (none unless connected).\<close>

definition dispatch :: "'h client \<Rightarrow> 'h list" where
  "dispatch c = (if transport c = Connected then callbacks c else [])"

text \<open>
  The dispatch layer (section 4.1): the key of a push is its sender or \<open>unknown\<close> and its
  subject or \<open>no-subject\<close>; a record lives for the 5000 ms window and is dropped when
  found older (the monotonic-time check on lookup of section 9).  A push matching a live
  record is dropped; otherwise it is recorded and every handler is called, in registration
  order, with the payload.  Pushes arrive only over a live connection.
\<close>

definition dedup_ms :: ms where
  "dedup_ms = 5000"

definition payload_key :: "notif_payload \<Rightarrow> string \<times> string" where
  "payload_key p = (opt_or (np_from p) ''unknown'', opt_or (np_subject p) ''no-subject'')"

definition live_recent :: "ms \<Rightarrow> 'h client \<Rightarrow> (string \<times> string \<times> ms) list" where
  "live_recent now c = filter (\<lambda>(f, s, t). now < t + dedup_ms) (recent c)"

definition is_recent_dup :: "ms \<Rightarrow> notif_payload \<Rightarrow> 'h client \<Rightarrow> bool" where
  "is_recent_dup now p c = list_ex (\<lambda>(f, s, t). (f, s) = payload_key p) (live_recent now c)"

definition on_message :: "ms \<Rightarrow> notif_payload \<Rightarrow> 'h client \<Rightarrow> 'h client" where
  "on_message now p c =
     (if transport c \<noteq> Connected then c
      else if is_recent_dup now p c then c\<lparr>recent := live_recent now c\<rparr>
      else c\<lparr>recent := live_recent now c @ [(fst (payload_key p), snd (payload_key p), now)],
             delivered := delivered c @ map (\<lambda>h. (h, p)) (callbacks c)\<rparr>)"

section \<open>Events and runs\<close>

datatype 'h client_event =
    Ev_Open
  | Ev_Close ms
  | Ev_Reconnect_Timer ms
  | Ev_Authenticate string
  | Ev_Join string
  | Ev_On_New_Email 'h
  | Ev_Clear_Callbacks
  | Ev_Disconnect
  | Ev_Message ms notif_payload

fun client_step :: "'h client \<Rightarrow> 'h client_event \<Rightarrow> 'h client" where
  "client_step c Ev_Open = on_open c"
| "client_step c (Ev_Close now) = on_close now c"
| "client_step c (Ev_Reconnect_Timer now) = reconnect_fire now c"
| "client_step c (Ev_Authenticate a) = authenticate a c"
| "client_step c (Ev_Join r) = joinEmailRoom r c"
| "client_step c (Ev_On_New_Email h) = onNewEmail h c"
| "client_step c Ev_Clear_Callbacks = clearNotificationCallbacks c"
| "client_step c Ev_Disconnect = disconnect c"
| "client_step c (Ev_Message now p) = on_message now p c"

fun client_run :: "'h client \<Rightarrow> 'h client_event list \<Rightarrow> 'h client" where
  "client_run c [] = c"
| "client_run c (e # es) = client_run (client_step c e) es"

inductive client_reachable :: "'h client \<Rightarrow> bool" where
  init: "client_reachable (newEmailNotificationClient url maxA)"
| step: "client_reachable c \<Longrightarrow> client_reachable (client_step c e)"

text \<open>The client's invariant: what every reachable state satisfies.\<close>

definition client_inv :: "'h client \<Rightarrow> bool" where
  "client_inv c \<longleftrightarrow>
     reconnectAttempts c \<le> maxReconnectAttempts c \<and>
     (reconnect_due c \<noteq> None \<longrightarrow> transport c = Disconnected) \<and>
     (\<not> enabled c \<longrightarrow> transport c = Disconnected \<and> outbox c = [] \<and> reconnect_due c = None)"

text \<open>
  No live transport and none to come: disconnected with no reconnect pending (the state
  after the last allowed attempt failed), or closed by \<open>disconnect\<close>.
\<close>

definition gave_up :: "'h client \<Rightarrow> bool" where
  "gave_up c \<longleftrightarrow> (transport c = Disconnected \<or> transport c = Closed) \<and> reconnect_due c = None"

text \<open>A failed connection attempt: the transport closes, the back-off timer fires.\<close>

definition failed_attempt :: "'h client_event list" where
  "failed_attempt = [Ev_Close 0, Ev_Reconnect_Timer 30000]"

section \<open>The specified connection machine\<close>

text \<open>
  The state machine of the specification (section 4.1) over the phase of the connection and
  the attempt counter: a successful open resets the counter, a close or failure of a live
  transport schedules a retry (counting it) while attempts remain and gives up otherwise,
  the back-off leads back to connecting, and \<open>disconnect()\<close> closes from any enabled
  phase.  A disabled client has no transition.
\<close>

datatype conn_phase =
    Ph_Disabled
  | Ph_Connecting
  | Ph_Connected
  | Ph_Disconnected
  | Ph_Gave_Up
  | Ph_Closed

inductive spec_conn_step :: "nat \<Rightarrow> conn_phase \<times> nat \<Rightarrow> conn_phase \<times> nat \<Rightarrow> bool" for maxA where
  open_ok: "spec_conn_step maxA (Ph_Connecting, n) (Ph_Connected, 0)"
| fail_retry: "p = Ph_Connecting \<or> p = Ph_Connected \<Longrightarrow> n < maxA \<Longrightarrow>
                 spec_conn_step maxA (p, n) (Ph_Disconnected, Suc n)"
| fail_give_up: "p = Ph_Connecting \<or> p = Ph_Connected \<Longrightarrow> maxA \<le> n \<Longrightarrow>
                   spec_conn_step maxA (p, n) (Ph_Gave_Up, n)"
| backoff: "spec_conn_step maxA (Ph_Disconnected, n) (Ph_Connecting, n)"
| close_call: "p \<noteq> Ph_Disabled \<Longrightarrow> spec_conn_step maxA (p, n) (Ph_Closed, n)"

text \<open>
  The abstraction of a client state: a disconnected transport with a reconnect timer pending
  is the phase \<open>Disconnected\<close>, one with none is \<open>GaveUp\<close>.
\<close>

definition conn_abs :: "'h client \<Rightarrow> conn_phase \<times> nat" where
  "conn_abs c =
     (if \<not> enabled c then Ph_Disabled
      else (case transport c of
              Connecting \<Rightarrow> Ph_Connecting
            | Connected \<Rightarrow> Ph_Connected
            | Closed \<Rightarrow> Ph_Closed
            | Disconnected \<Rightarrow> if reconnect_due c = None then Ph_Gave_Up else Ph_Disconnected),
      reconnectAttempts c)"


section \<open>Lemmas\<close>

lemmas client_ops_defs = on_open_def on_close_def reconnect_fire_def authenticate_def
  joinEmailRoom_def onNewEmail_def clearNotificationCallbacks_def disconnect_def on_message_def

lemma client_run_append: "client_run c (es @ fs) = client_run (client_run c es) fs"
  by (induction es arbitrary: c) auto

lemma client_step_inv: "client_inv c \<Longrightarrow> client_inv (client_step c e)"
  by (cases e) (auto simp: client_inv_def client_ops_defs split: option.splits)

lemma newEmailNotificationClient_inv: "client_inv (newEmailNotificationClient url maxA)"
  by (simp add: client_inv_def newEmailNotificationClient_def)

lemma client_run_reachable: "client_reachable c \<Longrightarrow> client_reachable (client_run c es)"
  by (induction es arbitrary: c) (auto intro: client_reachable.step)

lemma gave_up_step: "gave_up c \<Longrightarrow> gave_up (client_step c e)"
  by (cases e) (auto simp: gave_up_def client_ops_defs split: option.splits)

lemma failed_attempt_step:
  assumes "transport c = Connecting" "reconnect_due c = None"
    and "reconnectAttempts c < maxReconnectAttempts c"
  shows "client_run c failed_attempt =
           c\<lparr>reconnectAttempts := Suc (reconnectAttempts c)\<rparr>"
proof -
  have "backoff_delay (reconnectAttempts c) \<le> 30000" by (simp add: backoff_delay_def)
  with assms show ?thesis by (cases c) (simp add: failed_attempt_def client_ops_defs)
qed

lemma failed_attempts_run:
  assumes "transport c = Connecting" "reconnect_due c = None"
    and "reconnectAttempts c + n \<le> maxReconnectAttempts c"
  shows "client_run c (concat (replicate n failed_attempt)) =
           c\<lparr>reconnectAttempts := reconnectAttempts c + n\<rparr>"
  using assms
proof (induction n arbitrary: c)
  case 0
  then show ?case by simp
next
  case (Suc n)
  have "client_run c failed_attempt = c\<lparr>reconnectAttempts := Suc (reconnectAttempts c)\<rparr>"
    using Suc.prems by (intro failed_attempt_step) auto
  with Suc.IH [of "c\<lparr>reconnectAttempts := Suc (reconnectAttempts c)\<rparr>"] Suc.prems
  show ?case by (simp add: client_run_append)
qed

lemma enabled_client_run: "enabled (client_run c es) = enabled c"
proof (induction es arbitrary: c)
  case Nil
  then show ?case by simp
next
  case (Cons e es)
  have "enabled (client_step c e) = enabled c"
    by (cases e) (simp_all add: client_ops_defs split: option.splits)
  with Cons.IH show ?case by simp
qed

lemma client_reachable_inv: "client_reachable c \<Longrightarrow> client_inv c"
proof (induction rule: client_reachable.induct)
  case (init url maxA)
  show ?case by (rule newEmailNotificationClient_inv)
next
  case (step c e)
  from step.IH show ?case by (rule client_step_inv)
qed

lemma gave_up_stays:
  "gave_up c \<Longrightarrow> gave_up (client_run c es) \<and> transport (client_run c es) \<noteq> Connected \<and>
                 dispatch (client_run c es) = []"
proof (induction es arbitrary: c)
  case Nil
  then show ?case by (auto simp: gave_up_def dispatch_def)
next
  case (Cons e es)
  from gave_up_step [OF Cons.prems] show ?case by (simp add: Cons.IH)
qed

lemma retries_exhausted:
  assumes "\<not> is_rest_url url"
  shows "gave_up (client_run (newEmailNotificationClient url maxA) (concat (replicate maxA failed_attempt) @ [Ev_Close 0])) \<and>
         reconnectAttempts (client_run (newEmailNotificationClient url maxA) (concat (replicate maxA failed_attempt) @ [Ev_Close 0])) = maxA"
proof -
  let ?c = "newEmailNotificationClient url maxA :: 'h client"
  have h: "client_run ?c (concat (replicate maxA failed_attempt)) = ?c\<lparr>reconnectAttempts := maxA\<rparr>"
    using failed_attempts_run [of ?c maxA] assms by (simp add: newEmailNotificationClient_def)
  have r: "client_run ?c (concat (replicate maxA failed_attempt) @ [Ev_Close 0])
          = on_close 0 (?c\<lparr>reconnectAttempts := maxA\<rparr>)"
    by (simp add: client_run_append h)
  show ?thesis using assms unfolding r
    by (simp add: on_close_def newEmailNotificationClient_def gave_up_def)
qed

lemma disabled_client_silent:
  assumes "is_rest_url url"
  shows "outbox (client_run (newEmailNotificationClient url maxA) es) = [] \<and>
         dispatch (client_run (newEmailNotificationClient url maxA) es) = [] \<and>
         \<not> isWebSocketAvailable (client_run (newEmailNotificationClient url maxA) es)"
proof -
  have "client_inv (client_run (newEmailNotificationClient url maxA) es)"
    by (intro client_reachable_inv client_run_reachable client_reachable.init)
  with assms show ?thesis
    by (simp add: client_inv_def enabled_client_run newEmailNotificationClient_def dispatch_def
                  isWebSocketAvailable_def)
qed

inductive_cases spec_conn_stepE: "spec_conn_step maxA s s'"

lemma maxReconnectAttempts_client_run:
  "maxReconnectAttempts (client_run c es) = maxReconnectAttempts c"
proof (induction es arbitrary: c)
  case Nil
  then show ?case by simp
next
  case (Cons e es)
  have "maxReconnectAttempts (client_step c e) = maxReconnectAttempts c"
    by (cases e) (simp_all add: client_ops_defs split: option.splits)
  with Cons.IH show ?case by simp
qed

text \<open>Each event of the client is a transition of the specified machine or leaves its image unchanged.\<close>

lemma client_step_refines:
  "client_inv c \<Longrightarrow>
   conn_abs (client_step c e) = conn_abs c \<or>
   spec_conn_step (maxReconnectAttempts c) (conn_abs c) (conn_abs (client_step c e))"
  by (cases e)
     (auto simp: conn_abs_def client_inv_def client_ops_defs spec_conn_step.simps
           split: option.splits transport.splits)

lemma client_run_refines:
  "client_inv c \<Longrightarrow>
   (spec_conn_step (maxReconnectAttempts c))\<^sup>*\<^sup>* (conn_abs c) (conn_abs (client_run c es))"
proof (induction es arbitrary: c)
  case Nil
  then show ?case by simp
next
  case (Cons e es)
  have "(spec_conn_step (maxReconnectAttempts c))\<^sup>*\<^sup>* (conn_abs c) (conn_abs (client_step c e))"
    using client_step_refines [OF Cons.prems, of e] by auto
  moreover have "maxReconnectAttempts (client_step c e) = maxReconnectAttempts c"
    using maxReconnectAttempts_client_run [of c "[e]"] by simp
  moreover have "client_inv (client_step c e)"
    using Cons.prems by (rule client_step_inv)
  ultimately show ?case using Cons.IH [of "client_step c e"] by simp
qed

lemma reconnect_rejoins:
  assumes "transport c = Connected" "reconnect_due c = None"
    and "session_account c = Some a" "session_room c = Some r"
    and "reconnectAttempts c < maxReconnectAttempts c"
  shows "client_run c [Ev_Close t, Ev_Reconnect_Timer (t + 30000), Ev_Open] =
           c\<lparr>reconnectAttempts := 0, outbox := outbox c @ [Authenticate a, Join_Room r]\<rparr>"
proof -
  have "backoff_delay (reconnectAttempts c) \<le> 30000" by (simp add: backoff_delay_def)
  with assms show ?thesis by (cases c) (simp add: client_ops_defs handshake_def)
qed

lemma live_recent_mono:
  "t \<le> t' \<Longrightarrow> x \<in> set (live_recent t' c) \<Longrightarrow> x \<in> set (live_recent t c)"
  by (auto simp: live_recent_def)

text \<open>
  The duplicate window of one push: after a push that was delivered at \<open>t\<close>, the same
  push is a duplicate at a later \<open>t'\<close> exactly while \<open>t' < t + 5000\<close>.
\<close>

lemma on_message_window:
  assumes "transport c = Connected" "\<not> is_recent_dup t p c" "t \<le> t'"
  shows "is_recent_dup t' p (on_message t p c) \<longleftrightarrow> t' < t + dedup_ms"
proof -
  have old: "\<not> list_ex (\<lambda>(f, s, u). (f, s) = payload_key p) (live_recent t' c)"
    using assms(2,3) live_recent_mono [OF assms(3), of _ c]
    by (fastforce simp: is_recent_dup_def list_ex_iff)
  have "live_recent t' (on_message t p c) =
          filter (\<lambda>(f, s, u). t' < u + dedup_ms) (live_recent t c) @
          (if t' < t + dedup_ms then [(fst (payload_key p), snd (payload_key p), t)] else [])"
    using assms(1,2) by (simp add: on_message_def live_recent_def)
  moreover have "filter (\<lambda>(f, s, u). t' < u + dedup_ms) (live_recent t c) = live_recent t' c"
    using assms(3) by (auto simp: live_recent_def intro!: filter_cong)
  ultimately show ?thesis
    using old by (auto simp: is_recent_dup_def)
qed

text \<open>
  Refinement of the specified state machine: a client starts in the phase the
  specification gives it, and every run of its events is, through \<open>conn_abs\<close>, a run of
  the specified connection machine (each event a transition of it or a stutter).
\<close>

lemma client_refines_spec:
  "conn_abs (newEmailNotificationClient url maxA :: 'h client) =
     (if is_rest_url url then Ph_Disabled else Ph_Connecting, 0) \<and>
   (spec_conn_step maxA)\<^sup>*\<^sup>* (conn_abs (newEmailNotificationClient url maxA :: 'h client))
     (conn_abs (client_run (newEmailNotificationClient url maxA :: 'h client) es))"
proof
  show "conn_abs (newEmailNotificationClient url maxA :: 'h client) =
          (if is_rest_url url then Ph_Disabled else Ph_Connecting, 0)"
    by (simp add: conn_abs_def newEmailNotificationClient_def)
  show "(spec_conn_step maxA)\<^sup>*\<^sup>* (conn_abs (newEmailNotificationClient url maxA :: 'h client))
          (conn_abs (client_run (newEmailNotificationClient url maxA :: 'h client) es))"
    using client_run_refines [OF newEmailNotificationClient_inv, of url maxA es]
    by (simp add: newEmailNotificationClient_def)
qed

end
