(* ===== verification/Inbox_Page.thy ===== *)
theory Inbox_Page
  imports Email_Service Notification_Client
begin

text \<open>
  Model of the regular inbox page \<open>src/app/[locale]/inbox/page.tsx\<close> (the five-minute
  inbox repeats its handlers; see \<open>Five_Minute\<close>).  The page's \<open>useState\<close> values
  and \<open>useRef\<close> cells are one record, \<open>inbox_state\<close>; each handler is a function on
  it.  Effects the page has on the outside are recorded in the state: the requests it
  sends (\<open>requests\<close>), the toasts it shows (\<open>toasts\<close>), the clipboard writes.  A
  request that is awaited is split in two: the call that sends it, and the function that
  handles its response; \<open>inflight\<close> keeps, for each load in flight, the toasts its
  \<open>.finally\<close> shows.  Timers are explicit: the pending debounced refresh
  (\<open>refresh_due\<close>) and the pending deletions of duplicate-check keys
  (\<open>dedup_timers\<close>) fire when the clock passes their due time.
\<close>

section \<open>Data\<close>

record email_address =
  ea_full :: string
  ea_host :: string
  ea_mail :: string
  ea_mailbox :: string
  ea_personal :: string

record mail_headers =
  mh_cc :: "email_address list"
  mh_to :: "email_address list"
  mh_bcc :: "email_address list"
  mh_from :: "email_address list"

text \<open>\<open>Email.date\<close> is kept as the instant its text denotes.\<close>

record email =
  em_count :: int
  em_parent_email_id :: int
  em_id :: int
  em_folder :: string
  em_size :: string
  em_is_seen :: string
  em_mail_headers :: mail_headers
  em_body :: string
  em_subject :: string
  em_date :: ms
  em_have_attachments :: bool
  em_html :: string
  em_user_id :: int
  em_to :: string
  em_to_ :: "email_address list"
  em_from_ :: "email_address list"
  em_from :: string

record full_email =
  fe_id :: int
  fe_folder :: string
  fe_size :: string
  fe_is_seen :: string
  fe_to :: string
  fe_from_addrs :: "email_address list"
  fe_from :: string
  fe_body :: string
  fe_html :: string
  fe_subject :: string
  fe_date :: ms
  fe_have_attachments :: bool
  fe_attachments :: "string list"

record pagination_data =
  pd_currentPage :: int
  pd_pageSize :: int
  pd_totalItems :: int
  pd_totalPages :: int
  pd_hasNextPage :: bool

text \<open>\<open>result.data\<close> of \<open>/api/emails\<close>: its \<open>data\<close> array and \<open>pagination\<close>, either may be missing.\<close>

record emails_payload =
  ep_data :: "email list option"
  ep_pagination :: "pagination_data option"

text \<open>A new-email push: \<open>from\<close> and \<open>subject\<close>, both optional.\<close>

record notification =
  n_from :: "string option"
  n_subject :: "string option"

datatype request =
    Get_Emails string string int
  | Get_Email string int
  | Delete_Email "string option" int

datatype toast =
    Toast_Demo_Mode
  | Toast_Load_Failed
  | Toast_Error_Loading
  | Toast_Refreshing
  | Toast_Dismiss_Refreshing
  | Toast_Refreshed
  | Toast_New_Email string
  | Toast_Load_Email_Failed string
  | Toast_Error_Loading_Email
  | Toast_Email_Deleted
  | Toast_Delete_Failed string
  | Toast_Delete_Error
  | Toast_Copied_Id
  | Toast_Copied_Address
  | Toast_Account_Refreshed
  | Toast_No_Account
  | Toast_Account_Expired

record inbox_state =
  emails :: "email list"
  pagination :: "pagination_data option"
  isLoading :: bool
  currentPage :: int
  fullEmail :: "full_email option"
  isLoadingEmail :: bool
  searchTerm :: string
  filterFolder :: string
  hasEmailAccount :: bool
  isEmailModalOpen :: bool
  wsConnectionStatus :: conn_status
  refresh_due :: "ms option"
  lastLoadTime :: ms
  recentNotifications :: "string list"
  dedup_timers :: "(ms \<times> string) list"
  requests :: "request list"
  inflight :: "toast list list"
  deletes_inflight :: "(int \<times> email list) list"
  toasts :: "toast list"
  clipboard :: "string list"

definition inbox_init :: inbox_state where
  "inbox_init =
     \<lparr>emails = [], pagination = None, isLoading = True, currentPage = 1, fullEmail = None,
      isLoadingEmail = False, searchTerm = [], filterFolder = ''inbox,spam'',
      hasEmailAccount = False, isEmailModalOpen = False,
      wsConnectionStatus = \<lparr>isConnected = False, reconnectAttempts_st = 0, isEnabled = False\<rparr>,
      refresh_due = None, lastLoadTime = 0, recentNotifications = [], dedup_timers = [],
      requests = [], inflight = [], deletes_inflight = [], toasts = [], clipboard = []\<rparr>"

section \<open>Loading the inbox\<close>

text \<open>
  \<open>loadEmails\<close>: nothing without an account id; nothing if the last load started less
  than \<open>LOAD_THROTTLE_MS = 2000\<close> ago; otherwise remember the time and send the request.
  The second component says whether a request was sent (otherwise the returned promise
  is already settled).
\<close>

definition loadEmails :: "string option \<Rightarrow> ms \<Rightarrow> inbox_state \<Rightarrow> inbox_state \<times> bool" where
  "loadEmails emailAccountId now s =
     (case emailAccountId of
        None \<Rightarrow> (s, False)
      | Some aid \<Rightarrow>
          if aid = [] then (s, False)
          else if now - lastLoadTime s < 2000 then (s, False)
          else (s\<lparr>lastLoadTime := now, isLoading := True,
                  requests := requests s @ [Get_Emails aid (filterFolder s) (currentPage s)]\<rparr>, True))"

text \<open>A caller's \<open>loadEmails().finally(..)\<close>: its toasts now, or when the request settles.\<close>

definition start_load :: "toast list \<Rightarrow> string option \<Rightarrow> ms \<Rightarrow> inbox_state \<Rightarrow> inbox_state" where
  "start_load fin emailAccountId now s =
     (case loadEmails emailAccountId now s of
        (s', True) \<Rightarrow> s'\<lparr>inflight := inflight s' @ [fin]\<rparr>
      | (s', False) \<Rightarrow> s'\<lparr>toasts := toasts s' @ fin\<rparr>)"

text \<open>
  The response of \<open>/api/emails\<close>.  A missing \<open>result.data\<close> throws inside the
  \<open>try\<close>, as a failed \<open>fetch\<close> does; the error toast depends on whether the stored
  account is a mock one (\<open>domain_id === 'mock'\<close>).  The \<open>finally\<close> clears the
  loading flag, and the oldest load in flight settles.
\<close>

definition settle_load :: "inbox_state \<Rightarrow> inbox_state" where
  "settle_load s =
     (case inflight s of
        [] \<Rightarrow> s\<lparr>isLoading := False\<rparr>
      | fin # rest \<Rightarrow> s\<lparr>isLoading := False, inflight := rest, toasts := toasts s @ fin\<rparr>)"

definition loadEmails_result ::
  "emails_payload option api_result fetch_result \<Rightarrow> bool \<Rightarrow> inbox_state \<Rightarrow> inbox_state" where
  "loadEmails_result res is_mock s =
     settle_load
       (case res of
          Fetch_Json (Api_Success (Some d)) \<Rightarrow>
            s\<lparr>emails := (case ep_data d of None \<Rightarrow> [] | Some es \<Rightarrow> es), pagination := ep_pagination d\<rparr>
        | Fetch_Json (Api_Failure err) \<Rightarrow>
            s\<lparr>emails := [], pagination := None,
              toasts := toasts s @ [if is_mock then Toast_Demo_Mode else Toast_Load_Failed]\<rparr>
        | Fetch_Json (Api_Success None) \<Rightarrow>
            s\<lparr>emails := [], pagination := None,
              toasts := toasts s @ [if is_mock then Toast_Demo_Mode else Toast_Error_Loading]\<rparr>
        | Fetch_Error \<Rightarrow>
            s\<lparr>emails := [], pagination := None,
              toasts := toasts s @ [if is_mock then Toast_Demo_Mode else Toast_Error_Loading]\<rparr>)"

section \<open>New-email notifications\<close>

text \<open>
  \<open>debouncedRefresh\<close>: cancel the pending refresh and schedule one a second from now.
  When it fires it shows the refreshing toast and loads; its \<open>finally\<close> dismisses
  that toast and shows the refreshed one.
\<close>

definition debouncedRefresh :: "ms \<Rightarrow> inbox_state \<Rightarrow> inbox_state" where
  "debouncedRefresh now s = s\<lparr>refresh_due := Some (now + 1000)\<rparr>"

definition fire_refresh :: "string option \<Rightarrow> ms \<Rightarrow> inbox_state \<Rightarrow> inbox_state" where
  "fire_refresh emailAccountId t s =
     (case refresh_due s of
        None \<Rightarrow> s
      | Some due \<Rightarrow>
          if due \<le> t
          then start_load [Toast_Dismiss_Refreshing, Toast_Refreshed] emailAccountId due
                 (s\<lparr>refresh_due := None, toasts := toasts s @ [Toast_Refreshing]\<rparr>)
          else s)"

text \<open>
  The duplicate check of \<open>handleNewEmail\<close>.  The key is
  \<open>from-subject-Date.now()\<close>, with \<open>'unknown'\<close> and \<open>'no-subject'\<close> for missing
  fields; a stored key matches when the first two pieces of \<open>key.split('-')\<close> are the
  notification's sender and subject.
\<close>

definition notif_from :: "notification \<Rightarrow> string" where
  "notif_from n = opt_or (n_from n) ''unknown''"

definition notif_subject :: "notification \<Rightarrow> string" where
  "notif_subject n = opt_or (n_subject n) ''no-subject''"

definition notification_key :: "notification \<Rightarrow> ms \<Rightarrow> string" where
  "notification_key n now = notif_from n @ ''-'' @ notif_subject n @ ''-'' @ int_string now"

definition key_matches :: "notification \<Rightarrow> string \<Rightarrow> bool" where
  "key_matches n key =
     (let parts = take 2 (js_split CHR ''-'' key)
      in js_nth parts 0 = Some (notif_from n) \<and> js_nth parts 1 = Some (notif_subject n))"

definition isDuplicate :: "notification \<Rightarrow> inbox_state \<Rightarrow> bool" where
  "isDuplicate n s = list_ex (key_matches n) (recentNotifications s)"

text \<open>
  \<open>NOTIFICATION_DEDUP_MS = 5000\<close>: a new key is deleted by a timer five seconds later.
  The toast names the sender, or \<open>'Unknown'\<close>.
\<close>

definition handleNewEmail :: "notification \<Rightarrow> ms \<Rightarrow> inbox_state \<Rightarrow> inbox_state" where
  "handleNewEmail n now s =
     (let notificationKey = notification_key n now
      in if isDuplicate n s then s
         else debouncedRefresh now
                (s\<lparr>recentNotifications := set_add notificationKey (recentNotifications s),
                   dedup_timers := dedup_timers s @ [(now + 5000, notificationKey)],
                   toasts := toasts s @ [Toast_New_Email (opt_or (n_from n) ''Unknown'')]\<rparr>))"

text \<open>The deletion timers due by \<open>t\<close> fire.\<close>

definition fire_dedup :: "ms \<Rightarrow> inbox_state \<Rightarrow> inbox_state" where
  "fire_dedup t s =
     (let expired = map snd (filter (\<lambda>(due, k). due \<le> t) (dedup_timers s))
      in s\<lparr>recentNotifications := filter (\<lambda>k. k \<notin> set expired) (recentNotifications s),
           dedup_timers := filter (\<lambda>(due, k). \<not> due \<le> t) (dedup_timers s)\<rparr>)"

text \<open>The clock reaches \<open>t\<close>: every timer due by then fires.\<close>

definition tick :: "string option \<Rightarrow> ms \<Rightarrow> inbox_state \<Rightarrow> inbox_state" where
  "tick emailAccountId t s = fire_refresh emailAccountId t (fire_dedup t s)"

text \<open>
  \<open>updateConnectionStatus\<close> (every 2 s): copy the client's status into the page, and
  say whether the page then calls \<open>authenticate\<close> and \<open>joinEmailRoom\<close>.
\<close>

definition updateConnectionStatus ::
  "conn_status \<Rightarrow> string option \<Rightarrow> string option \<Rightarrow> inbox_state \<Rightarrow> inbox_state \<times> bool" where
  "updateConnectionStatus status emailAccountId currentEmail s =
     (s\<lparr>wsConnectionStatus := status\<rparr>,
      isConnected status \<and> isEnabled status \<and> js_truthy emailAccountId \<and> js_truthy currentEmail)"

text \<open>The notification effect's clean-up: the pending refresh and the keys go.\<close>

definition ws_effect_cleanup :: "inbox_state \<Rightarrow> inbox_state" where
  "ws_effect_cleanup s = s\<lparr>refresh_due := None, recentNotifications := []\<rparr>"


section \<open>Account check, full e-mail, refresh, delete, copy\<close>

text \<open>
  \<open>checkEmailAccount\<close>, run on mount and whenever the page or folder changes: with a
  stored account, load the inbox; without, show the no-account screen.
\<close>

definition checkEmailAccount ::
  "site_email_data option \<Rightarrow> string option \<Rightarrow> ms \<Rightarrow> inbox_state \<Rightarrow> inbox_state" where
  "checkEmailAccount data emailAccountId now s =
     (case data of
        Some d \<Rightarrow> (case currentAccount d of
           Some a \<Rightarrow> start_load [] emailAccountId now (s\<lparr>hasEmailAccount := True\<rparr>)
         | None \<Rightarrow> s\<lparr>hasEmailAccount := False, isLoading := False\<rparr>)
      | None \<Rightarrow> s\<lparr>hasEmailAccount := False, isLoading := False\<rparr>)"

text \<open>\<open>t(key)\<close> is modelled as the key itself: translations are not modelled.\<close>

definition loadFullEmail :: "string option \<Rightarrow> int \<Rightarrow> inbox_state \<Rightarrow> inbox_state" where
  "loadFullEmail emailAccountId emailId s =
     (case emailAccountId of
        None \<Rightarrow> s
      | Some aid \<Rightarrow> if aid = [] then s
                   else s\<lparr>isLoadingEmail := True, requests := requests s @ [Get_Email aid emailId]\<rparr>)"

text \<open>\<open>result.data.message\<close>: a missing \<open>data\<close> throws; a missing \<open>message\<close> sets \<open>undefined\<close>.\<close>

definition loadFullEmail_result ::
  "full_email option option api_result fetch_result \<Rightarrow> inbox_state \<Rightarrow> inbox_state" where
  "loadFullEmail_result res s =
     (case res of
        Fetch_Json (Api_Success (Some message)) \<Rightarrow>
          s\<lparr>fullEmail := message, isEmailModalOpen := True, isLoadingEmail := False\<rparr>
      | Fetch_Json (Api_Failure err) \<Rightarrow>
          s\<lparr>toasts := toasts s @ [Toast_Load_Email_Failed (js_or err ''inbox.failedToLoadEmailDescription'')],
            isLoadingEmail := False\<rparr>
      | Fetch_Json (Api_Success None) \<Rightarrow>
          s\<lparr>toasts := toasts s @ [Toast_Error_Loading_Email], isLoadingEmail := False\<rparr>
      | Fetch_Error \<Rightarrow>
          s\<lparr>toasts := toasts s @ [Toast_Error_Loading_Email], isLoadingEmail := False\<rparr>)"

text \<open>A click on a row loads that e-mail.\<close>

definition handleEmailClick :: "string option \<Rightarrow> email \<Rightarrow> inbox_state \<Rightarrow> inbox_state" where
  "handleEmailClick emailAccountId e s = loadFullEmail emailAccountId (em_id e) s"

definition handlePageChange :: "int \<Rightarrow> inbox_state \<Rightarrow> inbox_state" where
  "handlePageChange page s = s\<lparr>currentPage := page\<rparr>"

definition handleRefresh :: "string option \<Rightarrow> ms \<Rightarrow> inbox_state \<Rightarrow> inbox_state" where
  "handleRefresh emailAccountId now s =
     start_load [Toast_Dismiss_Refreshing, Toast_Refreshed] emailAccountId now
       (s\<lparr>toasts := toasts s @ [Toast_Refreshing]\<rparr>)"

text \<open>
  \<open>handleDeleteEmail\<close> sends the delete; when it resolves, the success branch runs
  \<open>setEmails(emails.filter(..))\<close> on the list the handler saw when it was called.
\<close>

definition handleDeleteEmail :: "string option \<Rightarrow> int \<Rightarrow> inbox_state \<Rightarrow> inbox_state" where
  "handleDeleteEmail emailAccountId emailId s =
     s\<lparr>requests := requests s @ [Delete_Email emailAccountId emailId],
       deletes_inflight := deletes_inflight s @ [(emailId, emails s)]\<rparr>"

definition handleDeleteEmail_result :: "unit api_result fetch_result \<Rightarrow> inbox_state \<Rightarrow> inbox_state" where
  "handleDeleteEmail_result res s =
     (case deletes_inflight s of
        [] \<Rightarrow> s
      | (emailId, seen) # rest \<Rightarrow>
          (let s' = s\<lparr>deletes_inflight := rest\<rparr>
           in case res of
                Fetch_Json (Api_Success u) \<Rightarrow>
                  s'\<lparr>emails := filter (\<lambda>e. em_id e \<noteq> emailId) seen, isEmailModalOpen := False,
                     fullEmail := None, toasts := toasts s' @ [Toast_Email_Deleted]\<rparr>
              | Fetch_Json (Api_Failure err) \<Rightarrow>
                  s'\<lparr>toasts := toasts s' @ [Toast_Delete_Failed (js_or err ''Could not delete email'')]\<rparr>
              | Fetch_Error \<Rightarrow> s'\<lparr>toasts := toasts s' @ [Toast_Delete_Error]\<rparr>))"

text \<open>
  The detail modal's delete button (\<open>src/components/email-detail-modal.tsx\<close>): nothing
  without an e-mail or an account id; otherwise call \<open>onDelete\<close>, then \<open>onClose\<close>
  (the page's \<open>onDelete\<close> catches its own errors, so \<open>onClose\<close> always runs).
\<close>

definition modal_onClose :: "inbox_state \<Rightarrow> inbox_state" where
  "modal_onClose s = s\<lparr>isEmailModalOpen := False, fullEmail := None\<rparr>"

definition modal_handleDelete :: "string option \<Rightarrow> inbox_state \<Rightarrow> inbox_state" where
  "modal_handleDelete emailAccountId s =
     (case fullEmail s of
        None \<Rightarrow> s
      | Some e \<Rightarrow> if \<not> js_truthy emailAccountId then s
                 else handleDeleteEmail emailAccountId (fe_id e) s)"

definition modal_handleDelete_result :: "unit api_result fetch_result \<Rightarrow> inbox_state \<Rightarrow> inbox_state" where
  "modal_handleDelete_result res s = modal_onClose (handleDeleteEmail_result res s)"

definition copyEmailId :: "string option \<Rightarrow> inbox_state \<Rightarrow> inbox_state" where
  "copyEmailId emailAccountId s =
     (case emailAccountId of
        None \<Rightarrow> s
      | Some aid \<Rightarrow> if aid = [] then s
                   else s\<lparr>clipboard := clipboard s @ [aid], toasts := toasts s @ [Toast_Copied_Id]\<rparr>)"

definition copyEmailAddress :: "string option \<Rightarrow> inbox_state \<Rightarrow> inbox_state" where
  "copyEmailAddress currentEmail s =
     (case currentEmail of
        None \<Rightarrow> s
      | Some em \<Rightarrow> if em = [] then s
                  else s\<lparr>clipboard := clipboard s @ [em], toasts := toasts s @ [Toast_Copied_Address]\<rparr>)"

definition refreshEmailAccount ::
  "site_email_data option \<Rightarrow> string option \<Rightarrow> ms \<Rightarrow> inbox_state \<Rightarrow> inbox_state" where
  "refreshEmailAccount data emailAccountId now s =
     (if (case data of Some d \<Rightarrow> currentAccount d \<noteq> None | None \<Rightarrow> False)
      then (let s1 = start_load [] emailAccountId now (s\<lparr>hasEmailAccount := True\<rparr>)
            in s1\<lparr>toasts := toasts s1 @ [Toast_Account_Refreshed]\<rparr>)
      else s\<lparr>hasEmailAccount := False, toasts := toasts s @ [Toast_No_Account]\<rparr>)"

section \<open>Rendering\<close>

text \<open>
  \<open>getSenderName\<close> and \<open>getSenderEmail\<close> read \<open>mail_headers.from[0]\<close>, which throws
  a \<open>TypeError\<close> when the list is empty.
\<close>

definition getSenderName :: "email \<Rightarrow> js_error + string" where
  "getSenderName e =
     (case mh_from (em_mail_headers e) of
        [] \<Rightarrow> Inl TypeError
      | f # _ \<Rightarrow> Inr (js_or (ea_personal f) (js_or (ea_mailbox f) (ea_mail f))))"

definition getSenderEmail :: "email \<Rightarrow> js_error + string" where
  "getSenderEmail e =
     (case mh_from (em_mail_headers e) of
        [] \<Rightarrow> Inl TypeError
      | f # _ \<Rightarrow> Inr (ea_mail f))"

text \<open>
  The search predicate: subject, sender name, sender address, lower-cased, each
  containing the lower-cased term; \<open>||\<close> stops at the first match, so the sender is
  only read when the subject does not match.
\<close>

definition email_matches :: "string \<Rightarrow> email \<Rightarrow> js_error + bool" where
  "email_matches term e =
     (let q = js_lower term
      in if js_includes (js_lower (em_subject e)) q then Inr True
         else (case getSenderName e of
                 Inl err \<Rightarrow> Inl err
               | Inr nm \<Rightarrow>
                   if js_includes (js_lower nm) q then Inr True
                   else (case getSenderEmail e of
                           Inl err \<Rightarrow> Inl err
                         | Inr addr \<Rightarrow> Inr (js_includes (js_lower addr) q))))"

fun filteredEmails :: "string \<Rightarrow> email list \<Rightarrow> js_error + email list" where
  "filteredEmails term [] = Inr []"
| "filteredEmails term (e # es) =
     (case email_matches term e of
        Inl err \<Rightarrow> Inl err
      | Inr keep \<Rightarrow> (case filteredEmails term es of
           Inl err \<Rightarrow> Inl err
         | Inr rest \<Rightarrow> Inr (if keep then e # rest else rest)))"

text \<open>
  What the search promises, as a plain predicate: an e-mail is shown when its subject, its
  sender's displayed name or its sender's address contains the term, ignoring case.
\<close>

definition matches_ref :: "string \<Rightarrow> email \<Rightarrow> bool" where
  "matches_ref q e =
     (case mh_from (em_mail_headers e) of
        [] \<Rightarrow> js_includes (js_lower (em_subject e)) (js_lower q)
      | f # _ \<Rightarrow> list_ex (\<lambda>field. js_includes (js_lower field) (js_lower q))
                  [em_subject e, js_or (ea_personal f) (js_or (ea_mailbox f) (ea_mail f)), ea_mail f])"

text \<open>\<open>formatDate\<close>'s choice of format (the locale's rendering of it is not modelled).\<close>

datatype date_style = Time_Of_Day | Weekday | Month_Day

definition formatDate :: "ms \<Rightarrow> ms \<Rightarrow> date_style" where
  "formatDate now date =
     (let diffInHours = of_int (now - date) / (1000 * 60 * 60 :: rat)
      in if diffInHours < 24 then Time_Of_Day else if diffInHours < 168 then Weekday else Month_Day)"

text \<open>The connection indicator in the header and the badge beside the inbox title.\<close>

datatype ws_badge = Badge_No_Ws | Badge_Live | Badge_Connecting

definition ws_header_indicator :: "conn_status \<Rightarrow> ws_badge" where
  "ws_header_indicator st =
     (if \<not> isEnabled st then Badge_No_Ws else if isConnected st then Badge_Live else Badge_Connecting)"

definition ws_title_badge :: "conn_status \<Rightarrow> ws_badge option" where
  "ws_title_badge st =
     (if isEnabled st then Some (if isConnected st then Badge_Live else Badge_Connecting) else None)"

text \<open>One row of the list: sender, unread dot, paper-clip, subject, preview, date, folder.\<close>

record email_row =
  row_id :: int
  row_sender :: string
  row_unread :: bool
  row_attachment :: bool
  row_subject :: string
  row_preview :: string
  row_date :: date_style
  row_folder :: string

definition render_row :: "ms \<Rightarrow> email \<Rightarrow> js_error + email_row" where
  "render_row now e =
     (case getSenderName e of
        Inl err \<Rightarrow> Inl err
      | Inr nm \<Rightarrow> Inr \<lparr>row_id = em_id e, row_sender = nm, row_unread = (em_is_seen e = ''0''),
                        row_attachment = em_have_attachments e,
                        row_subject = js_or (em_subject e) ''inbox.noSubject'',
                        row_preview = js_or (em_body e) ''inbox.noPreview'',
                        row_date = formatDate now (em_date e), row_folder = em_folder e\<rparr>)"

fun render_rows :: "ms \<Rightarrow> email list \<Rightarrow> js_error + email_row list" where
  "render_rows now [] = Inr []"
| "render_rows now (e # es) =
     (case render_row now e of
        Inl err \<Rightarrow> Inl err
      | Inr r \<Rightarrow> (case render_rows now es of Inl err \<Rightarrow> Inl err | Inr rs \<Rightarrow> Inr (r # rs)))"

datatype list_view = List_Loading | List_Empty | List_Emails "email_row list"

text \<open>The pager: shown for more than one page; previous disabled on page 1, next by the server's flag.\<close>

record pager_view =
  prev_enabled :: bool
  page_buttons :: "(int \<times> bool) list"
  next_enabled :: bool

definition pagination_view :: "inbox_state \<Rightarrow> pager_view option" where
  "pagination_view s =
     (case pagination s of
        None \<Rightarrow> None
      | Some p \<Rightarrow> if 1 < pd_totalPages p
                 then Some \<lparr>prev_enabled = (currentPage s \<noteq> 1),
                            page_buttons = map (\<lambda>i. (i, currentPage s = i)) [1..pd_totalPages p],
                            next_enabled = pd_hasNextPage p\<rparr>
                 else None)"

datatype inbox_view =
    No_Account_View
  | Account_View ws_badge "ws_badge option" int list_view "pager_view option"

text \<open>
  The page's render: \<open>filteredEmails\<close> is computed first (a \<open>TypeError\<close> there, or in a
  row, fails the render), then the no-account screen or the account view with the count
  \<open>pagination?.totalItems || 0\<close>.
\<close>

definition inbox_render :: "ms \<Rightarrow> inbox_state \<Rightarrow> js_error + inbox_view" where
  "inbox_render now s =
     (case filteredEmails (searchTerm s) (emails s) of
        Inl err \<Rightarrow> Inl err
      | Inr shown \<Rightarrow>
          if \<not> hasEmailAccount s then Inr No_Account_View
          else (let count = (case pagination s of None \<Rightarrow> 0 | Some p \<Rightarrow> pd_totalItems p)
                in if isLoading s
                   then Inr (Account_View (ws_header_indicator (wsConnectionStatus s))
                               (ws_title_badge (wsConnectionStatus s)) count List_Loading (pagination_view s))
                   else if shown = []
                   then Inr (Account_View (ws_header_indicator (wsConnectionStatus s))
                               (ws_title_badge (wsConnectionStatus s)) count List_Empty (pagination_view s))
                   else (case render_rows now shown of
                           Inl err \<Rightarrow> Inl err
                         | Inr rows \<Rightarrow> Inr (Account_View (ws_header_indicator (wsConnectionStatus s))
                                             (ws_title_badge (wsConnectionStatus s)) count (List_Emails rows)
                                             (pagination_view s)))))"


section \<open>The page's notification client\<close>

text \<open>
  The page builds its client once, from \<open>NEXT_PUBLIC_WS_URL\<close> or
  \<open>ws://localhost:8001\<close> (the client's own attempt limit \<open>maxA\<close> is a parameter);
  each run of the notification effect clears the client's handlers and registers its
  \<open>handleNewEmail\<close>; unmounting disconnects it.
\<close>

definition ws_url :: "string option \<Rightarrow> string" where
  "ws_url env = js_or (case env of None \<Rightarrow> [] | Some u \<Rightarrow> u) ''ws://localhost:8001''"

definition ws_init :: "string option \<Rightarrow> nat \<Rightarrow> 'h client" where
  "ws_init env maxA = newEmailNotificationClient (ws_url env) maxA"

definition ws_register :: "'h \<Rightarrow> 'h client \<Rightarrow> 'h client" where
  "ws_register h c = onNewEmail h (clearNotificationCallbacks c)"

definition ws_unmount :: "'h client \<Rightarrow> 'h client" where
  "ws_unmount c = disconnect c"

text \<open>
  A push reaching the page: the client dispatches it to its handlers, and the page's
  handler reads \<open>notification.from\<close> and \<open>notification.subject\<close> of the payload.  The
  page registers \<open>handleNewEmail\<close> itself, so a handler is a function of the
  notification, the clock and the page state, and each new invocation of the client's log
  runs on the page state in order.
\<close>

definition push_notification :: "notif_payload \<Rightarrow> notification" where
  "push_notification p = \<lparr>n_from = np_from p, n_subject = np_subject p\<rparr>"

type_synonym page_handler = "notification \<Rightarrow> ms \<Rightarrow> inbox_state \<Rightarrow> inbox_state"

definition page_push ::
  "ms \<Rightarrow> notif_payload \<Rightarrow> inbox_state \<times> page_handler client \<Rightarrow> inbox_state \<times> page_handler client" where
  "page_push now p sc =
     (let (s, c) = sc; c' = client_step c (Ev_Message now p)
      in (fold (\<lambda>(h, q). h (push_notification q) now) (drop (length (delivered c)) (delivered c')) s, c'))"

text \<open>A dropped connection that the back-off timer re-opens.\<close>

definition reconnect_cycle :: "'h client_event list" where
  "reconnect_cycle = [Ev_Close 0, Ev_Reconnect_Timer 30000, Ev_Open]"

section \<open>Lemmas\<close>

lemma page_push_registered:
  assumes "transport c = Connected"
  shows "page_push now p (s, ws_register h c) =
           (if is_recent_dup now p c then (s, on_message now p (ws_register h c))
            else (h (push_notification p) now s, on_message now p (ws_register h c)))"
proof -
  have "is_recent_dup now p (ws_register h c) = is_recent_dup now p c"
    by (simp add: is_recent_dup_def live_recent_def ws_register_def onNewEmail_def
                  clearNotificationCallbacks_def)
  then show ?thesis
    using assms
    by (simp add: page_push_def on_message_def ws_register_def onNewEmail_def clearNotificationCallbacks_def)
qed

lemma key_matches_dash:
  assumes "CHR ''-'' \<in> set (notif_from n) \<or> CHR ''-'' \<in> set (notif_subject n)"
  shows "\<not> key_matches n k"
proof
  assume m: "key_matches n k"
  let ?ps = "take 2 (js_split CHR ''-'' k)"
  from m have "js_nth ?ps 0 = Some (notif_from n)" "js_nth ?ps 1 = Some (notif_subject n)"
    by (simp_all add: key_matches_def Let_def)
  then have "notif_from n \<in> set (js_split CHR ''-'' k)" "notif_subject n \<in> set (js_split CHR ''-'' k)"
    by (auto dest!: js_nth_in_set in_set_takeD)
  with assms show False by (auto dest: js_split_pieces)
qed

lemma key_matches_own:
  assumes "CHR ''-'' \<notin> set (notif_from n)" "CHR ''-'' \<notin> set (notif_subject n)"
  shows "key_matches n (notification_key n now)"
proof -
  have "js_split CHR ''-'' (notification_key n now)
          = notif_from n # notif_subject n # js_split CHR ''-'' (int_string now)"
    using assms by (simp add: notification_key_def js_split_append_sep)
  then show ?thesis by (simp add: key_matches_def)
qed

lemma start_load_frame:
  "recentNotifications (start_load fin a t s) = recentNotifications s \<and>
   dedup_timers (start_load fin a t s) = dedup_timers s"
  by (auto simp: start_load_def loadEmails_def split: option.split prod.split bool.split)

lemma fire_refresh_frame:
  "recentNotifications (fire_refresh a t s) = recentNotifications s \<and>
   dedup_timers (fire_refresh a t s) = dedup_timers s"
  by (simp add: fire_refresh_def start_load_frame split: option.split)

lemma recent_tick:
  "recentNotifications (tick a t s) =
     filter (\<lambda>k. k \<notin> set (map snd (filter (\<lambda>(due, k). due \<le> t) (dedup_timers s)))) (recentNotifications s)"
  by (simp add: tick_def fire_refresh_frame fire_dedup_def Let_def)

lemma handleNewEmail_dup: "isDuplicate n s \<Longrightarrow> handleNewEmail n t s = s"
  by (simp add: handleNewEmail_def)

lemma handleNewEmail_fresh:
  "\<not> isDuplicate n s \<Longrightarrow>
   recentNotifications (handleNewEmail n now s) = set_add (notification_key n now) (recentNotifications s) \<and>
   dedup_timers (handleNewEmail n now s) = dedup_timers s @ [(now + 5000, notification_key n now)] \<and>
   toasts (handleNewEmail n now s) = toasts s @ [Toast_New_Email (opt_or (n_from n) ''Unknown'')] \<and>
   refresh_due (handleNewEmail n now s) = Some (now + 1000)"
  by (simp add: handleNewEmail_def debouncedRefresh_def Let_def)

lemma loadEmails_cases:
  "loadEmails a t s = (s, False) \<or>
   (\<exists>aid. a = Some aid \<and> lastLoadTime s + 2000 \<le> t \<and>
          loadEmails a t s = (s\<lparr>lastLoadTime := t, isLoading := True,
             requests := requests s @ [Get_Emails aid (filterFolder s) (currentPage s)]\<rparr>, True))"
  by (auto simp: loadEmails_def split: option.split)

lemma loads_throttled:
  assumes "start \<le> lastLoadTime s" "lastLoadTime s < start + 2000"
    and "\<forall>t \<in> set ts. start \<le> t \<and> t < start + 2000"
  shows "fold (\<lambda>t s. fst (loadEmails a t s)) ts s = s"
  using assms(3)
proof (induction ts)
  case Nil
  then show ?case by simp
next
  case (Cons t ts)
  have "loadEmails a t s = (s, False)"
    using Cons.prems assms(1,2) loadEmails_cases [of a t s] by auto
  with Cons show ?case by simp
qed

lemma email_matches_error:
  "isl (email_matches term e) \<longleftrightarrow>
     mh_from (em_mail_headers e) = [] \<and> \<not> js_includes (js_lower (em_subject e)) (js_lower term)"
  by (auto simp: email_matches_def getSenderName_def getSenderEmail_def Let_def split: list.splits)

lemma email_matches_subject:
  "js_includes (js_lower (em_subject e)) (js_lower term) \<Longrightarrow> email_matches term e = Inr True"
  by (simp add: email_matches_def)

lemma filteredEmails_Inr:
  "filteredEmails q es = Inr shown \<Longrightarrow> e \<in> set es \<Longrightarrow> \<not> isl (email_matches q e)"
proof (induction es arbitrary: shown)
  case Nil
  then show ?case by simp
next
  case (Cons x es)
  then show ?case
    by (cases "email_matches q x"; cases "filteredEmails q es") auto
qed

lemma filteredEmails_kept:
  "filteredEmails term es = Inr shown \<Longrightarrow> e \<in> set es \<Longrightarrow> email_matches term e = Inr True \<Longrightarrow> e \<in> set shown"
proof (induction es arbitrary: shown)
  case Nil
  then show ?case by simp
next
  case (Cons x es)
  then show ?case
    by (cases "email_matches term x"; cases "filteredEmails term es") (auto split: if_splits)
qed

lemma email_matches_ref:
  "mh_from (em_mail_headers e) \<noteq> [] \<Longrightarrow> email_matches q e = Inr (matches_ref q e)"
  by (auto simp: email_matches_def matches_ref_def getSenderName_def getSenderEmail_def Let_def
           split: list.splits)

text \<open>A sender-less e-mail that the filter does not reject is kept: it matched on its subject.\<close>

lemma senderless_shown:
  assumes "filteredEmails q es = Inr shown" "e \<in> set es" "mh_from (em_mail_headers e) = []"
  shows "e \<in> set shown"
proof -
  have "\<not> isl (email_matches q e)" using assms(1,2) by (rule filteredEmails_Inr)
  with assms(3) have "js_includes (js_lower (em_subject e)) (js_lower q)"
    by (simp add: email_matches_error)
  then show ?thesis using filteredEmails_kept [OF assms(1,2)] email_matches_subject by blast
qed

lemma render_rows_error:
  "e \<in> set es \<Longrightarrow> mh_from (em_mail_headers e) = [] \<Longrightarrow> \<exists>err. render_rows now es = Inl err"
proof (induction es)
  case Nil
  then show ?case by simp
next
  case (Cons x es)
  then show ?case
    by (cases "render_row now x"; cases "render_rows now es")
       (auto simp: render_row_def getSenderName_def split: list.splits)
qed

lemma reconnect_cycles:
  assumes "transport c = Connected" "reconnect_due c = None" "reconnectAttempts c = 0"
    and "0 < maxReconnectAttempts c"
    and "session_account c = Some a" "session_room c = Some r"
  shows "outbox (client_run c (concat (replicate n reconnect_cycle))) =
           outbox c @ concat (replicate n [Authenticate a, Join_Room r])"
  using assms
proof (induction n arbitrary: c)
  case 0
  then show ?case by simp
next
  case (Suc n)
  let ?c' = "c\<lparr>reconnectAttempts := 0, outbox := outbox c @ [Authenticate a, Join_Room r]\<rparr>"
  have "client_run c [Ev_Close 0, Ev_Reconnect_Timer (0 + 30000), Ev_Open] = ?c'"
    using Suc.prems by (intro reconnect_rejoins) simp_all
  then have "client_run c reconnect_cycle = ?c'" by (simp add: reconnect_cycle_def)
  with Suc.IH [of ?c'] Suc.prems show ?case
    by (simp add: client_run_append replicate_append_same)
qed

section \<open>Properties\<close>

text \<open>
  C4: the duplicate window of \<open>handleNewEmail\<close> (spec, inbox behaviour 3).  For a
  notification whose sender and subject contain no \<open>-\<close>, once it is shown the same
  notification is suppressed until its key's five-second timer fires, whatever other timers
  fire meanwhile, and is shown again from then on.
\<close>

theorem dedup_window:
  assumes "CHR ''-'' \<notin> set (notif_from n)" "CHR ''-'' \<notin> set (notif_subject n)"
    and "\<not> isDuplicate n s" "notification_key n now \<notin> snd ` set (dedup_timers s)"
  shows "(now \<le> t \<and> t < now + 5000 \<longrightarrow>
            handleNewEmail n t (tick a t (handleNewEmail n now s)) = tick a t (handleNewEmail n now s)) \<and>
         (now + 5000 \<le> t \<longrightarrow>
            toasts (handleNewEmail n t (tick a t (handleNewEmail n now s))) =
            toasts (tick a t (handleNewEmail n now s)) @ [Toast_New_Email (opt_or (n_from n) ''Unknown'')])"
proof -
  let ?k = "notification_key n now"
  let ?s1 = "handleNewEmail n now s"
  note h1 = handleNewEmail_fresh [OF assms(3), of now]
  have own: "key_matches n ?k" using assms(1,2) by (rule key_matches_own)
  have old: "\<not> key_matches n k" if "k \<in> set (recentNotifications s)" for k
    using assms(3) that by (auto simp: isDuplicate_def list_ex_iff)
  have early: "isDuplicate n (tick a t ?s1)" if "t < now + 5000" for t
  proof -
    have "?k \<in> set (recentNotifications (tick a t ?s1))"
      using that assms(4) h1 by (auto simp: recent_tick)
    with own show ?thesis by (auto simp: isDuplicate_def list_ex_iff)
  qed
  have late: "\<not> isDuplicate n (tick a t ?s1)" if "now + 5000 \<le> t" for t
  proof -
    have "set (recentNotifications (tick a t ?s1)) \<subseteq> set (recentNotifications s)"
      using that h1 by (auto simp: recent_tick)
    with old show ?thesis by (auto simp: isDuplicate_def list_ex_iff)
  qed
  show ?thesis
    using early late handleNewEmail_dup handleNewEmail_fresh by blast
qed

theorem dedup_window_witness:
  "handleNewEmail \<lparr>n_from = Some ''alice@example.com'', n_subject = Some ''Hello''\<rparr> 1000
     (tick (Some ''acc1'') 1000 (handleNewEmail \<lparr>n_from = Some ''alice@example.com'', n_subject = Some ''Hello''\<rparr> 0 inbox_init))
   = tick (Some ''acc1'') 1000 (handleNewEmail \<lparr>n_from = Some ''alice@example.com'', n_subject = Some ''Hello''\<rparr> 0 inbox_init)"
  using dedup_window [where n = "\<lparr>n_from = Some ''alice@example.com'', n_subject = Some ''Hello''\<rparr>"
                        and s = inbox_init and now = 0 and t = 1000 and a = "Some ''acc1''"]
  by (simp add: notif_from_def notif_subject_def isDuplicate_def inbox_init_def)

text \<open>
  C10: a notification whose sender or subject contains \<open>-\<close> (\<open>no-reply@...\<close>,
  or any notification without a subject, since the fallback is \<open>'no-subject'\<close>) is never
  recognised as a duplicate: it is toasted and triggers a refresh every time it arrives,
  since no piece of \<open>key.split('-')\<close> contains a \<open>-\<close>.
\<close>

theorem dash_never_deduplicated:
  assumes "CHR ''-'' \<in> set (notif_from n) \<or> CHR ''-'' \<in> set (notif_subject n)"
  shows "\<not> isDuplicate n s \<and>
         toasts (handleNewEmail n now s) = toasts s @ [Toast_New_Email (opt_or (n_from n) ''Unknown'')] \<and>
         refresh_due (handleNewEmail n now s) = Some (now + 1000)"
proof -
  have "\<not> isDuplicate n s"
    using key_matches_dash [OF assms] by (simp add: isDuplicate_def list_ex_iff)
  then show ?thesis by (simp add: handleNewEmail_def debouncedRefresh_def Let_def)
qed

theorem dash_never_deduplicated_witness:
  "\<not> isDuplicate \<lparr>n_from = Some ''no-reply@github.com'', n_subject = Some ''Build''\<rparr>
       (handleNewEmail \<lparr>n_from = Some ''no-reply@github.com'', n_subject = Some ''Build''\<rparr> 0 inbox_init)"
  using dash_never_deduplicated [where n = "\<lparr>n_from = Some ''no-reply@github.com'', n_subject = Some ''Build''\<rparr>"
                        and s = "handleNewEmail \<lparr>n_from = Some ''no-reply@github.com'', n_subject = Some ''Build''\<rparr> 0 inbox_init"
                        and now = 0]
  by (simp add: notif_from_def)

text \<open>
  C33: a different notification can be suppressed as a duplicate: after one from
  \<open>f\<close> with subject \<open>s-x\<close> is shown, one from \<open>f\<close> with subject \<open>s\<close> is dropped
  (no toast, no refresh) for the next five seconds, since only the first two pieces of the
  key are compared.
\<close>

theorem dedup_false_positive:
  assumes "notif_from m = notif_from n" "notif_subject m = notif_subject n @ CHR ''-'' # x"
    and "CHR ''-'' \<notin> set (notif_from n)" "CHR ''-'' \<notin> set (notif_subject n)"
    and "\<not> isDuplicate m s"
  shows "handleNewEmail n t (handleNewEmail m now s) = handleNewEmail m now s"
proof -
  have "js_split CHR ''-'' (notification_key m now)
          = notif_from n # notif_subject n # js_split CHR ''-'' (x @ CHR ''-'' # int_string now)"
    using assms(1-4) by (simp add: notification_key_def js_split_append_sep)
  then have "key_matches n (notification_key m now)"
    by (simp add: key_matches_def)
  then have "isDuplicate n (handleNewEmail m now s)"
    using handleNewEmail_fresh [OF assms(5), of now] by (auto simp: isDuplicate_def list_ex_iff)
  then show ?thesis by (rule handleNewEmail_dup)
qed

theorem dedup_false_positive_witness:
  "handleNewEmail \<lparr>n_from = Some ''a@b.c'', n_subject = Some ''Re''\<rparr> 10
     (handleNewEmail \<lparr>n_from = Some ''a@b.c'', n_subject = Some ''Re-launch''\<rparr> 0 inbox_init)
   = handleNewEmail \<lparr>n_from = Some ''a@b.c'', n_subject = Some ''Re-launch''\<rparr> 0 inbox_init"
  using dedup_false_positive [where m = "\<lparr>n_from = Some ''a@b.c'', n_subject = Some ''Re-launch''\<rparr>"
                        and n = "\<lparr>n_from = Some ''a@b.c'', n_subject = Some ''Re''\<rparr>"
                        and x = "''launch''" and s = inbox_init and t = 10 and now = 0]
  by (simp add: notif_from_def notif_subject_def isDuplicate_def inbox_init_def)

text \<open>
  C8: \<open>loadEmails\<close> is throttled: any sequence of calls whose instants lie
  within one window of two seconds sends at most one \<open>/api/emails\<close> request, whatever
  the order of the calls.
\<close>

theorem loadEmails_throttle:
  assumes "\<forall>t \<in> set ts. start \<le> t \<and> t < start + 2000"
  shows "length (requests (fold (\<lambda>t s. fst (loadEmails a t s)) ts s)) \<le> Suc (length (requests s))"
  using assms
proof (induction ts arbitrary: s)
  case Nil
  then show ?case by simp
next
  case (Cons t ts)
  from loadEmails_cases [of a t s] show ?case
  proof
    assume "loadEmails a t s = (s, False)"
    with Cons show ?thesis by simp
  next
    assume "\<exists>aid. a = Some aid \<and> lastLoadTime s + 2000 \<le> t \<and>
          loadEmails a t s = (s\<lparr>lastLoadTime := t, isLoading := True,
             requests := requests s @ [Get_Emails aid (filterFolder s) (currentPage s)]\<rparr>, True)"
    then obtain s' where l: "loadEmails a t s = (s', True)" "lastLoadTime s' = t"
      "length (requests s') = Suc (length (requests s))" by auto
    have "fold (\<lambda>t s. fst (loadEmails a t s)) ts s' = s'"
      using Cons.prems l(2) by (intro loads_throttled) auto
    with l show ?thesis by simp
  qed
qed

theorem loadEmails_throttle_witness:
  "length (requests (fold (\<lambda>t s. fst (loadEmails (Some ''acc1'') t s)) [5000, 5500, 6999] inbox_init)) \<le> 1"
  using loadEmails_throttle [where ts = "[5000, 5500, 6999]" and start = 5000 and a = "Some ''acc1''"
                        and s = inbox_init]
  by (simp add: inbox_init_def)

text \<open>
  The search filter throws exactly when some e-mail has an empty \<open>from\<close>
  list and a subject that does not contain the search term (the sender is only read when
  the subject does not match).
\<close>

theorem filteredEmails_error:
  "isl (filteredEmails q es) \<longleftrightarrow>
     (\<exists>e \<in> set es. mh_from (em_mail_headers e) = [] \<and>
                   \<not> js_includes (js_lower (em_subject e)) (js_lower q))"
proof (induction es)
  case Nil
  then show ?case by simp
next
  case (Cons e es)
  then show ?case
    using email_matches_error [of "q" e]
    by (cases "email_matches q e"; cases "filteredEmails q es") auto
qed

theorem filteredEmails_error_witness:
  "isl (filteredEmails ''zz'' [\<lparr>em_count = 1, em_parent_email_id = 0, em_id = 7, em_folder = ''inbox'', em_size = ''1'',
       em_is_seen = ''0'', em_mail_headers = \<lparr>mh_cc = [], mh_to = [], mh_bcc = [], mh_from = []\<rparr>,
       em_body = [], em_subject = ''Hi'', em_date = 0, em_have_attachments = False, em_html = [],
       em_user_id = 0, em_to = [], em_to_ = [], em_from_ = [], em_from = []\<rparr>])"
  by (rule filteredEmails_error [THEN iffD2]) code_simp

text \<open>
  C14: equivalence with the reference search: on e-mails that all have a sender, the
  short-circuiting filter of the page returns exactly the e-mails \<open>matches_ref\<close> accepts,
  in their order, and never throws.
\<close>

theorem filteredEmails_equiv:
  assumes "\<forall>e \<in> set es. mh_from (em_mail_headers e) \<noteq> []"
  shows "filteredEmails q es = Inr (filter (matches_ref q) es)"
  using assms
proof (induction es)
  case Nil
  then show ?case by simp
next
  case (Cons e es)
  then show ?case by (simp add: email_matches_ref)
qed

theorem filteredEmails_equiv_witness:
  "filteredEmails ''BOB'' [\<lparr>em_count = 1, em_parent_email_id = 0, em_id = 7, em_folder = ''inbox'', em_size = ''1'',
       em_is_seen = ''0'', em_mail_headers = \<lparr>mh_cc = [], mh_to = [], mh_bcc = [],
         mh_from = [\<lparr>ea_full = [], ea_host = ''b.c'', ea_mail = ''bob@b.c'', ea_mailbox = ''bob'', ea_personal = []\<rparr>]\<rparr>,
       em_body = [], em_subject = ''Hi'', em_date = 0, em_have_attachments = False, em_html = [],
       em_user_id = 0, em_to = [], em_to_ = [], em_from_ = [], em_from = []\<rparr>] \<noteq> Inr []"
proof -
  let ?e = "\<lparr>em_count = 1, em_parent_email_id = 0, em_id = 7, em_folder = ''inbox'', em_size = ''1'',
       em_is_seen = ''0'', em_mail_headers = \<lparr>mh_cc = [], mh_to = [], mh_bcc = [],
         mh_from = [\<lparr>ea_full = [], ea_host = ''b.c'', ea_mail = ''bob@b.c'', ea_mailbox = ''bob'', ea_personal = []\<rparr>]\<rparr>,
       em_body = [], em_subject = ''Hi'', em_date = 0, em_have_attachments = False, em_html = [],
       em_user_id = 0, em_to = [], em_to_ = [], em_from_ = [], em_from = []\<rparr>"
  have "filteredEmails ''BOB'' [?e] = Inr (filter (matches_ref ''BOB'') [?e])"
    by (rule filteredEmails_equiv) simp
  moreover have "matches_ref ''BOB'' ?e" by (simp add: matches_ref_def) code_simp
  ultimately show ?thesis by simp
qed

text \<open>
  C17: an e-mail with an empty \<open>mail_headers.from\<close> in the list crashes the
  inbox's render once loading is over, whatever the search term: either the filter reads
  its sender, or the e-mail is kept and its row reads \<open>from[0].personal\<close>.
\<close>

theorem inbox_render_senderless:
  assumes "hasEmailAccount s" "\<not> isLoading s"
    and "e \<in> set (emails s)" "mh_from (em_mail_headers e) = []"
  shows "inbox_render now s = Inl TypeError"
proof (cases "filteredEmails (searchTerm s) (emails s)")
  case (Inl err)
  then show ?thesis by (cases err) (simp add: inbox_render_def)
next
  case (Inr shown)
  then have "e \<in> set shown" using senderless_shown assms(3,4) by blast
  then obtain err where "render_rows now shown = Inl err" "shown \<noteq> []"
    using render_rows_error assms(4) by fastforce
  with Inr assms(1,2) show ?thesis by (cases err) (simp add: inbox_render_def)
qed

theorem inbox_render_senderless_witness:
  "inbox_render 0 (inbox_init\<lparr>hasEmailAccount := True, isLoading := False, emails := [\<lparr>em_count = 1, em_parent_email_id = 0, em_id = 7, em_folder = ''inbox'', em_size = ''1'',
       em_is_seen = ''0'', em_mail_headers = \<lparr>mh_cc = [], mh_to = [], mh_bcc = [], mh_from = []\<rparr>,
       em_body = [], em_subject = ''Hi'', em_date = 0, em_have_attachments = False, em_html = [],
       em_user_id = 0, em_to = [], em_to_ = [], em_from_ = [], em_from = []\<rparr>]\<rparr>) = Inl TypeError"
  using inbox_render_senderless [where s = "inbox_init\<lparr>hasEmailAccount := True, isLoading := False, emails := [\<lparr>em_count = 1, em_parent_email_id = 0, em_id = 7, em_folder = ''inbox'', em_size = ''1'',
       em_is_seen = ''0'', em_mail_headers = \<lparr>mh_cc = [], mh_to = [], mh_bcc = [], mh_from = []\<rparr>,
       em_body = [], em_subject = ''Hi'', em_date = 0, em_have_attachments = False, em_html = [],
       em_user_id = 0, em_to = [], em_to_ = [], em_from_ = [], em_from = []\<rparr>]\<rparr>"
                        and e = "\<lparr>em_count = 1, em_parent_email_id = 0, em_id = 7, em_folder = ''inbox'', em_size = ''1'',
       em_is_seen = ''0'', em_mail_headers = \<lparr>mh_cc = [], mh_to = [], mh_bcc = [], mh_from = []\<rparr>,
       em_body = [], em_subject = ''Hi'', em_date = 0, em_have_attachments = False, em_html = [],
       em_user_id = 0, em_to = [], em_to_ = [], em_from_ = [], em_from = []\<rparr>" and now = 0]
  by simp

text \<open>
  C27: \<open>handleDeleteEmail\<close> filters the list it captured when the delete was
  sent: if the inbox is reloaded while the delete is in flight, the reloaded list is replaced
  by the old one minus the deleted e-mail.
\<close>

theorem delete_overwrites_reload:
  assumes "deletes_inflight s = []"
  shows "emails (handleDeleteEmail_result (Fetch_Json (Api_Success u))
                   (loadEmails_result r is_mock (handleDeleteEmail a i s)))
         = filter (\<lambda>e. em_id e \<noteq> i) (emails s)"
proof -
  have "deletes_inflight (loadEmails_result r is_mock (handleDeleteEmail a i s)) = [(i, emails s)]"
    using assms by (simp add: handleDeleteEmail_def loadEmails_result_def settle_load_def
                        split: fetch_result.split api_result.split option.split list.split)
  then show ?thesis by (simp add: handleDeleteEmail_result_def)
qed

theorem delete_overwrites_reload_witness:
  "emails (handleDeleteEmail_result (Fetch_Json (Api_Success ()))
             (loadEmails_result (Fetch_Json (Api_Success (Some \<lparr>ep_data = Some [\<lparr>em_count = 1, em_parent_email_id = 0, em_id = 7, em_folder = ''inbox'', em_size = ''1'',
       em_is_seen = ''0'', em_mail_headers = \<lparr>mh_cc = [], mh_to = [], mh_bcc = [], mh_from = []\<rparr>,
       em_body = [], em_subject = ''Hi'', em_date = 0, em_have_attachments = False, em_html = [],
       em_user_id = 0, em_to = [], em_to_ = [], em_from_ = [], em_from = []\<rparr>], ep_pagination = None\<rparr>))) False
                (handleDeleteEmail (Some ''acc1'') 3 inbox_init))) = []"
  using delete_overwrites_reload [where s = inbox_init and u = "()" and i = 3 and a = "Some ''acc1''"
            and r = "Fetch_Json (Api_Success (Some \<lparr>ep_data = Some [\<lparr>em_count = 1, em_parent_email_id = 0, em_id = 7, em_folder = ''inbox'', em_size = ''1'',
       em_is_seen = ''0'', em_mail_headers = \<lparr>mh_cc = [], mh_to = [], mh_bcc = [], mh_from = []\<rparr>,
       em_body = [], em_subject = ''Hi'', em_date = 0, em_have_attachments = False, em_html = [],
       em_user_id = 0, em_to = [], em_to_ = [], em_from_ = [], em_from = []\<rparr>], ep_pagination = None\<rparr>))"
            and is_mock = False]
  by (simp add: inbox_init_def)

text \<open>
  The pager: shown only for more than one page, "previous" enabled except on
  page one, one button per page \<open>1..totalPages\<close> in order, "next" from
  \<open>hasNextPage\<close>, and exactly one highlighted button when the current page is in
  range (none otherwise).
\<close>

theorem pagination_view_spec:
  assumes "pagination_view s = Some v"
  shows "(prev_enabled v \<longleftrightarrow> currentPage s \<noteq> 1) \<and>
         (\<exists>p. pagination s = Some p \<and> 1 < pd_totalPages p \<and>
              map fst (page_buttons v) = [1..pd_totalPages p] \<and>
              next_enabled v = pd_hasNextPage p \<and>
              length (filter snd (page_buttons v)) =
                (if 1 \<le> currentPage s \<and> currentPage s \<le> pd_totalPages p then 1 else 0))"
proof -
  obtain p where p: "pagination s = Some p" "1 < pd_totalPages p"
    "v = \<lparr>prev_enabled = (currentPage s \<noteq> 1),
          page_buttons = map (\<lambda>i. (i, currentPage s = i)) [1..pd_totalPages p],
          next_enabled = pd_hasNextPage p\<rparr>"
    using assms by (auto simp: pagination_view_def split: option.splits if_splits)
  have "length (filter (\<lambda>i. currentPage s = i) [1..pd_totalPages p]) =
          (if 1 \<le> currentPage s \<and> currentPage s \<le> pd_totalPages p then 1 else 0)"
    by (simp add: length_filter_eq_distinct)
  then show ?thesis using p by (simp add: comp_def filter_map)
qed

theorem pagination_view_spec_witness:
  "length (filter snd (page_buttons (the (pagination_view (inbox_init\<lparr>currentPage := 2,
      pagination := Some \<lparr>pd_currentPage = 2, pd_pageSize = 20, pd_totalItems = 50, pd_totalPages = 3,
                          pd_hasNextPage = True\<rparr>\<rparr>))))) = 1"
  using pagination_view_spec [where s = "inbox_init\<lparr>currentPage := 2,
      pagination := Some \<lparr>pd_currentPage = 2, pd_pageSize = 20, pd_totalItems = 50, pd_totalPages = 3,
                          pd_hasNextPage = True\<rparr>\<rparr>"
      and v = "\<lparr>prev_enabled = True, page_buttons = [(1, False), (2, True), (3, False)], next_enabled = True\<rparr>"]
  by (simp add: pagination_view_def inbox_init_def upto.simps)


text \<open>
  C13: every state of the page's notification client, after any sequence of transport
  events and page calls, satisfies the client invariant: at most \<open>maxReconnectAttempts\<close>
  attempts counted, a reconnect pending only while disconnected, and a client built for the
  REST URL disconnected, silent and with nothing scheduled.
\<close>

theorem page_client_inv: "client_inv (client_run (ws_init env maxA) es)"
  unfolding ws_init_def
  by (intro client_reachable_inv client_run_reachable client_reachable.init)

text \<open>
  C9: exactly one handshake per connection (spec, acceptance 2): when the page has
  called \<open>authenticate\<close> and \<open>joinEmailRoom\<close> before the transport opens, the
  client sends one authenticate and one join message on opening and one pair again on each
  re-opened connection, and nothing else.
\<close>

theorem page_client_handshake_once:
  assumes "\<not> is_rest_url (ws_url env)" "0 < maxA"
  shows "outbox (client_run (ws_init env maxA :: 'h client)
                   ([Ev_Authenticate a, Ev_Join r, Ev_Open] @ concat (replicate n reconnect_cycle))) =
           concat (replicate (Suc n) [Authenticate a, Join_Room r])"
proof -
  let ?c = "client_run (ws_init env maxA :: 'h client) [Ev_Authenticate a, Ev_Join r, Ev_Open]"
  have c: "transport ?c = Connected" "reconnect_due ?c = None" "reconnectAttempts ?c = 0"
    "maxReconnectAttempts ?c = maxA" "session_account ?c = Some a" "session_room ?c = Some r"
    "outbox ?c = [Authenticate a, Join_Room r]"
    using assms(1)
    by (simp_all add: ws_init_def newEmailNotificationClient_def client_ops_defs handshake_def)
  have "outbox (client_run ?c (concat (replicate n reconnect_cycle))) =
          outbox ?c @ concat (replicate n [Authenticate a, Join_Room r])"
    by (rule reconnect_cycles [of ?c a r n]) (use c assms(2) in simp_all)
  then show ?thesis by (simp only: client_run_append c(7)) simp
qed

theorem page_client_handshake_once_witness:
  "outbox (client_run (ws_init None 5 :: unit client)
             ([Ev_Authenticate ''7'', Ev_Join ''a@b.c'', Ev_Open] @ concat (replicate 2 reconnect_cycle))) =
   concat (replicate 3 [Authenticate ''7'', Join_Room ''a@b.c''])"
proof -
  have "outbox (client_run (ws_init None 5 :: unit client)
             ([Ev_Authenticate ''7'', Ev_Join ''a@b.c'', Ev_Open] @ concat (replicate 2 reconnect_cycle))) =
        concat (replicate (Suc 2) [Authenticate ''7'', Join_Room ''a@b.c''])"
    by (rule page_client_handshake_once) (simp_all add: ws_url_def is_rest_url_def js_eval)
  then show ?thesis by (simp add: numeral_3_eq_3)
qed

text \<open>
  C23: reconnection ends (spec, acceptance 5): after \<open>maxReconnectAttempts\<close>
  failed attempts the next close leaves the counter at the maximum, and from then on, whatever
  happens, the status the page polls never reports a connection.
\<close>

theorem page_client_gives_up:
  assumes "\<not> is_rest_url (ws_url env)"
  shows "reconnectAttempts (client_run (ws_init env maxA :: 'h client) (concat (replicate maxA failed_attempt) @ [Ev_Close 0])) = maxA \<and>
         \<not> isConnected (getConnectionStatus
              (client_run (client_run (ws_init env maxA :: 'h client) (concat (replicate maxA failed_attempt) @ [Ev_Close 0])) es))"
proof -
  let ?c = "client_run (ws_init env maxA :: 'h client) (concat (replicate maxA failed_attempt) @ [Ev_Close 0])"
  have h: "gave_up ?c \<and> reconnectAttempts ?c = maxA"
    using assms unfolding ws_init_def by (rule retries_exhausted)
  then have g: "gave_up ?c" by blast
  have "\<not> isConnected (getConnectionStatus (client_run ?c es))"
    unfolding getConnectionStatus_def conn_status.select_convs using gave_up_stays [OF g, of es] by blast
  with h show ?thesis by blast
qed

theorem page_client_gives_up_witness:
  "\<not> isConnected (getConnectionStatus
       (client_run (client_run (ws_init None 5 :: unit client) (concat (replicate 5 failed_attempt) @ [Ev_Close 0]))
          [Ev_Reconnect_Timer 60000, Ev_Open]))"
  by (rule conjunct2 [OF page_client_gives_up]) (simp add: ws_url_def is_rest_url_def js_eval)

text \<open>
  When \<open>NEXT_PUBLIC_WS_URL\<close> names the REST API host, the page's client
  is inert: it sends nothing, delivers no notification and reports WebSockets unavailable.
\<close>

theorem rest_url_client_silent:
  assumes "is_rest_url (ws_url env)"
  shows "outbox (client_run (ws_init env maxA) es) = [] \<and>
         dispatch (client_run (ws_init env maxA) es) = [] \<and>
         \<not> isWebSocketAvailable (client_run (ws_init env maxA) es)"
  using assms unfolding ws_init_def by (rule disabled_client_silent)

theorem rest_url_client_silent_witness:
  "outbox (client_run (ws_init (Some ''https://uapi.sendbun.com'') 5 :: unit client)
             [Ev_Open, Ev_Authenticate ''7'', Ev_Join ''a@b.c'']) = []"
  by (rule conjunct1 [OF rest_url_client_silent]) (simp add: ws_url_def is_rest_url_def js_eval)

text \<open>
  C31: unmounting the page is final (spec, acceptance 6): after \<open>disconnect\<close>,
  no sequence of events, a pending reconnect timer included, connects the client again or
  delivers a notification.
\<close>

theorem unmount_final:
  "transport (client_run (ws_unmount (client_run (ws_init env maxA) es)) fs) \<noteq> Connected \<and>
   dispatch (client_run (ws_unmount (client_run (ws_init env maxA) es)) fs) = []"
proof -
  let ?c = "client_run (ws_init env maxA) es"
  have "client_inv ?c"
    unfolding ws_init_def by (intro client_reachable_inv client_run_reachable client_reachable.init)
  then have "gave_up (ws_unmount ?c)"
    by (auto simp: ws_unmount_def disconnect_def gave_up_def client_inv_def)
  then show ?thesis using gave_up_stays [of "ws_unmount ?c" fs] by blast
qed


text \<open>
  C3: the page's client refines the specification's connection state machine
  (section 4.1): it starts disabled for the REST URL and connecting otherwise, with no
  attempts, and every run of its events is, through \<open>conn_abs\<close>, a run of the machine
  in which each event is a transition or a stutter.
\<close>

theorem page_client_refines_spec:
  "conn_abs (ws_init env maxA :: 'h client) =
     (if is_rest_url (ws_url env) then Ph_Disabled else Ph_Connecting, 0) \<and>
   (spec_conn_step maxA)\<^sup>*\<^sup>* (conn_abs (ws_init env maxA :: 'h client))
     (conn_abs (client_run (ws_init env maxA :: 'h client) es))"
  unfolding ws_init_def by (rule client_refines_spec)

theorem page_client_refines_spec_witness:
  "(spec_conn_step 1)\<^sup>*\<^sup>* (Ph_Connecting, 0) (Ph_Gave_Up, 1)"
proof -
  have "(spec_conn_step 1)\<^sup>*\<^sup>* (conn_abs (ws_init None 1 :: unit client))
          (conn_abs (client_run (ws_init None 1 :: unit client)
             [Ev_Open, Ev_Close 0, Ev_Reconnect_Timer 1000, Ev_Close 2000]))"
    by (rule conjunct2 [OF page_client_refines_spec])
  then show ?thesis
    by (simp add: ws_init_def ws_url_def conn_abs_def newEmailNotificationClient_def client_ops_defs
                  handshake_def backoff_delay_def is_rest_url_def js_eval)
qed


text \<open>
  C24: the client's duplicate window shields the page: of two identical pushes at \<open>t\<close> and
  \<open>t'\<close>, the page's \<open>handleNewEmail\<close> runs for the second only when \<open>t' \<ge> t + 5000\<close>,
  whatever the sender and subject (a \<open>-\<close> in them included, which the page's own key check
  cannot recognise).
\<close>

theorem page_push_dedup:
  assumes "transport c = Connected" "\<not> is_recent_dup t p c" "t \<le> t'"
  shows "fst (page_push t' p (page_push t p (s, ws_register handleNewEmail c))) =
           (if t' < t + dedup_ms then handleNewEmail (push_notification p) t s
            else handleNewEmail (push_notification p) t' (handleNewEmail (push_notification p) t s))"
proof -
  let ?c1 = "on_message t p (ws_register handleNewEmail c)"
  have reg: "transport (ws_register handleNewEmail c) = Connected"
    "\<not> is_recent_dup t p (ws_register handleNewEmail c)"
    using assms(1,2)
    by (simp_all add: ws_register_def onNewEmail_def clearNotificationCallbacks_def is_recent_dup_def
                      live_recent_def)
  have p1: "page_push t p (s, ws_register handleNewEmail c) = (handleNewEmail (push_notification p) t s, ?c1)"
    using page_push_registered [OF assms(1)] assms(2) by simp
  have w: "is_recent_dup t' p ?c1 \<longleftrightarrow> t' < t + dedup_ms"
    using on_message_window [OF reg assms(3)] .
  have cb: "callbacks ?c1 = [handleNewEmail]" "transport ?c1 = Connected"
    using assms(1,2) reg(2)
    by (simp_all add: on_message_def ws_register_def onNewEmail_def clearNotificationCallbacks_def)
  show ?thesis
    using w cb unfolding p1
    by (simp add: page_push_def on_message_def)
qed

theorem page_push_dedup_witness:
  "fst (page_push 2000 \<lparr>np_from = Some ''a-b@c.d'', np_subject = None, np_extra = []\<rparr>
          (page_push 0 \<lparr>np_from = Some ''a-b@c.d'', np_subject = None, np_extra = []\<rparr>
             (inbox_init, ws_register handleNewEmail
                (client_run (ws_init None 5 :: page_handler client) [Ev_Open])))) =
   handleNewEmail \<lparr>n_from = Some ''a-b@c.d'', n_subject = None\<rparr> 0 inbox_init"
proof -
  have "transport (client_run (ws_init None 5 :: page_handler client) [Ev_Open]) = Connected \<and>
        \<not> is_recent_dup 0 \<lparr>np_from = Some ''a-b@c.d'', np_subject = None, np_extra = []\<rparr>
            (client_run (ws_init None 5 :: page_handler client) [Ev_Open])"
    by (simp add: ws_init_def ws_url_def newEmailNotificationClient_def is_rest_url_def js_eval
                  client_ops_defs is_recent_dup_def live_recent_def)
  then show ?thesis
    using page_push_dedup [of "client_run (ws_init None 5 :: page_handler client) [Ev_Open]" 0
            "\<lparr>np_from = Some ''a-b@c.d'', np_subject = None, np_extra = []\<rparr>" 2000 inbox_init]
    by (simp add: dedup_ms_def push_notification_def)
qed

end
