(* ===== verification/Five_Minute.thy ===== *)
theory Five_Minute
  imports Inbox_Page
begin

text \<open>
  The five-minute mailbox: the page that creates it and counts it down
  (\<open>src/app/[locale]/5-minutes-temporary-email/page.tsx\<close>).  Its state is the
  record \<open>fm_page\<close> (the component's \<open>useState\<close> hooks, the toasts it raised and the
  redirects it scheduled); \<open>localStorage\<close> is threaded beside it and the ids handed to
  \<open>deleteEmailAccount\<close> are returned.  The page calls the e-mail service of
  \<open>Email_Service\<close> directly.
\<close>

section \<open>The five-minute page\<close>

datatype fm_toast =
    FT_Restored
  | FT_Created
  | FT_Demo_Mode
  | FT_New_Created
  | FT_Expired
  | FT_Copied

record fm_page =
  fp_email :: string
  fp_accountId :: "string option"
  fp_isGenerating :: bool
  fp_isLoading :: bool
  fp_timeLeft :: int
  fp_account :: "email_account option"
  fp_toasts :: "fm_toast list"
  fp_redirects :: "ms list"
  fp_clipboard :: "string list"

definition fm_page_init :: fm_page where
  "fm_page_init =
     \<lparr>fp_email = [], fp_accountId = None, fp_isGenerating = False, fp_isLoading = True,
      fp_timeLeft = 300, fp_account = None, fp_toasts = [], fp_redirects = [], fp_clipboard = []\<rparr>"

definition init5 ::
  "window \<Rightarrow> ms \<Rightarrow> provision_input \<Rightarrow> local_storage \<Rightarrow> (init_error + email_account) \<times> local_storage" where
  "init5 w now inp st =
     initialize5MinEmailAccount w now (pi_domains inp) (pi_rdom inp) (pi_username inp) (pi_rpw inp) (pi_create inp) st"

text \<open>\<open>setAccount\<close>, \<open>setEmail\<close>, \<open>setAccountId\<close>, \<open>setTimeLeft(getTimeRemaining(..))\<close>.\<close>

definition fm_show_account :: "ms \<Rightarrow> email_account \<Rightarrow> fm_page \<Rightarrow> fm_page" where
  "fm_show_account now a p =
     p\<lparr>fp_account := Some a, fp_email := email a, fp_accountId := Some (acc_id a),
       fp_timeLeft := getTimeRemaining now a\<rparr>"

text \<open>The \<open>catch\<close> of both initialisers: a demo address, no account, five minutes shown.\<close>

definition fm_demo :: "ms \<Rightarrow> fm_page \<Rightarrow> fm_page" where
  "fm_demo now p =
     p\<lparr>fp_email := ''temp.5min.'' @ int_string now @ ''@sendbun.com'',
       fp_accountId := Some (int_string now), fp_timeLeft := 300,
       fp_toasts := fp_toasts p @ [FT_Demo_Mode]\<rparr>"

text \<open>
  \<open>initializeAccount\<close> (run on mount): clean up an expired five-minute account; restore
  a stored unexpired one; otherwise \<open>initialize5MinEmailAccount\<close>, falling back to the
  demo address when it rejects.  The condition of line 56 is \<open>reusable_5min\<close>'s.
\<close>

definition fm_initializeAccount ::
  "window \<Rightarrow> ms \<Rightarrow> provision_input \<Rightarrow> fm_page \<times> local_storage \<Rightarrow> (fm_page \<times> local_storage) \<times> string list" where
  "fm_initializeAccount w now inp ps =
     (let (p, st) = ps;
          (dels, st1) = cleanupExpired5MinAccounts w now st
      in (case reusable_5min now (loadFiveMinEmailData w st1) of
            Some a \<Rightarrow> (((fm_show_account now a p)\<lparr>fp_toasts := fp_toasts p @ [FT_Restored],
                                                 fp_isLoading := False\<rparr>, st1), dels)
          | None \<Rightarrow> (case init5 w now inp st1 of
                (Inr a, st2) \<Rightarrow> (((fm_show_account now a p)\<lparr>fp_toasts := fp_toasts p @ [FT_Created],
                                                         fp_isLoading := False\<rparr>, st2), dels)
              | (Inl e, st2) \<Rightarrow> (((fm_demo now p)\<lparr>fp_isLoading := False\<rparr>, st2), dels))))"

text \<open>
  \<open>generateNewEmail\<close>: clean up when the page holds an account, then
  \<open>initialize5MinEmailAccount\<close> (which returns a stored unexpired account as it is).
\<close>

definition fm_generateNewEmail ::
  "window \<Rightarrow> ms \<Rightarrow> provision_input \<Rightarrow> fm_page \<times> local_storage \<Rightarrow> (fm_page \<times> local_storage) \<times> string list" where
  "fm_generateNewEmail w now inp ps =
     (let (p, st) = ps;
          (dels, st1) = (if fp_account p \<noteq> None then cleanupExpired5MinAccounts w now st else ([], st))
      in (case init5 w now inp st1 of
            (Inr a, st2) \<Rightarrow> (((fm_show_account now a p)\<lparr>fp_toasts := fp_toasts p @ [FT_New_Created],
                                                     fp_isGenerating := False\<rparr>, st2), dels)
          | (Inl e, st2) \<Rightarrow> (((fm_demo now p)\<lparr>fp_isGenerating := False\<rparr>, st2), dels)))"

text \<open>\<open>handleAccountExpiry\<close>: clean up, toast, and schedule \<open>router.push('../')\<close> in 2 s.\<close>

definition fm_handleAccountExpiry ::
  "window \<Rightarrow> ms \<Rightarrow> fm_page \<times> local_storage \<Rightarrow> (fm_page \<times> local_storage) \<times> string list" where
  "fm_handleAccountExpiry w now ps =
     (let (p, st) = ps;
          (dels, st1) = cleanupExpired5MinAccounts w now st
      in ((p\<lparr>fp_toasts := fp_toasts p @ [FT_Expired], fp_redirects := fp_redirects p @ [now + 2000]\<rparr>, st1),
          dels))"

text \<open>
  One firing of the countdown interval, which runs while the page holds an account with
  an expiry: show \<open>getTimeRemaining\<close>, and handle the expiry when it is 0.
\<close>

definition fm_timer_tick ::
  "window \<Rightarrow> ms \<Rightarrow> fm_page \<times> local_storage \<Rightarrow> (fm_page \<times> local_storage) \<times> string list" where
  "fm_timer_tick w now ps =
     (let (p, st) = ps
      in (case fp_account p of
            None \<Rightarrow> ((p, st), [])
          | Some a \<Rightarrow>
              if expires_at a = None then ((p, st), [])
              else (let remaining = getTimeRemaining now a;
                        p1 = p\<lparr>fp_timeLeft := remaining\<rparr>
                    in if remaining \<le> 0 then fm_handleAccountExpiry w now (p1, st) else ((p1, st), []))))"

definition fm_copyEmail :: "fm_page \<Rightarrow> fm_page" where
  "fm_copyEmail p = p\<lparr>fp_clipboard := fp_clipboard p @ [fp_email p], fp_toasts := fp_toasts p @ [FT_Copied]\<rparr>"

text \<open>\<open>formatTime\<close>: minutes, a colon, and the seconds padded to two digits.\<close>

definition formatTime :: "int \<Rightarrow> string" where
  "formatTime seconds =
     (let mins = seconds div 60; secs = js_rem seconds 60
      in int_string mins @ '':'' @ pad_start 2 CHR ''0'' (int_string secs))"

datatype timer_colour = Timer_Urgent | Timer_Warning | Timer_Calm

definition timer_colour :: "int \<Rightarrow> timer_colour" where
  "timer_colour timeLeft =
     (if timeLeft \<le> 60 then Timer_Urgent else if timeLeft \<le> 120 then Timer_Warning else Timer_Calm)"

datatype fm_page_view =
    FV_Loading
  | FV_Ready string string timer_colour

text \<open>The render: a spinner while loading, else the address, the countdown and the inbox link.\<close>

definition fm_page_render :: "fm_page \<Rightarrow> fm_page_view" where
  "fm_page_render p =
     (if fp_isLoading p then FV_Loading
      else FV_Ready (fp_email p) (formatTime (fp_timeLeft p)) (timer_colour (fp_timeLeft p)))"


section \<open>The five-minute inbox\<close>

text \<open>
  \<open>src/app/[locale]/5-minutes-temporary-email/inbox/page.tsx\<close> is a copy of the regular
  inbox page reading the five-minute record, with a countdown.  Its state is the regular
  page's (\<open>fi_page\<close>) and the countdown's: \<open>timeLeft\<close> (\<open>None\<close> is \<open>NaN\<close>, what
  \<open>Math.floor\<close> of a missing expiry gives), the 200 ms account poll and its attempt count,
  and whether the countdown interval runs.  Handlers the copy shares verbatim are the
  regular page's definitions applied to \<open>fi_page\<close>.
\<close>

record fm_inbox =
  fi_page :: inbox_state
  fi_timeLeft :: "int option"
  fi_polling :: bool
  fi_attempts :: nat
  fi_countdown :: bool

definition fi_lift :: "(inbox_state \<Rightarrow> inbox_state) \<Rightarrow> fm_inbox \<Rightarrow> fm_inbox" where
  "fi_lift f s = s\<lparr>fi_page := f (fi_page s)\<rparr>"

definition fm_inbox_init :: fm_inbox where
  "fm_inbox_init =
     \<lparr>fi_page = inbox_init, fi_timeLeft = Some 0, fi_polling = False, fi_attempts = 0, fi_countdown = False\<rparr>"

definition fi_loadEmails :: "string option \<Rightarrow> ms \<Rightarrow> fm_inbox \<Rightarrow> fm_inbox \<times> bool" where
  "fi_loadEmails emailAccountId now s =
     (case loadEmails emailAccountId now (fi_page s) of (p, sent) \<Rightarrow> (s\<lparr>fi_page := p\<rparr>, sent))"

text \<open>The debounced refresh's timer: here the \<open>finally\<close> only dismisses the toast.\<close>

definition fi_fire_refresh :: "string option \<Rightarrow> ms \<Rightarrow> inbox_state \<Rightarrow> inbox_state" where
  "fi_fire_refresh emailAccountId t s =
     (case refresh_due s of
        None \<Rightarrow> s
      | Some due \<Rightarrow>
          if due \<le> t
          then start_load [Toast_Dismiss_Refreshing] emailAccountId due
                 (s\<lparr>refresh_due := None, toasts := toasts s @ [Toast_Refreshing]\<rparr>)
          else s)"

text \<open>\<open>handleNewEmail\<close>: the same duplicate check; the toast names \<open>'Unknown sender'\<close>.\<close>

definition fi_handleNewEmail :: "notification \<Rightarrow> ms \<Rightarrow> inbox_state \<Rightarrow> inbox_state" where
  "fi_handleNewEmail n now s =
     (let notificationKey = notification_key n now
      in if isDuplicate n s then s
         else debouncedRefresh now
                (s\<lparr>recentNotifications := set_add notificationKey (recentNotifications s),
                   dedup_timers := dedup_timers s @ [(now + 5000, notificationKey)],
                   toasts := toasts s @ [Toast_New_Email (opt_or (n_from n) ''Unknown sender'')]\<rparr>))"

definition fi_tick :: "string option \<Rightarrow> ms \<Rightarrow> fm_inbox \<Rightarrow> fm_inbox" where
  "fi_tick emailAccountId t = fi_lift (\<lambda>s. fi_fire_refresh emailAccountId t (fire_dedup t s))"

definition fi_updateConnectionStatus ::
  "conn_status \<Rightarrow> string option \<Rightarrow> string option \<Rightarrow> fm_inbox \<Rightarrow> fm_inbox \<times> bool" where
  "fi_updateConnectionStatus status emailAccountId currentEmail s =
     (case updateConnectionStatus status emailAccountId currentEmail (fi_page s) of
        (p, auth) \<Rightarrow> (s\<lparr>fi_page := p\<rparr>, auth))"

text \<open>
  The page's own copy of the notification-client wiring: the client is built once from
  \<open>NEXT_PUBLIC_WS_URL\<close> or \<open>ws://localhost:8001\<close>; the notification effect returns
  early unless an account id and an address are known, and otherwise replaces the client's
  handlers by its \<open>handleNewEmail\<close>; the effect's clean-up drops the pending refresh, the
  client's handlers and the remembered keys; unmounting disconnects the client and drops
  the refresh and the keys.
\<close>

definition fi_ws_init :: "string option \<Rightarrow> nat \<Rightarrow> 'h client" where
  "fi_ws_init env maxA =
     newEmailNotificationClient (js_or (case env of None \<Rightarrow> [] | Some u \<Rightarrow> u) ''ws://localhost:8001'') maxA"

definition fi_ws_effect :: "'h \<Rightarrow> string option \<Rightarrow> string option \<Rightarrow> 'h client \<Rightarrow> 'h client" where
  "fi_ws_effect h emailAccountId currentEmail c =
     (if \<not> js_truthy emailAccountId \<or> \<not> js_truthy currentEmail then c
      else onNewEmail h (clearNotificationCallbacks c))"

definition fi_ws_effect_cleanup :: "fm_inbox \<times> 'h client \<Rightarrow> fm_inbox \<times> 'h client" where
  "fi_ws_effect_cleanup sc =
     (let (s, c) = sc
      in (fi_lift (\<lambda>p. p\<lparr>refresh_due := None, recentNotifications := []\<rparr>) s, clearNotificationCallbacks c))"

definition fi_ws_unmount :: "fm_inbox \<times> 'h client \<Rightarrow> fm_inbox \<times> 'h client" where
  "fi_ws_unmount sc =
     (let (s, c) = sc
      in (fi_lift (\<lambda>p. p\<lparr>refresh_due := None, recentNotifications := []\<rparr>) s, disconnect c))"

text \<open>
  A re-run of the notification effect (its dependencies changed): the previous run's
  clean-up, then the new run with its new \<open>handleNewEmail\<close>.
\<close>

definition fi_ws_rerun :: "'h \<Rightarrow> string option \<Rightarrow> string option \<Rightarrow> fm_inbox \<times> 'h client \<Rightarrow> fm_inbox \<times> 'h client" where
  "fi_ws_rerun h emailAccountId currentEmail sc =
     (let (s, c) = fi_ws_effect_cleanup sc in (s, fi_ws_effect h emailAccountId currentEmail c))"

text \<open>
  The countdown effect, run whenever \<open>timeLeft\<close> changes (and on mount): with a stored
  account and expiry, either the time is up (\<open>timeLeft <= 0\<close> and the clock past the
  expiry: clear the record and toast) or a one-second interval starts.
\<close>

definition fi_stored_expiry :: "window \<Rightarrow> local_storage \<Rightarrow> ms option" where
  "fi_stored_expiry w st =
     (case loadFiveMinEmailData w st of
        None \<Rightarrow> None
      | Some d \<Rightarrow> (case currentAccount d of None \<Rightarrow> None | Some a \<Rightarrow> expires_at a))"

definition fi_countdown_effect :: "window \<Rightarrow> ms \<Rightarrow> fm_inbox \<times> local_storage \<Rightarrow> fm_inbox \<times> local_storage" where
  "fi_countdown_effect w now sst =
     (let (s, st) = sst
      in (case fi_stored_expiry w st of
            None \<Rightarrow> (s\<lparr>fi_countdown := False\<rparr>, st)
          | Some e \<Rightarrow>
              if (case fi_timeLeft s of None \<Rightarrow> False | Some v \<Rightarrow> v \<le> 0) \<and> e \<le> now
              then (fi_lift (\<lambda>p. p\<lparr>toasts := toasts p @ [Toast_Account_Expired]\<rparr>) (s\<lparr>fi_countdown := False\<rparr>),
                    clearFiveMinEmailData w st)
              else (s\<lparr>fi_countdown := True\<rparr>, st)))"

text \<open>\<open>setTimeLeft\<close>: a new value re-runs the countdown effect (React compares with \<open>Object.is\<close>).\<close>

definition fi_set_timeLeft ::
  "window \<Rightarrow> ms \<Rightarrow> int option \<Rightarrow> fm_inbox \<times> local_storage \<Rightarrow> fm_inbox \<times> local_storage" where
  "fi_set_timeLeft w now v sst =
     (if v = fi_timeLeft (fst sst) then sst
      else fi_countdown_effect w now ((fst sst)\<lparr>fi_timeLeft := v\<rparr>, snd sst))"

text \<open>
  One firing of the countdown interval: \<open>setTimeLeft(prev => ..)\<close> decrements, and at
  \<open>prev <= 1\<close> reads the record again, clearing it (with a toast) once the clock has
  reached the expiry; the value is then 0.
\<close>

definition fi_countdown_tick :: "window \<Rightarrow> ms \<Rightarrow> fm_inbox \<times> local_storage \<Rightarrow> fm_inbox \<times> local_storage" where
  "fi_countdown_tick w now sst =
     (let (s, st) = sst
      in if \<not> fi_countdown s then (s, st)
         else (case fi_timeLeft s of
                 None \<Rightarrow> (s, st)
               | Some prev \<Rightarrow>
                   if prev \<le> 1
                   then (case fi_stored_expiry w st of
                           None \<Rightarrow> fi_set_timeLeft w now (Some 0) (s, st)
                         | Some e \<Rightarrow>
                             if e \<le> now
                             then fi_set_timeLeft w now (Some 0)
                                    (fi_lift (\<lambda>p. p\<lparr>toasts := toasts p @ [Toast_Account_Expired]\<rparr>) s,
                                     clearFiveMinEmailData w st)
                             else fi_set_timeLeft w now (Some 0) (s, st))
                   else fi_set_timeLeft w now (Some (prev - 1)) (s, st)))"

text \<open>
  \<open>checkEmailAccount\<close>: with a stored account, show the inbox, set the time left from
  its expiry, load, and stop the poll if it runs; without, the no-account screen.
\<close>

definition fi_checkEmailAccount ::
  "window \<Rightarrow> string option \<Rightarrow> ms \<Rightarrow> fm_inbox \<times> local_storage \<Rightarrow> fm_inbox \<times> local_storage" where
  "fi_checkEmailAccount w emailAccountId now sst =
     (let (s, st) = sst
      in (case loadFiveMinEmailData w st of
            Some d \<Rightarrow> (case currentAccount d of
               Some a \<Rightarrow>
                 (let remaining = (case expires_at a of None \<Rightarrow> None | Some e \<Rightarrow> Some (max 0 ((e - now) div 1000)));
                      s1 = fi_lift (\<lambda>p. start_load [] emailAccountId now (p\<lparr>hasEmailAccount := True\<rparr>)) s
                  in fi_set_timeLeft w now remaining (s1\<lparr>fi_polling := False\<rparr>, st))
             | None \<Rightarrow> (fi_lift (\<lambda>p. p\<lparr>hasEmailAccount := False, isLoading := False\<rparr>) s, st))
          | None \<Rightarrow> (fi_lift (\<lambda>p. p\<lparr>hasEmailAccount := False, isLoading := False\<rparr>) s, st)))"

text \<open>
  The account effect: one check at once (the poll does not exist yet, so this check cannot
  stop it), then a 200 ms poll that checks again until an account is found or the eleventh
  firing stops it.
\<close>

definition fi_check_effect ::
  "window \<Rightarrow> string option \<Rightarrow> ms \<Rightarrow> fm_inbox \<times> local_storage \<Rightarrow> fm_inbox \<times> local_storage" where
  "fi_check_effect w emailAccountId now sst =
     (let (s, st) = fi_checkEmailAccount w emailAccountId now ((fst sst)\<lparr>fi_attempts := 0, fi_polling := False\<rparr>, snd sst)
      in (s\<lparr>fi_polling := True\<rparr>, st))"

definition fi_poll_tick ::
  "window \<Rightarrow> string option \<Rightarrow> ms \<Rightarrow> fm_inbox \<times> local_storage \<Rightarrow> fm_inbox \<times> local_storage" where
  "fi_poll_tick w emailAccountId now sst =
     (let (s, st) = sst
      in if \<not> fi_polling s then (s, st)
         else (let s1 = s\<lparr>fi_attempts := Suc (fi_attempts s)\<rparr>
               in if 10 < fi_attempts s1 then (s1\<lparr>fi_polling := False\<rparr>, st)
                  else fi_checkEmailAccount w emailAccountId now (s1, st)))"

text \<open>The handlers copied verbatim from the regular inbox page.\<close>

definition fi_loadFullEmail :: "string option \<Rightarrow> int \<Rightarrow> fm_inbox \<Rightarrow> fm_inbox" where
  "fi_loadFullEmail emailAccountId emailId = fi_lift (loadFullEmail emailAccountId emailId)"

definition fi_handlePageChange :: "int \<Rightarrow> fm_inbox \<Rightarrow> fm_inbox" where
  "fi_handlePageChange page = fi_lift (handlePageChange page)"

definition fi_handleRefresh :: "string option \<Rightarrow> ms \<Rightarrow> fm_inbox \<Rightarrow> fm_inbox" where
  "fi_handleRefresh emailAccountId now = fi_lift (handleRefresh emailAccountId now)"

definition fi_handleDeleteEmail :: "string option \<Rightarrow> int \<Rightarrow> fm_inbox \<Rightarrow> fm_inbox" where
  "fi_handleDeleteEmail emailAccountId emailId = fi_lift (handleDeleteEmail emailAccountId emailId)"

definition fi_copyEmailId :: "string option \<Rightarrow> fm_inbox \<Rightarrow> fm_inbox" where
  "fi_copyEmailId emailAccountId = fi_lift (copyEmailId emailAccountId)"

definition fi_copyEmailAddress :: "string option \<Rightarrow> fm_inbox \<Rightarrow> fm_inbox" where
  "fi_copyEmailAddress currentEmail = fi_lift (copyEmailAddress currentEmail)"

definition fi_refreshEmailAccount ::
  "window \<Rightarrow> string option \<Rightarrow> ms \<Rightarrow> fm_inbox \<times> local_storage \<Rightarrow> fm_inbox \<times> local_storage" where
  "fi_refreshEmailAccount w emailAccountId now sst =
     (let (s, st) = sst;
          none = (fi_lift (\<lambda>p. p\<lparr>hasEmailAccount := False, toasts := toasts p @ [Toast_No_Account]\<rparr>) s, st)
      in (case loadFiveMinEmailData w st of
            Some d \<Rightarrow> (case currentAccount d of
               Some a \<Rightarrow>
                 (let remaining = (case expires_at a of None \<Rightarrow> None | Some e \<Rightarrow> Some (max 0 ((e - now) div 1000)));
                      s1 = fi_lift (\<lambda>p. let p1 = start_load [] emailAccountId now (p\<lparr>hasEmailAccount := True\<rparr>)
                                        in p1\<lparr>toasts := toasts p1 @ [Toast_Account_Refreshed]\<rparr>) s
                  in fi_set_timeLeft w now remaining (s1, st))
             | None \<Rightarrow> none)
          | None \<Rightarrow> none))"

text \<open>
  The render: the regular inbox's, plus the countdown badge in the header, red below a
  minute (\<open>formatTime(NaN)\<close> is \<open>NaN:NaN\<close>).
\<close>

text \<open>
  The five-minute inbox's own copies of helpers that the regular inbox and the
  five-minute page also define, as written there (the lemma \<open>fi_copies_agree\<close> shows
  they coincide with those, which the render below relies on).
\<close>

definition fi_formatTime :: "int \<Rightarrow> string" where
  "fi_formatTime seconds =
     (let mins = seconds div 60; secs = js_rem seconds 60
      in int_string mins @ '':'' @ pad_start 2 CHR ''0'' (int_string secs))"

definition fi_formatDate :: "ms \<Rightarrow> ms \<Rightarrow> date_style" where
  "fi_formatDate now date =
     (let diffInHours = of_int (now - date) / (1000 * 60 * 60 :: rat)
      in if diffInHours < 24 then Time_Of_Day else if diffInHours < 168 then Weekday else Month_Day)"

definition fi_getSenderName :: "email \<Rightarrow> js_error + string" where
  "fi_getSenderName e =
     (case mh_from (em_mail_headers e) of
        [] \<Rightarrow> Inl TypeError
      | f # _ \<Rightarrow> Inr (js_or (ea_personal f) (js_or (ea_mailbox f) (ea_mail f))))"

definition fi_getSenderEmail :: "email \<Rightarrow> js_error + string" where
  "fi_getSenderEmail e =
     (case mh_from (em_mail_headers e) of
        [] \<Rightarrow> Inl TypeError
      | f # _ \<Rightarrow> Inr (ea_mail f))"

definition fi_handleEmailClick :: "string option \<Rightarrow> email \<Rightarrow> fm_inbox \<Rightarrow> fm_inbox" where
  "fi_handleEmailClick emailAccountId e s = fi_loadFullEmail emailAccountId (em_id e) s"

definition fi_pagination_view :: "fm_inbox \<Rightarrow> pager_view option" where
  "fi_pagination_view s =
     (case pagination (fi_page s) of
        None \<Rightarrow> None
      | Some p \<Rightarrow> if 1 < pd_totalPages p
                 then Some \<lparr>prev_enabled = (currentPage (fi_page s) \<noteq> 1),
                            page_buttons = map (\<lambda>i. (i, currentPage (fi_page s) = i)) [1..pd_totalPages p],
                            next_enabled = pd_hasNextPage p\<rparr>
                 else None)"

definition fi_timer_badge :: "int option \<Rightarrow> string \<times> bool" where
  "fi_timer_badge t = (case t of None \<Rightarrow> (''NaN:NaN'', False) | Some v \<Rightarrow> (fi_formatTime v, v < 60))"

text \<open>
  A row of the five-minute list: as the regular inbox's, with the fallbacks written in
  English in the code.
\<close>

definition fi_render_row :: "ms \<Rightarrow> email \<Rightarrow> js_error + email_row" where
  "fi_render_row now e =
     (case fi_getSenderName e of
        Inl err \<Rightarrow> Inl err
      | Inr nm \<Rightarrow> Inr \<lparr>row_id = em_id e, row_sender = nm, row_unread = (em_is_seen e = ''0''),
                        row_attachment = em_have_attachments e,
                        row_subject = js_or (em_subject e) ''(No subject)'',
                        row_preview = js_or (em_body e) ''No preview available'',
                        row_date = fi_formatDate now (em_date e), row_folder = em_folder e\<rparr>)"

fun fi_render_rows :: "ms \<Rightarrow> email list \<Rightarrow> js_error + email_row list" where
  "fi_render_rows now [] = Inr []"
| "fi_render_rows now (e # es) =
     (case fi_render_row now e of
        Inl err \<Rightarrow> Inl err
      | Inr r \<Rightarrow> (case fi_render_rows now es of Inl err \<Rightarrow> Inl err | Inr rs \<Rightarrow> Inr (r # rs)))"

text \<open>
  The five-minute inbox's render: the search filter first (the regular inbox's code), then
  the no-account screen, or the account header with its countdown badge and the list with
  the same connection badges, count, rows and pager as the regular inbox.
\<close>

definition fi_inbox_render :: "ms \<Rightarrow> fm_inbox \<Rightarrow> js_error + inbox_view \<times> (string \<times> bool) option" where
  "fi_inbox_render now s =
     (let p = fi_page s
      in case filteredEmails (searchTerm p) (emails p) of
           Inl err \<Rightarrow> Inl err
         | Inr shown \<Rightarrow>
             if \<not> hasEmailAccount p then Inr (No_Account_View, None)
             else (let count = (case pagination p of None \<Rightarrow> 0 | Some pg \<Rightarrow> pd_totalItems pg);
                       badge = Some (fi_timer_badge (fi_timeLeft s));
                       view = Account_View (ws_header_indicator (wsConnectionStatus p))
                                (ws_title_badge (wsConnectionStatus p)) count
                   in if isLoading p then Inr (view List_Loading (fi_pagination_view s), badge)
                      else if shown = [] then Inr (view List_Empty (fi_pagination_view s), badge)
                      else (case fi_render_rows now shown of
                              Inl err \<Rightarrow> Inl err
                            | Inr rows \<Rightarrow> Inr (view (List_Emails rows) (fi_pagination_view s), badge))))"


section \<open>Lemmas\<close>

lemma cleanup5_stored:
  assumes "loadFiveMinEmailData w st = Some d" "currentAccount d = Some a"
  shows "cleanupExpired5MinAccounts w now st =
           (if isAccountExpired now a then ([acc_id a], saveFiveMinEmailData w (d\<lparr>currentAccount := None\<rparr>) st)
            else ([], st))"
  using assms by (simp add: cleanupExpired5MinAccounts_def cleanup_slot_def)

lemma cleanup5_none:
  "loadFiveMinEmailData w st = None \<Longrightarrow> cleanupExpired5MinAccounts w now st = ([], st)"
  by (simp add: cleanupExpired5MinAccounts_def cleanup_slot_def)

lemma time_remaining_step:
  assumes "expires_at a = Some e" "0 < getTimeRemaining t a" "getTimeRemaining (t + 1000) a = 0"
  shows "\<not> isAccountExpired (t + 1000) a \<and> isAccountExpired (t + 2000) a"
proof -
  have "1000 \<le> e - t" using assms(1,2) by (simp add: getTimeRemaining_def pos_imp_zdiv_pos_iff)
  moreover have "e - (t + 1000) < 1000"
    using assms(1,3) by (simp add: getTimeRemaining_def div_pos_pos_trivial zdiv_eq_0_iff)
  ultimately show ?thesis using assms(1) by (simp add: isAccountExpired_def)
qed

lemma init5_no_domains:
  assumes "loadFiveMinEmailData w st = None" "pi_domains inp = Fetch_Json (Api_Success (Some (Domains_Field [])))"
  shows "init5 w now inp st = (Inl No_Domains, st)"
  using assms by (simp add: init5_def initialize5MinEmailAccount_def reusable_5min_def provision_def)

lemma int_string_nonneg: "0 \<le> i \<Longrightarrow> int_string i = dec_string (nat i)"
  by (simp add: int_string_def)

lemma colon_notin_dec_string: "CHR '':'' \<notin> set (dec_string n)"
proof
  assume "CHR '':'' \<in> set (dec_string n)"
  then obtain d where d: "d < 10" "CHR '':'' = digit_char d" using dec_string_digits by blast
  then have "(of_char (digit_char d) :: nat) = of_char (CHR '':'')" by simp
  with d(1) show False by simp
qed

lemma fi_check_none:
  "loadFiveMinEmailData w st = None \<Longrightarrow>
   fi_checkEmailAccount w aid now (s, st) = (fi_lift (\<lambda>p. p\<lparr>hasEmailAccount := False, isLoading := False\<rparr>) s, st)"
  by (simp add: fi_checkEmailAccount_def)

lemma fi_lift_simps [simp]:
  "fi_polling (fi_lift f s) = fi_polling s" "fi_attempts (fi_lift f s) = fi_attempts s"
  "fi_timeLeft (fi_lift f s) = fi_timeLeft s" "fi_countdown (fi_lift f s) = fi_countdown s"
  "fi_page (fi_lift f s) = f (fi_page s)"
  by (simp_all add: fi_lift_def)

lemma stored_expiry_clear [simp]: "fi_stored_expiry w (clearFiveMinEmailData w st) = None"
  by (cases w) (simp_all add: fi_stored_expiry_def storage_defs)

lemma effect_future:
  "fi_stored_expiry w st = Some e \<Longrightarrow> now < e \<Longrightarrow> fi_countdown_effect w now (s, st) = (s\<lparr>fi_countdown := True\<rparr>, st)"
  by (simp add: fi_countdown_effect_def)

lemma set_timeLeft_future:
  assumes "fi_stored_expiry w st = Some e" "now < e"
  shows "\<exists>c. fi_set_timeLeft w now v (s, st) = (s\<lparr>fi_timeLeft := v, fi_countdown := c\<rparr>, st)"
proof (cases "v = fi_timeLeft s")
  case True
  then have "fi_set_timeLeft w now v (s, st) = (s\<lparr>fi_timeLeft := v, fi_countdown := fi_countdown s\<rparr>, st)"
    by (simp add: fi_set_timeLeft_def)
  then show ?thesis by blast
next
  case False
  then have "fi_set_timeLeft w now v (s, st) = (s\<lparr>fi_timeLeft := v, fi_countdown := True\<rparr>, st)"
    using effect_future [OF assms] by (simp add: fi_set_timeLeft_def)
  then show ?thesis by blast
qed

lemma start_load_sent:
  assumes "i \<noteq> []" "lastLoadTime p + 2000 \<le> now"
  shows "requests (start_load fin (Some i) now p) = requests p @ [Get_Emails i (filterFolder p) (currentPage p)] \<and>
         lastLoadTime (start_load fin (Some i) now p) = now"
  using assms by (simp add: start_load_def loadEmails_def)

lemma start_load_throttled:
  assumes "now - lastLoadTime p < 2000"
  shows "requests (start_load fin a now p) = requests p \<and> lastLoadTime (start_load fin a now p) = lastLoadTime p"
  using assms by (auto simp: start_load_def loadEmails_def split: option.split)

lemma check_found:
  assumes "loadFiveMinEmailData w st = Some d" "currentAccount d = Some a" "expires_at a = Some e" "now < e"
  shows "\<exists>c. fi_checkEmailAccount w aid now (s, st) =
           ((fi_lift (\<lambda>p. start_load [] aid now (p\<lparr>hasEmailAccount := True\<rparr>)) s)\<lparr>fi_polling := False,
               fi_timeLeft := Some (max 0 ((e - now) div 1000)), fi_countdown := c\<rparr>, st)"
proof -
  have "fi_stored_expiry w st = Some e" using assms(1-3) by (simp add: fi_stored_expiry_def)
  from set_timeLeft_future [OF this assms(4)] show ?thesis
    using assms(1-3) by (simp add: fi_checkEmailAccount_def)
qed

lemma effect_storage:
  "snd (fi_countdown_effect w now (s, st)) = st \<or>
   (snd (fi_countdown_effect w now (s, st)) = clearFiveMinEmailData w st \<and> (\<exists>e. fi_stored_expiry w st = Some e \<and> e \<le> now))"
  by (auto simp: fi_countdown_effect_def split: option.split)

lemma set_timeLeft_storage:
  "snd (fi_set_timeLeft w now v (s, st)) = st \<or>
   (snd (fi_set_timeLeft w now v (s, st)) = clearFiveMinEmailData w st \<and> (\<exists>e. fi_stored_expiry w st = Some e \<and> e \<le> now))"
  using effect_storage [of w now "s\<lparr>fi_timeLeft := v\<rparr>" st] by (auto simp: fi_set_timeLeft_def)

lemma set_timeLeft_cleared:
  "snd (fi_set_timeLeft w now v (s, clearFiveMinEmailData w st)) = clearFiveMinEmailData w st"
  using set_timeLeft_storage [of w now v s "clearFiveMinEmailData w st"] by auto

lemma fi_copies_agree:
  "fi_formatTime = formatTime \<and> fi_formatDate = formatDate \<and> fi_getSenderName = getSenderName \<and>
   fi_getSenderEmail = getSenderEmail \<and> fi_pagination_view s = pagination_view (fi_page s) \<and>
   fi_handleEmailClick aid e s = fi_lift (handleEmailClick aid e) s"
  by (intro conjI ext)
     (simp_all add: fi_formatTime_def formatTime_def fi_formatDate_def formatDate_def fi_getSenderName_def
        getSenderName_def fi_getSenderEmail_def getSenderEmail_def fi_pagination_view_def pagination_view_def
        fi_handleEmailClick_def handleEmailClick_def fi_loadFullEmail_def)

lemma fi_render_rows_error:
  "e \<in> set es \<Longrightarrow> mh_from (em_mail_headers e) = [] \<Longrightarrow> \<exists>err. fi_render_rows now es = Inl err"
proof (induction es)
  case Nil
  then show ?case by simp
next
  case (Cons x es)
  then show ?case
    by (cases "fi_render_row now x"; cases "fi_render_rows now es")
       (auto simp: fi_render_row_def fi_getSenderName_def split: list.splits)
qed

text \<open>The five-minute inbox crashes on a sender-less e-mail as the regular one does.\<close>

lemma fi_inbox_render_senderless:
  assumes "hasEmailAccount (fi_page s)" "\<not> isLoading (fi_page s)"
    and "e \<in> set (emails (fi_page s))" "mh_from (em_mail_headers e) = []"
  shows "fi_inbox_render now s = Inl TypeError"
proof (cases "filteredEmails (searchTerm (fi_page s)) (emails (fi_page s))")
  case (Inl err)
  then show ?thesis by (cases err) (simp add: fi_inbox_render_def)
next
  case (Inr shown)
  then have "e \<in> set shown" using senderless_shown assms(3,4) by blast
  then obtain err where "fi_render_rows now shown = Inl err" "shown \<noteq> []"
    using fi_render_rows_error assms(4) by fastforce
  with Inr assms(1,2) show ?thesis by (cases err) (simp add: fi_inbox_render_def Let_def)
qed

lemma fi_ws_rerun_callbacks:
  "js_truthy aid \<Longrightarrow> js_truthy em \<Longrightarrow>
   callbacks (snd (fi_ws_rerun h aid em sc)) = [h] \<and>
   recentNotifications (fi_page (fst (fi_ws_rerun h aid em sc))) = []"
  by (simp add: fi_ws_rerun_def fi_ws_effect_cleanup_def fi_ws_effect_def split_beta
                onNewEmail_def clearNotificationCallbacks_def)

lemma fi_ws_reruns:
  "js_truthy aid \<Longrightarrow> js_truthy em \<Longrightarrow> hs \<noteq> [] \<Longrightarrow>
   callbacks (snd (fold (\<lambda>h. fi_ws_rerun h aid em) hs sc)) = [last hs] \<and>
   recentNotifications (fi_page (fst (fold (\<lambda>h. fi_ws_rerun h aid em) hs sc))) = []"
proof (induction hs arbitrary: sc)
  case Nil
  then show ?case by simp
next
  case (Cons h hs)
  then show ?case
    by (cases "hs = []") (simp_all add: fi_ws_rerun_callbacks)
qed

section \<open>Properties\<close>

text \<open>
  C11: on the five-minute page, the countdown tick that first shows 0 seconds always comes
  while the account is still unexpired (the previous tick showed at least a second, and
  \<open>getTimeRemaining\<close> rounds down): \<open>handleAccountExpiry\<close> then deletes nothing and
  leaves storage as it was, yet toasts that the e-mail "has been automatically deleted"; the
  deletion happens at the next tick, one second later, which toasts again.
\<close>

theorem first_expiry_tick_deletes_nothing:
  assumes "fp_account p = Some a" "expires_at a = Some e"
    and "loadFiveMinEmailData w st = Some d" "currentAccount d = Some a"
    and "0 < getTimeRemaining t a" "getTimeRemaining (t + 1000) a = 0"
  shows "snd (fm_timer_tick w (t + 1000) (p, st)) = [] \<and>
         snd (fst (fm_timer_tick w (t + 1000) (p, st))) = st \<and>
         fp_toasts (fst (fst (fm_timer_tick w (t + 1000) (p, st)))) = fp_toasts p @ [FT_Expired] \<and>
         snd (fm_timer_tick w (t + 2000) (fst (fm_timer_tick w (t + 1000) (p, st)))) = [acc_id a]"
proof -
  note x = time_remaining_step [OF assms(2,5,6)]
  have c1: "cleanupExpired5MinAccounts w (t + 1000) st = ([], st)"
    using cleanup5_stored [OF assms(3,4)] x by simp
  have r1: "fm_timer_tick w (t + 1000) (p, st) =
              ((p\<lparr>fp_timeLeft := 0, fp_toasts := fp_toasts p @ [FT_Expired],
                  fp_redirects := fp_redirects p @ [t + 1000 + 2000]\<rparr>, st), [])"
    using assms(1,2,6) c1 by (simp add: fm_timer_tick_def fm_handleAccountExpiry_def)
  have "getTimeRemaining (t + 2000) a = 0"
    using assms(2,6) by (simp add: getTimeRemaining_def zdiv_eq_0_iff)
  moreover have "cleanupExpired5MinAccounts w (t + 2000) st =
                   ([acc_id a], saveFiveMinEmailData w (d\<lparr>currentAccount := None\<rparr>) st)"
    using cleanup5_stored [OF assms(3,4)] x by simp
  ultimately have "snd (fm_timer_tick w (t + 2000) (fst (fm_timer_tick w (t + 1000) (p, st)))) = [acc_id a]"
    using assms(1,2) unfolding r1 by (simp add: fm_timer_tick_def fm_handleAccountExpiry_def)
  with r1 show ?thesis by simp
qed

theorem first_expiry_tick_deletes_nothing_witness:
  "snd (fm_timer_tick (Some ''sendbun.com'') (298500 + 1000) (fm_show_account 0 \<lparr>acc_id = ''42'', email = ''x@sendbun.com'', password = ''p'', created_at = 0, domain_id = ''1'', expires_at = Some 300000, is_5min = Some True\<rparr> fm_page_init, saveFiveMinEmailData (Some ''sendbun.com'') \<lparr>domains = [], currentAccount = Some \<lparr>acc_id = ''42'', email = ''x@sendbun.com'', password = ''p'', created_at = 0, domain_id = ''1'', expires_at = Some 300000, is_5min = Some True\<rparr>, lastUpdated = 0\<rparr> (\<lambda>_. None))) = [] \<and>
   snd (fm_timer_tick (Some ''sendbun.com'') (298500 + 2000)
          (fst (fm_timer_tick (Some ''sendbun.com'') (298500 + 1000) (fm_show_account 0 \<lparr>acc_id = ''42'', email = ''x@sendbun.com'', password = ''p'', created_at = 0, domain_id = ''1'', expires_at = Some 300000, is_5min = Some True\<rparr> fm_page_init, saveFiveMinEmailData (Some ''sendbun.com'') \<lparr>domains = [], currentAccount = Some \<lparr>acc_id = ''42'', email = ''x@sendbun.com'', password = ''p'', created_at = 0, domain_id = ''1'', expires_at = Some 300000, is_5min = Some True\<rparr>, lastUpdated = 0\<rparr> (\<lambda>_. None))))) = [''42'']"
  using first_expiry_tick_deletes_nothing [where p = "fm_show_account 0 \<lparr>acc_id = ''42'', email = ''x@sendbun.com'', password = ''p'', created_at = 0, domain_id = ''1'', expires_at = Some 300000, is_5min = Some True\<rparr> fm_page_init" and a = "\<lparr>acc_id = ''42'', email = ''x@sendbun.com'', password = ''p'', created_at = 0, domain_id = ''1'', expires_at = Some 300000, is_5min = Some True\<rparr>"
          and e = 300000 and w = "Some ''sendbun.com''" and st = "saveFiveMinEmailData (Some ''sendbun.com'') \<lparr>domains = [], currentAccount = Some \<lparr>acc_id = ''42'', email = ''x@sendbun.com'', password = ''p'', created_at = 0, domain_id = ''1'', expires_at = Some 300000, is_5min = Some True\<rparr>, lastUpdated = 0\<rparr> (\<lambda>_. None)"
          and d = "\<lparr>domains = [], currentAccount = Some \<lparr>acc_id = ''42'', email = ''x@sendbun.com'', password = ''p'', created_at = 0, domain_id = ''1'', expires_at = Some 300000, is_5min = Some True\<rparr>, lastUpdated = 0\<rparr>" and t = 298500]
  by (simp add: fm_show_account_def getTimeRemaining_def)

text \<open>
  C29: when the five-minute page falls back to the demo address (no stored account and
  no domains), it holds no account, so the countdown interval never starts: the page shows
  5:00 for ever and nothing ever expires.
\<close>

theorem demo_countdown_frozen:
  assumes "loadFiveMinEmailData w st = None"
    and "pi_domains inp = Fetch_Json (Api_Success (Some (Domains_Field [])))"
  shows "snd (fm_initializeAccount w now inp (fm_page_init, st)) = [] \<and>
         snd (fst (fm_initializeAccount w now inp (fm_page_init, st))) = st \<and>
         fp_account (fst (fst (fm_initializeAccount w now inp (fm_page_init, st)))) = None \<and>
         fp_timeLeft (fst (fst (fm_initializeAccount w now inp (fm_page_init, st)))) = 300 \<and>
         (\<forall>t st'. fm_timer_tick w t (fst (fst (fm_initializeAccount w now inp (fm_page_init, st))), st') =
                   ((fst (fst (fm_initializeAccount w now inp (fm_page_init, st))), st'), []))"
proof -
  have "fm_initializeAccount w now inp (fm_page_init, st) =
          (((fm_demo now fm_page_init)\<lparr>fp_isLoading := False\<rparr>, st), [])"
    using assms cleanup5_none [OF assms(1)] init5_no_domains [OF assms]
    by (simp add: fm_initializeAccount_def reusable_5min_def)
  then show ?thesis by (simp add: fm_demo_def fm_page_init_def fm_timer_tick_def)
qed

theorem demo_countdown_frozen_witness:
  "fp_timeLeft (fst (fst (fm_initializeAccount (Some ''sendbun.com'') 5 \<lparr>pi_domains = Fetch_Json (Api_Success (Some (Domains_Field []))), pi_rdom = 0, pi_username = ''u'', pi_rpw = (\<lambda>_. 0), pi_create = Fetch_Error\<rparr> (fm_page_init, \<lambda>_. None)))) = 300"
  using demo_countdown_frozen [where w = "Some ''sendbun.com''" and st = "\<lambda>_. None" and now = 5 and inp = "\<lparr>pi_domains = Fetch_Json (Api_Success (Some (Domains_Field []))), pi_rdom = 0, pi_username = ''u'', pi_rpw = (\<lambda>_. 0), pi_create = Fetch_Error\<rparr>"]
  by (simp add: loadFiveMinEmailData_def)

text \<open>
  C32: \<open>formatTime\<close> of a non-negative number of seconds is minutes, a colon and
  exactly two second digits, from which the number of seconds is read back.
\<close>

theorem formatTime_roundtrip:
  assumes "0 \<le> s"
  shows "\<exists>m ss. formatTime s = m @ CHR '':'' # ss \<and> CHR '':'' \<notin> set m \<and> length ss = 2 \<and>
                60 * int (parse_dec m) + int (parse_dec ss) = s"
proof -
  let ?m = "dec_string (nat (s div 60))" and ?r = "dec_string (nat (s mod 60))"
  have len: "length ?r \<le> 2"
    by (rule dec_string_length_le) (simp_all add: nat_less_iff)
  let ?ss = "replicate (2 - length ?r) CHR ''0'' @ ?r"
  have "formatTime s = ?m @ CHR '':'' # ?ss"
    using assms by (simp add: formatTime_def int_string_nonneg pad_start_def Let_def)
  moreover have "length ?ss = 2" using len by simp
  moreover have "60 * int (parse_dec ?m) + int (parse_dec ?ss) = s"
    using assms by (simp add: parse_dec_zeros pos_imp_zdiv_nonneg_iff)
  ultimately show ?thesis using colon_notin_dec_string by blast
qed

theorem formatTime_roundtrip_witness:
  "\<exists>m ss. formatTime 125 = m @ CHR '':'' # ss \<and> CHR '':'' \<notin> set m \<and> length ss = 2 \<and>
          60 * int (parse_dec m) + int (parse_dec ss) = 125"
  using formatTime_roundtrip [of 125] by simp

text \<open>
  C38: while the stored five-minute account is unexpired, \<open>generateNewEmail\<close>
  creates nothing: it shows the same account again (with the "new 5-minute email created"
  toast), deletes nothing and leaves storage unchanged, since
  \<open>initialize5MinEmailAccount\<close> returns a stored unexpired account as it is.
\<close>

theorem generateNewEmail_same_account:
  assumes "loadFiveMinEmailData w st = Some d" "currentAccount d = Some a"
    and "\<not> isAccountExpired now a" "fp_account p \<noteq> None"
  shows "fm_generateNewEmail w now inp (p, st) =
           (((fm_show_account now a p)\<lparr>fp_toasts := fp_toasts p @ [FT_New_Created],
                                      fp_isGenerating := False\<rparr>, st), [])"
  using assms cleanup5_stored [OF assms(1,2), of now]
  by (simp add: fm_generateNewEmail_def init5_def initialize5MinEmailAccount_def reusable_5min_def)

theorem generateNewEmail_same_account_witness:
  "fp_account (fst (fst (fm_generateNewEmail (Some ''sendbun.com'') 1000 \<lparr>pi_domains = Fetch_Json (Api_Success (Some (Domains_Field []))), pi_rdom = 0, pi_username = ''u'', pi_rpw = (\<lambda>_. 0), pi_create = Fetch_Error\<rparr>
      (fm_show_account 0 \<lparr>acc_id = ''42'', email = ''x@sendbun.com'', password = ''p'', created_at = 0, domain_id = ''1'', expires_at = Some 300000, is_5min = Some True\<rparr> fm_page_init, saveFiveMinEmailData (Some ''sendbun.com'') \<lparr>domains = [], currentAccount = Some \<lparr>acc_id = ''42'', email = ''x@sendbun.com'', password = ''p'', created_at = 0, domain_id = ''1'', expires_at = Some 300000, is_5min = Some True\<rparr>, lastUpdated = 0\<rparr> (\<lambda>_. None))))) = Some \<lparr>acc_id = ''42'', email = ''x@sendbun.com'', password = ''p'', created_at = 0, domain_id = ''1'', expires_at = Some 300000, is_5min = Some True\<rparr>"
  using generateNewEmail_same_account [where w = "Some ''sendbun.com''" and st = "saveFiveMinEmailData (Some ''sendbun.com'') \<lparr>domains = [], currentAccount = Some \<lparr>acc_id = ''42'', email = ''x@sendbun.com'', password = ''p'', created_at = 0, domain_id = ''1'', expires_at = Some 300000, is_5min = Some True\<rparr>, lastUpdated = 0\<rparr> (\<lambda>_. None)" and now = 1000
          and d = "\<lparr>domains = [], currentAccount = Some \<lparr>acc_id = ''42'', email = ''x@sendbun.com'', password = ''p'', created_at = 0, domain_id = ''1'', expires_at = Some 300000, is_5min = Some True\<rparr>, lastUpdated = 0\<rparr>" and a = "\<lparr>acc_id = ''42'', email = ''x@sendbun.com'', password = ''p'', created_at = 0, domain_id = ''1'', expires_at = Some 300000, is_5min = Some True\<rparr>"
          and p = "fm_show_account 0 \<lparr>acc_id = ''42'', email = ''x@sendbun.com'', password = ''p'', created_at = 0, domain_id = ''1'', expires_at = Some 300000, is_5min = Some True\<rparr> fm_page_init" and inp = "\<lparr>pi_domains = Fetch_Json (Api_Success (Some (Domains_Field []))), pi_rdom = 0, pi_username = ''u'', pi_rpw = (\<lambda>_. 0), pi_create = Fetch_Error\<rparr>"]
  by (simp add: fm_show_account_def isAccountExpired_def)

text \<open>
  C22: the five-minute inbox's account poll ends: with no stored account, after the
  initial check the 200 ms poll checks again ten times and its eleventh firing stops it;
  storage is untouched.
\<close>

theorem account_poll_stops:
  assumes "loadFiveMinEmailData w st = None"
  shows "snd ((fi_poll_tick w aid now ^^ n) (fi_check_effect w aid now (s, st))) = st \<and>
         fi_attempts (fst ((fi_poll_tick w aid now ^^ n) (fi_check_effect w aid now (s, st)))) = min n 11 \<and>
         fi_polling (fst ((fi_poll_tick w aid now ^^ n) (fi_check_effect w aid now (s, st)))) = (n \<le> 10)"
proof (induction n)
  case 0
  then show ?case using assms by (simp add: fi_check_effect_def fi_check_none)
next
  case (Suc n)
  then obtain s' where s': "(fi_poll_tick w aid now ^^ n) (fi_check_effect w aid now (s, st)) = (s', st)"
    "fi_attempts s' = min n 11" "fi_polling s' = (n \<le> 10)"
    by (metis prod.collapse)
  have e: "(fi_poll_tick w aid now ^^ Suc n) (fi_check_effect w aid now (s, st)) = fi_poll_tick w aid now (s', st)"
    using s'(1) by simp
  show ?case unfolding e using s'(2,3) assms by (auto simp: fi_poll_tick_def fi_check_none Let_def)
qed

theorem account_poll_stops_witness:
  "\<not> fi_polling (fst ((fi_poll_tick (Some ''sendbun.com'') (Some ''42'') 0 ^^ 11)
       (fi_check_effect (Some ''sendbun.com'') (Some ''42'') 0 (fm_inbox_init, \<lambda>_. None))))"
  using account_poll_stops [where w = "Some ''sendbun.com''" and st = "\<lambda>_. None" and n = 11
                                and aid = "Some ''42''" and now = 0 and s = fm_inbox_init]
  by (simp add: loadFiveMinEmailData_def)

text \<open>
  C37: with a stored unexpired account, the five-minute inbox's initial check cannot stop
  the poll (it does not exist yet): after the effect the poll is still running, its first
  firing runs a second check (attempt 1), which finds the account and stops it; the throttle
  of \<open>loadEmails\<close> makes the two checks send one request.
\<close>

theorem poll_found_once:
  assumes "loadFiveMinEmailData w st = Some d" "currentAccount d = Some a" "expires_at a = Some e"
    and "now \<le> t" "t < e" "t < now + 2000"
    and "i \<noteq> []" "lastLoadTime (fi_page s) + 2000 \<le> now"
  shows "fi_polling (fst (fi_check_effect w (Some i) now (s, st))) \<and>
         fi_attempts (fst (fi_poll_tick w (Some i) t (fi_check_effect w (Some i) now (s, st)))) = 1 \<and>
         \<not> fi_polling (fst (fi_poll_tick w (Some i) t (fi_check_effect w (Some i) now (s, st)))) \<and>
         snd (fi_poll_tick w (Some i) t (fi_check_effect w (Some i) now (s, st))) = st \<and>
         length (requests (fi_page (fst (fi_poll_tick w (Some i) t (fi_check_effect w (Some i) now (s, st)))))) =
           Suc (length (requests (fi_page s)))"
proof -
  let ?p1 = "start_load [] (Some i) now ((fi_page s)\<lparr>hasEmailAccount := True\<rparr>)"
  obtain c where c: "fi_checkEmailAccount w (Some i) now (s\<lparr>fi_attempts := 0, fi_polling := False\<rparr>, st) =
      ((fi_lift (\<lambda>p. start_load [] (Some i) now (p\<lparr>hasEmailAccount := True\<rparr>)) (s\<lparr>fi_attempts := 0, fi_polling := False\<rparr>))
         \<lparr>fi_polling := False, fi_timeLeft := Some (max 0 ((e - now) div 1000)), fi_countdown := c\<rparr>, st)"
    using check_found [OF assms(1-3)] assms(4,5) by fastforce
  let ?s1 = "(fi_lift (\<lambda>p. start_load [] (Some i) now (p\<lparr>hasEmailAccount := True\<rparr>)) (s\<lparr>fi_attempts := 0, fi_polling := False\<rparr>))
         \<lparr>fi_polling := True, fi_timeLeft := Some (max 0 ((e - now) div 1000)), fi_countdown := c\<rparr>"
  have eff: "fi_check_effect w (Some i) now (s, st) = (?s1, st)"
    using c by (simp add: fi_check_effect_def)
  have p1: "requests (fi_page ?s1) = requests (fi_page s) @ [Get_Emails i (filterFolder (fi_page s)) (currentPage (fi_page s))]"
    "lastLoadTime (fi_page ?s1) = now"
    using start_load_sent [of i "(fi_page s)\<lparr>hasEmailAccount := True\<rparr>" now "[]"] assms(7,8) by simp_all
  obtain c' where c': "fi_checkEmailAccount w (Some i) t (?s1\<lparr>fi_attempts := Suc 0\<rparr>, st) =
      ((fi_lift (\<lambda>p. start_load [] (Some i) t (p\<lparr>hasEmailAccount := True\<rparr>)) (?s1\<lparr>fi_attempts := Suc 0\<rparr>))
         \<lparr>fi_polling := False, fi_timeLeft := Some (max 0 ((e - t) div 1000)), fi_countdown := c'\<rparr>, st)"
    using check_found [OF assms(1-3) assms(5)] by fastforce
  have tick: "fi_poll_tick w (Some i) t (?s1, st) = fi_checkEmailAccount w (Some i) t (?s1\<lparr>fi_attempts := Suc 0\<rparr>, st)"
    by (simp add: fi_poll_tick_def)
  have "requests (start_load [] (Some i) t ((fi_page ?s1)\<lparr>hasEmailAccount := True\<rparr>)) = requests (fi_page ?s1)"
    using start_load_throttled [of t "(fi_page ?s1)\<lparr>hasEmailAccount := True\<rparr>"] p1(2) assms(6) by simp
  then show ?thesis unfolding eff tick c' using p1(1) by simp
qed

theorem poll_found_once_witness:
  "length (requests (fi_page (fst (fi_poll_tick (Some ''sendbun.com'') (Some ''42'') 2200
      (fi_check_effect (Some ''sendbun.com'') (Some ''42'') 2000 (fm_inbox_init, saveFiveMinEmailData (Some ''sendbun.com'') \<lparr>domains = [], currentAccount = Some \<lparr>acc_id = ''42'', email = ''x@sendbun.com'', password = ''p'', created_at = 0, domain_id = ''1'', expires_at = Some 300000, is_5min = Some True\<rparr>, lastUpdated = 0\<rparr> (\<lambda>_. None))))))) = 1"
  using poll_found_once [where w = "Some ''sendbun.com''" and st = "saveFiveMinEmailData (Some ''sendbun.com'') \<lparr>domains = [], currentAccount = Some \<lparr>acc_id = ''42'', email = ''x@sendbun.com'', password = ''p'', created_at = 0, domain_id = ''1'', expires_at = Some 300000, is_5min = Some True\<rparr>, lastUpdated = 0\<rparr> (\<lambda>_. None)" and d = "\<lparr>domains = [], currentAccount = Some \<lparr>acc_id = ''42'', email = ''x@sendbun.com'', password = ''p'', created_at = 0, domain_id = ''1'', expires_at = Some 300000, is_5min = Some True\<rparr>, lastUpdated = 0\<rparr>" and a = "\<lparr>acc_id = ''42'', email = ''x@sendbun.com'', password = ''p'', created_at = 0, domain_id = ''1'', expires_at = Some 300000, is_5min = Some True\<rparr>"
                           and e = 300000 and now = 2000 and t = 2200 and i = "''42''" and s = fm_inbox_init]
  by (simp add: fm_inbox_init_def inbox_init_def)

text \<open>
  C16: a firing of the five-minute inbox's countdown either leaves storage as it is or
  removes the five-minute record, and only once the clock has reached the stored account's
  expiry.
\<close>

theorem countdown_clears_after_expiry:
  "snd (fi_countdown_tick w now (s, st)) = st \<or>
   (snd (fi_countdown_tick w now (s, st)) = clearFiveMinEmailData w st \<and>
    (\<exists>e. fi_stored_expiry w st = Some e \<and> e \<le> now))"
proof (cases "fi_countdown s \<and> fi_timeLeft s \<noteq> None")
  case False
  then show ?thesis by (auto simp: fi_countdown_tick_def)
next
  case True
  then obtain prev where prev: "fi_countdown s" "fi_timeLeft s = Some prev" by auto
  show ?thesis
  proof (cases "prev \<le> 1 \<and> (\<exists>e. fi_stored_expiry w st = Some e \<and> e \<le> now)")
    case True
    then show ?thesis using prev set_timeLeft_cleared
      by (auto simp: fi_countdown_tick_def)
  next
    case False
    then have "fi_countdown_tick w now (s, st) = fi_set_timeLeft w now (Some (if prev \<le> 1 then 0 else prev - 1)) (s, st)"
      using prev by (auto simp: fi_countdown_tick_def split: option.split)
    then show ?thesis using set_timeLeft_storage by metis
  qed
qed


text \<open>
  The five-minute inbox never accumulates notification handlers (spec, acceptance 4):
  after its notification effect has run once and been re-run for any number of new
  \<open>handleNewEmail\<close> closures, the client holds exactly the last one, and the
  remembered notification keys are gone.
\<close>

theorem fi_handlers_not_accumulated:
  assumes "js_truthy aid" "js_truthy em" "hs \<noteq> []"
  shows "callbacks (snd (fold (\<lambda>h. fi_ws_rerun h aid em) hs
                      (s, fi_ws_effect h0 aid em (fi_ws_init env maxA)))) = [last hs] \<and>
         recentNotifications (fi_page (fst (fold (\<lambda>h. fi_ws_rerun h aid em) hs
                      (s, fi_ws_effect h0 aid em (fi_ws_init env maxA))))) = []"
  using fi_ws_reruns [OF assms] by blast

theorem fi_handlers_not_accumulated_witness:
  "callbacks (snd (fold (\<lambda>h. fi_ws_rerun h (Some ''42'') (Some ''a@b.c'')) [2, 3]
      (fm_inbox_init, fi_ws_effect (1::nat) (Some ''42'') (Some ''a@b.c'') (fi_ws_init None 5)))) = [3]"
  using fi_handlers_not_accumulated [of "Some ''42''" "Some ''a@b.c''" "[2, 3::nat]" fm_inbox_init 1 None 5]
  by simp

end
