(* ===== verification/Email_Modal.thy ===== *)
theory Email_Modal
  imports Five_Minute
begin

text \<open>
  The detail dialog of an e-mail (\<open>src/components/email-detail-modal.tsx\<close>): its props, its
  one piece of state (\<open>isDeleting\<close>), the two halves of its \<open>handleDelete\<close> around the
  awaited \<open>onDelete\<close>, and its render down to what it shows.  The page's side of the
  delete (\<open>modal_handleDelete\<close>, \<open>modal_handleDelete_result\<close>) is in \<open>Inbox_Page\<close>.
  An absent value that the JSX prints is the empty text.
\<close>

section \<open>Props, state and handlers\<close>

record modal_props =
  mp_isOpen :: bool
  mp_email :: "full_email option"
  mp_isLoading :: bool
  mp_emailAccountId :: "string option"

record modal_state =
  md_isDeleting :: bool

definition modal_init :: modal_state where
  "modal_init = \<lparr>md_isDeleting = False\<rparr>"

text \<open>
  \<open>handleDelete\<close> up to \<open>await onDelete(email.id)\<close>: nothing without an e-mail or an
  account id; otherwise \<open>isDeleting\<close> is set and the id handed to \<open>onDelete\<close>.
\<close>

definition md_handleDelete_start :: "modal_props \<Rightarrow> modal_state \<Rightarrow> modal_state \<times> int option" where
  "md_handleDelete_start p d =
     (case mp_email p of
        None \<Rightarrow> (d, None)
      | Some e \<Rightarrow> if \<not> js_truthy (mp_emailAccountId p) then (d, None)
                 else (d\<lparr>md_isDeleting := True\<rparr>, Some (fe_id e)))"

text \<open>The \<open>finally\<close> of \<open>handleDelete\<close>, whether \<open>onDelete\<close> resolved or threw.\<close>

definition md_handleDelete_finally :: "modal_state \<Rightarrow> modal_state" where
  "md_handleDelete_finally d = d\<lparr>md_isDeleting := False\<rparr>"

section \<open>Render\<close>

datatype modal_body =
    Body_Spinner
  | Body_Html string
  | Body_Text string
  | Body_No_Content

record modal_view =
  mv_open :: bool
  mv_title :: string
  mv_description :: string
  mv_delete_disabled :: bool
  mv_delete_spinner :: bool
  mv_from :: string
  mv_to :: string
  mv_read :: bool
  mv_body :: modal_body

text \<open>\<open>email?._from?.[0]?.personal || email?._from?.[0]?.mail || email?.from\<close>.\<close>

definition modal_sender :: "full_email option \<Rightarrow> string" where
  "modal_sender em =
     (case em of
        None \<Rightarrow> []
      | Some e \<Rightarrow> (case fe_from_addrs e of
                    [] \<Rightarrow> fe_from e
                  | f # _ \<Rightarrow> js_or (ea_personal f) (js_or (ea_mail f) (fe_from e))))"

text \<open>
  The body: a spinner while the full e-mail loads, else its \<open>html\<close> through
  \<open>dangerouslySetInnerHTML\<close> when there is one, else its text body, else the
  "no content" message.
\<close>

definition modal_body_of :: "bool \<Rightarrow> full_email option \<Rightarrow> modal_body" where
  "modal_body_of loading em =
     (if loading then Body_Spinner
      else (case em of
              Some e \<Rightarrow> if fe_html e \<noteq> [] then Body_Html (fe_html e)
                        else if fe_body e \<noteq> [] then Body_Text (fe_body e) else Body_No_Content
            | None \<Rightarrow> Body_No_Content))"

definition modal_render :: "modal_props \<Rightarrow> modal_state \<Rightarrow> modal_view" where
  "modal_render p d =
     \<lparr>mv_open = mp_isOpen p,
      mv_title = js_or (case mp_email p of None \<Rightarrow> [] | Some e \<Rightarrow> fe_subject e) ''(No subject)'',
      mv_description = modal_sender (mp_email p),
      mv_delete_disabled = (md_isDeleting d \<or> mp_email p = None),
      mv_delete_spinner = md_isDeleting d,
      mv_from = modal_sender (mp_email p),
      mv_to = (case mp_email p of None \<Rightarrow> [] | Some e \<Rightarrow> fe_to e),
      mv_read = (case mp_email p of None \<Rightarrow> False | Some e \<Rightarrow> fe_is_seen e = ''1''),
      mv_body = modal_body_of (mp_isLoading p) (mp_email p)\<rparr>"

text \<open>The delete button: a click while it is disabled does nothing.\<close>

definition md_click_delete :: "modal_props \<Rightarrow> modal_state \<Rightarrow> modal_state \<times> int option" where
  "md_click_delete p d =
     (if mv_delete_disabled (modal_render p d) then (d, None) else md_handleDelete_start p d)"

text \<open>The inbox page mounts the dialog with its own state as props.\<close>

definition page_modal_props :: "string option \<Rightarrow> inbox_state \<Rightarrow> modal_props" where
  "page_modal_props emailAccountId s =
     \<lparr>mp_isOpen = isEmailModalOpen s, mp_email = fullEmail s, mp_isLoading = isLoadingEmail s,
      mp_emailAccountId = emailAccountId\<rparr>"

text \<open>The five-minute inbox mounts the same dialog with its page state.\<close>

definition fi_modal_props :: "string option \<Rightarrow> fm_inbox \<Rightarrow> modal_props" where
  "fi_modal_props emailAccountId s =
     \<lparr>mp_isOpen = isEmailModalOpen (fi_page s), mp_email = fullEmail (fi_page s),
      mp_isLoading = isLoadingEmail (fi_page s), mp_emailAccountId = emailAccountId\<rparr>"

section \<open>Properties\<close>

text \<open>
  C6: the HTML of an e-mail reaches the page's DOM as the server sent it: once
  \<open>loadFullEmail\<close>'s response arrives, the inbox's dialog is open and injects the e-mail's
  \<open>html\<close> unchanged through \<open>dangerouslySetInnerHTML\<close>, whatever it contains (no
  sanitising step exists on the path).
\<close>

theorem modal_injects_server_html:
  assumes "fe_html e \<noteq> []"
  shows "mv_open (modal_render (page_modal_props aid
            (loadFullEmail_result (Fetch_Json (Api_Success (Some (Some e)))) s)) d) \<and>
         mv_body (modal_render (page_modal_props aid
            (loadFullEmail_result (Fetch_Json (Api_Success (Some (Some e)))) s)) d) = Body_Html (fe_html e)"
  using assms
  by (simp add: modal_render_def page_modal_props_def loadFullEmail_result_def modal_body_of_def)

theorem modal_injects_server_html_witness:
  "mv_body (modal_render (page_modal_props (Some ''42'')
      (loadFullEmail_result (Fetch_Json (Api_Success (Some (Some
         \<lparr>fe_id = 1, fe_folder = ''INBOX'', fe_size = ''1'', fe_is_seen = ''0'', fe_to = ''u@b.c'',
          fe_from_addrs = [], fe_from = ''x@y.z'', fe_body = [], fe_html = ''<img src=x onerror=alert(1)>'',
          fe_subject = ''Hi'', fe_date = 0, fe_have_attachments = False, fe_attachments = []\<rparr>)))) inbox_init)) modal_init)
   = Body_Html ''<img src=x onerror=alert(1)>''"
  using modal_injects_server_html [where e = "\<lparr>fe_id = 1, fe_folder = ''INBOX'', fe_size = ''1'', fe_is_seen = ''0'', fe_to = ''u@b.c'',
          fe_from_addrs = [], fe_from = ''x@y.z'', fe_body = [], fe_html = ''<img src=x onerror=alert(1)>'',
          fe_subject = ''Hi'', fe_date = 0, fe_have_attachments = False, fe_attachments = []\<rparr>"
    and aid = "Some ''42''" and s = inbox_init and d = modal_init]
  by simp

text \<open>
  C26: one delete per press: a click that hands an id to \<open>onDelete\<close> disables the button, so
  further clicks send nothing until the \<open>finally\<close> clears \<open>isDeleting\<close>; after it the
  button is enabled again for the same e-mail.
\<close>

theorem modal_single_delete:
  assumes "snd (md_click_delete p d) = Some i"
  shows "fst (md_click_delete p (fst (md_click_delete p d))) = fst (md_click_delete p d) \<and>
         snd (md_click_delete p (fst (md_click_delete p d))) = None \<and>
         snd (md_click_delete p (md_handleDelete_finally (fst (md_click_delete p d)))) = Some i"
proof -
  obtain e where e: "mp_email p = Some e" "js_truthy (mp_emailAccountId p)" "\<not> md_isDeleting d"
    "i = fe_id e"
    using assms
    by (cases "mp_email p")
       (auto simp: md_click_delete_def md_handleDelete_start_def modal_render_def split: if_splits)
  then show ?thesis
    by (simp add: md_click_delete_def md_handleDelete_start_def modal_render_def
                  md_handleDelete_finally_def)
qed

theorem modal_single_delete_witness:
  "snd (md_click_delete \<lparr>mp_isOpen = True, mp_email = Some
         \<lparr>fe_id = 9, fe_folder = ''INBOX'', fe_size = ''1'', fe_is_seen = ''1'', fe_to = ''u@b.c'',
          fe_from_addrs = [], fe_from = ''x@y.z'', fe_body = ''hi'', fe_html = [],
          fe_subject = ''Hi'', fe_date = 0, fe_have_attachments = False, fe_attachments = []\<rparr>,
        mp_isLoading = False, mp_emailAccountId = Some ''42''\<rparr>
     (fst (md_click_delete \<lparr>mp_isOpen = True, mp_email = Some
         \<lparr>fe_id = 9, fe_folder = ''INBOX'', fe_size = ''1'', fe_is_seen = ''1'', fe_to = ''u@b.c'',
          fe_from_addrs = [], fe_from = ''x@y.z'', fe_body = ''hi'', fe_html = [],
          fe_subject = ''Hi'', fe_date = 0, fe_have_attachments = False, fe_attachments = []\<rparr>,
        mp_isLoading = False, mp_emailAccountId = Some ''42''\<rparr> modal_init))) = None"
proof -
  let ?p = "\<lparr>mp_isOpen = True, mp_email = Some
         \<lparr>fe_id = 9, fe_folder = ''INBOX'', fe_size = ''1'', fe_is_seen = ''1'', fe_to = ''u@b.c'',
          fe_from_addrs = [], fe_from = ''x@y.z'', fe_body = ''hi'', fe_html = [],
          fe_subject = ''Hi'', fe_date = 0, fe_have_attachments = False, fe_attachments = []\<rparr>,
        mp_isLoading = False, mp_emailAccountId = Some ''42''\<rparr>"
  have "snd (md_click_delete ?p modal_init) = Some 9"
    by (simp add: md_click_delete_def md_handleDelete_start_def modal_render_def modal_init_def)
  then show ?thesis using modal_single_delete [of ?p modal_init 9] by blast
qed

end
