(* ===== verification/Locale_Switch.thy ===== *)
theory Locale_Switch
  imports Prelude
begin

text \<open>
  Locale handling: the layout's fallback to a supported locale
  (\<open>src/app/[locale]/layout.tsx\<close>) and the language switch of the floating switcher
  (\<open>src/components/language-switcher.tsx\<close>) and of the footer
  (\<open>src/components/footer.tsx\<close>), which strip the current locale from the path and
  push the new one.  Paths and locales are strings; \<open>router.push\<close> is the path returned.
\<close>

section \<open>Definitions\<close>

text \<open>The locales the switchers offer (their names and flags are presentation).\<close>

definition languages :: "string list" where
  "languages = [''en'', ''es'']"

text \<open>\<open>safeLocale\<close>: an unknown \<open>[locale]\<close> segment is rendered in English.\<close>

definition safeLocale :: "string \<Rightarrow> string" where
  "safeLocale locale = (if locale \<in> set [''en'', ''es''] then locale else ''en'')"

text \<open>
  \<open>handleLanguageChange\<close>: \<open>pathname.replace(`/${locale}`, '') || '/'\<close>, then
  \<open>router.push(`/${newLocale}${pathWithoutLocale}`)\<close>.
\<close>

definition handleLanguageChange :: "string \<Rightarrow> string \<Rightarrow> string \<Rightarrow> string" where
  "handleLanguageChange locale pathname newLocale =
     (let pathWithoutLocale = js_or (js_replace_first pathname (CHR ''/'' # locale) []) ''/''
      in CHR ''/'' # newLocale @ pathWithoutLocale)"

text \<open>The footer's copy of the same handler.\<close>

definition footer_handleLanguageChange :: "string \<Rightarrow> string \<Rightarrow> string \<Rightarrow> string" where
  "footer_handleLanguageChange locale pathname newLocale =
     (let pathWithoutLocale = js_or (js_replace_first pathname (CHR ''/'' # locale) []) ''/''
      in CHR ''/'' # newLocale @ pathWithoutLocale)"

text \<open>\<open>languages.find(lang => lang.code === locale)\<close>: the entry the switcher highlights.\<close>

definition currentLanguage :: "string \<Rightarrow> string option" where
  "currentLanguage locale = find (\<lambda>code. code = locale) languages"


text \<open>
  The floating switcher's menu: the button shows the current language (nothing for an
  unknown locale); each entry is a locale code, whether it is highlighted, and the path its
  click pushes.
\<close>

definition switcher_menu :: "string \<Rightarrow> string \<Rightarrow> string option \<times> (string \<times> bool \<times> string) list" where
  "switcher_menu locale pathname =
     (currentLanguage locale,
      map (\<lambda>code. (code, locale = code, handleLanguageChange locale pathname code)) languages)"

section \<open>Properties\<close>

text \<open>
  The language switch on a path that starts with the current locale replaces that
  prefix by the new locale and keeps the rest of the path (a bare \<open>/locale\<close> becomes
  \<open>/new/\<close>).
\<close>

theorem switch_path:
  "handleLanguageChange l (CHR ''/'' # l @ rest) new = CHR ''/'' # new @ js_or rest ''/''"
  using js_replace_first_prefix [of "CHR ''/'' # l" rest "[]"]
  by (simp add: handleLanguageChange_def)

text \<open>
  Switching the language of a page below the locale's root and switching back
  returns the original path.
\<close>

theorem locale_switch_roundtrip:
  "handleLanguageChange new (handleLanguageChange l (CHR ''/'' # l @ CHR ''/'' # r) new) l =
     CHR ''/'' # l @ CHR ''/'' # r"
proof -
  have "handleLanguageChange l (CHR ''/'' # l @ CHR ''/'' # r) new = CHR ''/'' # new @ CHR ''/'' # r"
    using js_replace_first_prefix [of "CHR ''/'' # l" "CHR ''/'' # r" "[]"]
    by (simp add: handleLanguageChange_def)
  moreover have "handleLanguageChange new (CHR ''/'' # new @ CHR ''/'' # r) l = CHR ''/'' # l @ CHR ''/'' # r"
    using js_replace_first_prefix [of "CHR ''/'' # new" "CHR ''/'' # r" "[]"]
    by (simp add: handleLanguageChange_def)
  ultimately show ?thesis by simp
qed

text \<open>
  C34: under an unsupported \<open>[locale]\<close> segment the layout renders English, and
  the language switch then finds no \<open>/en\<close> to strip: the new locale is prepended to
  the whole path, so \<open>/fr/inbox\<close> switches to \<open>/es/fr/inbox\<close>.
\<close>

theorem unsupported_locale_switch:
  assumes "l \<notin> set languages" "\<not> sublist ''/en'' p" "p \<noteq> []"
  shows "handleLanguageChange (safeLocale l) p new = CHR ''/'' # new @ p"
  using assms js_replace_first_absent [OF assms(2)]
  by (cases p) (simp_all add: handleLanguageChange_def safeLocale_def languages_def)

theorem unsupported_locale_switch_witness:
  "handleLanguageChange (safeLocale ''fr'') ''/fr/inbox'' ''es'' = ''/es/fr/inbox''"
  using unsupported_locale_switch [where l = "''fr''" and p = "''/fr/inbox''" and new = "''es''"]
  by (simp add: languages_def sublist_code prefix_code)

end
