(* ===== verification/Generator.thy ===== *)
theory Generator
  imports Email_Service
begin

text \<open>
  The generator card of the home page (\<open>src/components/email-generator.tsx\<close>): its
  \<open>useState\<close> hooks as the record \<open>generator\<close>, \<open>localStorage\<close> threaded beside it,
  and one function per handler.  The card calls \<open>initializeEmailAccount\<close> of
  \<open>Email_Service\<close>, whose inputs from the world are a \<open>provision_input\<close>.
\<close>

section \<open>State\<close>

datatype gen_toast =
    GT_Loaded
  | GT_Demo_Mode
  | GT_Created
  | GT_Demo_Fallback
  | GT_Generating
  | GT_New_Created
  | GT_Copied

record generator =
  eg_email :: string
  eg_password :: string
  eg_isLoading :: bool
  eg_isGenerating :: bool
  eg_error :: "string option"
  eg_accountId :: "string option"
  eg_toasts :: "gen_toast list"
  eg_clipboard :: "string list"

definition generator_init :: generator where
  "generator_init =
     \<lparr>eg_email = [], eg_password = [], eg_isLoading = True, eg_isGenerating = False, eg_error = None,
      eg_accountId = None, eg_toasts = [], eg_clipboard = []\<rparr>"

section \<open>Handlers\<close>

text \<open>\<open>await initializeEmailAccount()\<close> with the world's answers.\<close>

definition init_regular ::
  "window \<Rightarrow> ms \<Rightarrow> provision_input \<Rightarrow> local_storage \<Rightarrow> (init_error + email_account) \<times> local_storage" where
  "init_regular w now inp st =
     initializeEmailAccount w now (pi_domains inp) (pi_rdom inp) (pi_username inp) (pi_rpw inp) (pi_create inp) st"

text \<open>
  The \<open>message\<close> of what \<open>initializeEmailAccount\<close> rejects with: its own
  \<open>Error('No domains available')\<close>, or the engine's \<open>TypeError\<close> for reading
  \<open>.name\<close> of a missing domain.
\<close>

definition error_message :: "init_error \<Rightarrow> string" where
  "error_message e =
     (case e of
        No_Domains \<Rightarrow> ''No domains available''
      | Type_Error \<Rightarrow> ''Cannot read properties of undefined (reading 'name')'')"

definition eg_show :: "email_account \<Rightarrow> generator \<Rightarrow> generator" where
  "eg_show a g = g\<lparr>eg_email := email a, eg_password := password a, eg_accountId := Some (acc_id a)\<rparr>"

text \<open>
  Creating an account and showing it (\<open>'mock'\<close> means the demo toast), or, when
  \<open>initializeEmailAccount\<close> rejects, the error and a demo address.
\<close>

definition eg_create ::
  "window \<Rightarrow> ms \<Rightarrow> provision_input \<Rightarrow> gen_toast \<Rightarrow> string \<Rightarrow> generator \<times> local_storage \<Rightarrow>
   generator \<times> local_storage" where
  "eg_create w now inp created fallback gs =
     (let (g, st) = gs
      in (case init_regular w now inp st of
            (Inr a, st') \<Rightarrow>
              ((eg_show a g)\<lparr>eg_toasts := eg_toasts g @ [if domain_id a = ''mock'' then GT_Demo_Mode else created]\<rparr>, st')
          | (Inl e, st') \<Rightarrow>
              (g\<lparr>eg_error := Some (error_message e), eg_email := fallback, eg_password := ''temp123456'',
                 eg_accountId := Some (int_string now), eg_toasts := eg_toasts g @ [GT_Demo_Fallback]\<rparr>, st')))"

text \<open>
  \<open>initializeAccount\<close> (on mount): show a stored account, whatever its age; otherwise
  create one, the demo address being \<open>temp.user.12345@sendbun.com\<close>.
\<close>

definition eg_initializeAccount ::
  "window \<Rightarrow> ms \<Rightarrow> provision_input \<Rightarrow> generator \<times> local_storage \<Rightarrow> generator \<times> local_storage" where
  "eg_initializeAccount w now inp gs =
     (let (g, st) = gs;
          g0 = g\<lparr>eg_isLoading := True, eg_error := None\<rparr>
      in (case (case loadEmailData w st of None \<Rightarrow> None | Some d \<Rightarrow> currentAccount d) of
            Some a \<Rightarrow> ((eg_show a g0)\<lparr>eg_isLoading := False, eg_toasts := eg_toasts g0 @ [GT_Loaded]\<rparr>, st)
          | None \<Rightarrow> (let (g1, st1) = eg_create w now inp GT_Created ''temp.user.12345@sendbun.com'' (g0, st)
                    in (g1\<lparr>eg_isLoading := False\<rparr>, st1))))"

text \<open>
  \<open>generateNewAccount\<close>: toast, clear the stored record, create an account; the demo
  address is \<open>temp.user.<now>@sendbun.com\<close>.
\<close>

definition eg_generateNewAccount ::
  "window \<Rightarrow> ms \<Rightarrow> provision_input \<Rightarrow> generator \<times> local_storage \<Rightarrow> generator \<times> local_storage" where
  "eg_generateNewAccount w now inp gs =
     (let (g, st) = gs;
          g0 = g\<lparr>eg_isGenerating := True, eg_error := None, eg_toasts := eg_toasts g @ [GT_Generating]\<rparr>;
          (g1, st1) = eg_create w now inp GT_New_Created (''temp.user.'' @ int_string now @ ''@sendbun.com'')
                        (g0, clearEmailData w st)
      in (g1\<lparr>eg_isGenerating := False\<rparr>, st1))"

definition eg_copyEmail :: "generator \<Rightarrow> generator" where
  "eg_copyEmail g = g\<lparr>eg_clipboard := eg_clipboard g @ [eg_email g], eg_toasts := eg_toasts g @ [GT_Copied]\<rparr>"

datatype gen_view =
    GV_Loading
  | GV_Card "string option" string bool

text \<open>The render: a spinner while loading, else the error banner, the address, and the
  refresh button disabled while generating.\<close>

definition eg_render :: "generator \<Rightarrow> gen_view" where
  "eg_render g = (if eg_isLoading g then GV_Loading else GV_Card (eg_error g) (eg_email g) (eg_isGenerating g))"


section \<open>Lemmas\<close>

lemma load_clear_regular [simp]: "loadEmailData w (clearEmailData w st) = None"
  by (cases w) (simp_all add: storage_defs)

lemma init_regular_fresh:
  assumes "init_regular w now inp st = (Inr b, st')" "reusable_account now (loadEmailData w st) = None"
  shows "created_at b = now \<and>
         st' = saveEmailData w \<lparr>domains = loadDomains (pi_domains inp), currentAccount = Some b, lastUpdated = now\<rparr> st"
  using assms provision_success [of False "saveEmailData w" now "pi_domains inp" "pi_rdom inp" "pi_username inp"
                                   "pi_rpw inp" "pi_create inp" st b st']
  by (simp add: init_regular_def initializeEmailAccount_def)

lemma eg_create_consistent:
  assumes "eg_error (fst (eg_create w now inp t f (g, st))) = None"
    and "reusable_account now (loadEmailData w st) = None" "w \<noteq> None"
  shows "\<exists>d a. loadEmailData w (snd (eg_create w now inp t f (g, st))) = Some d \<and> currentAccount d = Some a \<and>
                eg_email (fst (eg_create w now inp t f (g, st))) = email a"
proof (cases "init_regular w now inp st")
  case (Pair r st1)
  show ?thesis
  proof (cases r)
    case (Inl e)
    then show ?thesis using assms(1) Pair by (simp add: eg_create_def)
  next
    case (Inr b)
    then have "st1 = saveEmailData w \<lparr>domains = loadDomains (pi_domains inp), currentAccount = Some b, lastUpdated = now\<rparr> st"
      using init_regular_fresh [of w now inp st b st1] Pair assms(2) by simp
    then show ?thesis using assms(3) Pair Inr by (auto simp: eg_create_def eg_show_def)
  qed
qed

section \<open>Properties\<close>

text \<open>
  C30: the generator card shows a stored regular account whatever its age and changes
  nothing, although \<open>initializeEmailAccount\<close> treats an account 24 hours old or more as
  stale and would create a fresh one.
\<close>

theorem generator_shows_stale_account:
  assumes "loadEmailData w st = Some d" "currentAccount d = Some a"
    and "24 * 60 * 60 * 1000 \<le> now - created_at a"
  shows "eg_email (fst (eg_initializeAccount w now inp (g, st))) = email a \<and>
         snd (eg_initializeAccount w now inp (g, st)) = st \<and>
         (\<forall>b st'. init_regular w now inp st = (Inr b, st') \<longrightarrow> created_at b = now)"
proof -
  have "reusable_account now (loadEmailData w st) = None"
    using assms by (simp add: reusable_account_def)
  then have "\<forall>b st'. init_regular w now inp st = (Inr b, st') \<longrightarrow> created_at b = now"
    using init_regular_fresh by blast
  with assms(1,2) show ?thesis by (simp add: eg_initializeAccount_def eg_show_def)
qed

theorem generator_shows_stale_account_witness:
  "eg_email (fst (eg_initializeAccount (Some ''sendbun.com'') 86400000 \<lparr>pi_domains = Fetch_Json (Api_Success (Some (Domains_Field []))), pi_rdom = 0, pi_username = ''u'', pi_rpw = (\<lambda>_. 0), pi_create = Fetch_Error\<rparr> (generator_init, (saveEmailData (Some ''sendbun.com'') \<lparr>domains = [], currentAccount = Some \<lparr>acc_id = ''7'', email = ''x@sendbun.com'', password = ''p'', created_at = 0, domain_id = ''1'', expires_at = None, is_5min = Some False\<rparr>, lastUpdated = 0\<rparr> (\<lambda>_. None))))) = ''x@sendbun.com''"
  using generator_shows_stale_account [where w = "Some ''sendbun.com''" and st = "(saveEmailData (Some ''sendbun.com'') \<lparr>domains = [], currentAccount = Some \<lparr>acc_id = ''7'', email = ''x@sendbun.com'', password = ''p'', created_at = 0, domain_id = ''1'', expires_at = None, is_5min = Some False\<rparr>, lastUpdated = 0\<rparr> (\<lambda>_. None))" and d = "\<lparr>domains = [], currentAccount = Some \<lparr>acc_id = ''7'', email = ''x@sendbun.com'', password = ''p'', created_at = 0, domain_id = ''1'', expires_at = None, is_5min = Some False\<rparr>, lastUpdated = 0\<rparr>" and a = "\<lparr>acc_id = ''7'', email = ''x@sendbun.com'', password = ''p'', created_at = 0, domain_id = ''1'', expires_at = None, is_5min = Some False\<rparr>"
          and now = 86400000 and inp = "\<lparr>pi_domains = Fetch_Json (Api_Success (Some (Domains_Field []))), pi_rdom = 0, pi_username = ''u'', pi_rpw = (\<lambda>_. 0), pi_create = Fetch_Error\<rparr>" and g = generator_init]
  by simp

text \<open>
  C21: when "generate new" cannot create an account (the domains API returns an empty
  list), the stored regular account is already cleared: storage holds none, and the card
  shows a demo address \<open>temp.user.<now>@sendbun.com\<close> with the error
  "No domains available".
\<close>

theorem generate_failure_clears_account:
  assumes "pi_domains inp = Fetch_Json (Api_Success (Some (Domains_Field [])))"
  shows "loadEmailData w (snd (eg_generateNewAccount w now inp (g, st))) = None \<and>
         eg_email (fst (eg_generateNewAccount w now inp (g, st))) = ''temp.user.'' @ int_string now @ ''@sendbun.com'' \<and>
         eg_error (fst (eg_generateNewAccount w now inp (g, st))) = Some ''No domains available''"
proof -
  have "init_regular w now inp (clearEmailData w st) = (Inl No_Domains, clearEmailData w st)"
    using assms by (simp add: init_regular_def initializeEmailAccount_def reusable_account_def provision_def)
  then show ?thesis by (simp add: eg_generateNewAccount_def eg_create_def error_message_def)
qed

theorem generate_failure_clears_account_witness:
  "loadEmailData (Some ''sendbun.com'') (snd (eg_generateNewAccount (Some ''sendbun.com'') 5 \<lparr>pi_domains = Fetch_Json (Api_Success (Some (Domains_Field []))), pi_rdom = 0, pi_username = ''u'', pi_rpw = (\<lambda>_. 0), pi_create = Fetch_Error\<rparr> (generator_init, (saveEmailData (Some ''sendbun.com'') \<lparr>domains = [], currentAccount = Some \<lparr>acc_id = ''7'', email = ''x@sendbun.com'', password = ''p'', created_at = 0, domain_id = ''1'', expires_at = None, is_5min = Some False\<rparr>, lastUpdated = 0\<rparr> (\<lambda>_. None))))) = None"
  using generate_failure_clears_account [where w = "Some ''sendbun.com''" and st = "(saveEmailData (Some ''sendbun.com'') \<lparr>domains = [], currentAccount = Some \<lparr>acc_id = ''7'', email = ''x@sendbun.com'', password = ''p'', created_at = 0, domain_id = ''1'', expires_at = None, is_5min = Some False\<rparr>, lastUpdated = 0\<rparr> (\<lambda>_. None))" and now = 5
          and inp = "\<lparr>pi_domains = Fetch_Json (Api_Success (Some (Domains_Field []))), pi_rdom = 0, pi_username = ''u'', pi_rpw = (\<lambda>_. 0), pi_create = Fetch_Error\<rparr>" and g = generator_init]
  by simp

text \<open>
  C15: after the card's mount or "generate new" handler, when it shows no error, the
  address it shows is the current account stored in \<open>localStorage\<close>, so the inbox opens
  the mailbox the card displays.
\<close>

theorem card_matches_storage:
  assumes "w \<noteq> None"
    and "gst = eg_initializeAccount w now inp (g, st) \<or> gst = eg_generateNewAccount w now inp (g, st)"
    and "eg_error (fst gst) = None"
  shows "\<exists>d a. loadEmailData w (snd gst) = Some d \<and> currentAccount d = Some a \<and> eg_email (fst gst) = email a"
  using assms(2)
proof
  assume i: "gst = eg_initializeAccount w now inp (g, st)"
  show ?thesis
  proof (cases "case loadEmailData w st of None \<Rightarrow> None | Some d \<Rightarrow> currentAccount d")
    case None
    then have "reusable_account now (loadEmailData w st) = None"
      by (auto simp: reusable_account_def split: option.splits)
    then show ?thesis
      using i None assms(1,3)
            eg_create_consistent [of w now inp GT_Created "''temp.user.12345@sendbun.com''"
                                     "g\<lparr>eg_isLoading := True, eg_error := None\<rparr>" st]
      by (simp add: eg_initializeAccount_def split_beta Let_def)
  next
    case (Some a)
    then show ?thesis using i by (auto simp: eg_initializeAccount_def eg_show_def split: option.splits)
  qed
next
  assume n: "gst = eg_generateNewAccount w now inp (g, st)"
  have "reusable_account now (loadEmailData w (clearEmailData w st)) = None"
    by (simp add: reusable_account_def)
  then show ?thesis
    using n assms(1,3)
          eg_create_consistent [of w now inp GT_New_Created "''temp.user.'' @ int_string now @ ''@sendbun.com''"
             "g\<lparr>eg_isGenerating := True, eg_error := None, eg_toasts := eg_toasts g @ [GT_Generating]\<rparr>"
             "clearEmailData w st"]
    by (simp add: eg_generateNewAccount_def split_beta Let_def)
qed

theorem card_matches_storage_witness:
  "\<exists>d a. loadEmailData (Some ''sendbun.com'') (snd (eg_initializeAccount (Some ''sendbun.com'') 5 \<lparr>pi_domains = Fetch_Json (Api_Success (Some (Domains_Field []))), pi_rdom = 0, pi_username = ''u'', pi_rpw = (\<lambda>_. 0), pi_create = Fetch_Error\<rparr> (generator_init, (saveEmailData (Some ''sendbun.com'') \<lparr>domains = [], currentAccount = Some \<lparr>acc_id = ''7'', email = ''x@sendbun.com'', password = ''p'', created_at = 0, domain_id = ''1'', expires_at = None, is_5min = Some False\<rparr>, lastUpdated = 0\<rparr> (\<lambda>_. None))))) = Some d \<and>
         currentAccount d = Some a \<and>
         eg_email (fst (eg_initializeAccount (Some ''sendbun.com'') 5 \<lparr>pi_domains = Fetch_Json (Api_Success (Some (Domains_Field []))), pi_rdom = 0, pi_username = ''u'', pi_rpw = (\<lambda>_. 0), pi_create = Fetch_Error\<rparr> (generator_init, (saveEmailData (Some ''sendbun.com'') \<lparr>domains = [], currentAccount = Some \<lparr>acc_id = ''7'', email = ''x@sendbun.com'', password = ''p'', created_at = 0, domain_id = ''1'', expires_at = None, is_5min = Some False\<rparr>, lastUpdated = 0\<rparr> (\<lambda>_. None))))) = email a"
  by (rule card_matches_storage [where gst = "eg_initializeAccount (Some ''sendbun.com'') 5 \<lparr>pi_domains = Fetch_Json (Api_Success (Some (Domains_Field []))), pi_rdom = 0, pi_username = ''u'', pi_rpw = (\<lambda>_. 0), pi_create = Fetch_Error\<rparr> (generator_init, (saveEmailData (Some ''sendbun.com'') \<lparr>domains = [], currentAccount = Some \<lparr>acc_id = ''7'', email = ''x@sendbun.com'', password = ''p'', created_at = 0, domain_id = ''1'', expires_at = None, is_5min = Some False\<rparr>, lastUpdated = 0\<rparr> (\<lambda>_. None)))" and w = "Some ''sendbun.com''" and now = 5
          and inp = "\<lparr>pi_domains = Fetch_Json (Api_Success (Some (Domains_Field []))), pi_rdom = 0, pi_username = ''u'', pi_rpw = (\<lambda>_. 0), pi_create = Fetch_Error\<rparr>" and g = generator_init and st = "(saveEmailData (Some ''sendbun.com'') \<lparr>domains = [], currentAccount = Some \<lparr>acc_id = ''7'', email = ''x@sendbun.com'', password = ''p'', created_at = 0, domain_id = ''1'', expires_at = None, is_5min = Some False\<rparr>, lastUpdated = 0\<rparr> (\<lambda>_. None))"])
     (simp_all add: eg_initializeAccount_def generator_init_def eg_show_def)

end
