(* ===== verification/Site_Chrome.thy ===== *)
theory Site_Chrome
  imports Locale_Switch Generator
begin

text \<open>
  The pages' frame and the static pages: the locale layout (\<open>src/app/[locale]/layout.tsx\<close>)
  and the message catalogues it picks (\<open>src/messages/index.ts\<close>), the header
  (\<open>src/components/header.tsx\<close>: navigation, theme toggle, mobile menu), the footer's
  link lists and language menu (\<open>src/components/footer.tsx\<close>), the home page
  (\<open>src/app/[locale]/page.tsx\<close>) and the about, privacy and terms pages.  A page is
  modelled as the list of blocks it renders; a translated text is its key
  (\<open>t(key)\<close>); a link is its \<open>href\<close>.  Which paths the application serves is read off
  the page files under \<open>src/app/[locale]\<close>.
\<close>

section \<open>Paths\<close>

text \<open>The pages under \<open>src/app/[locale]\<close>, as the path below the locale segment.\<close>

definition page_routes :: "string list" where
  "page_routes = [[], ''/inbox'', ''/5-minutes-temporary-email'', ''/5-minutes-temporary-email/inbox'', ''/about'', ''/privacy'', ''/terms'']"

definition served :: "string \<Rightarrow> string \<Rightarrow> bool" where
  "served l path = list_ex (\<lambda>r. path = CHR ''/'' # l @ r) page_routes"

text \<open>
  How the browser resolves an \<open>href\<close> against the current path: an absolute path is
  kept, a relative one replaces the last segment of the current path.
\<close>

definition resolve_href :: "string \<Rightarrow> string \<Rightarrow> string" where
  "resolve_href base ref =
     (if take 1 ref = ''/'' then ref else rev (dropWhile (\<lambda>c. c \<noteq> CHR ''/'') (rev base)) @ ref)"

section \<open>Layout and message catalogues\<close>

datatype catalogue = Messages_En | Messages_Es

text \<open>\<open>messagesMap[key]\<close>: a key other than \<open>en\<close> or \<open>es\<close> reads \<open>undefined\<close>.\<close>

definition messagesMap :: "string \<Rightarrow> catalogue option" where
  "messagesMap k = (if k = ''en'' then Some Messages_En else if k = ''es'' then Some Messages_Es else None)"

datatype chrome_part = Part_Header | Part_Main | Part_Footer | Part_Toaster | Part_Language_Switcher

record layout_view =
  lv_lang :: string
  lv_provider_locale :: string
  lv_messages :: "catalogue option"
  lv_parts :: "chrome_part list"

definition LocaleLayout :: "string \<Rightarrow> layout_view" where
  "LocaleLayout locale =
     (let safe = safeLocale locale
      in \<lparr>lv_lang = safe, lv_provider_locale = safe, lv_messages = messagesMap safe,
          lv_parts = [Part_Header, Part_Main, Part_Footer, Part_Toaster, Part_Language_Switcher]\<rparr>)"

text \<open>The page metadata the layout exports.\<close>

record site_metadata =
  md_title :: string
  md_description :: string
  md_generator :: string

definition metadata :: site_metadata where
  "metadata =
     \<lparr>md_title = ''TempMail - Temporary Email Service'',
      md_description = ''Generate temporary email addresses for privacy and security'',
      md_generator = ''v0.dev''\<rparr>"

section \<open>Header\<close>

text \<open>
  The header's state: \<open>isOpen\<close> of the mobile sheet and the theme of \<open>next-themes\<close>,
  which the layout's \<open>ThemeProvider\<close> starts at \<open>system\<close>.
\<close>

record header_state =
  hd_isOpen :: bool
  hd_theme :: string

definition header_init :: header_state where
  "header_init = \<lparr>hd_isOpen = False, hd_theme = ''system''\<rparr>"

definition navigation :: "string \<Rightarrow> (string \<times> string) list" where
  "navigation locale =
     [(''navigation.home'', CHR ''/'' # locale),
      (''navigation.inbox'', CHR ''/'' # locale @ ''/inbox''),
      (''navigation.fiveMinEmail'', CHR ''/'' # locale @ ''/5-minutes-temporary-email'')]"

definition header_logo_href :: "string \<Rightarrow> string" where
  "header_logo_href locale = CHR ''/'' # locale"

text \<open>The theme button: \<open>setTheme(theme === "dark" ? "light" : "dark")\<close>.\<close>

definition header_toggleTheme :: "header_state \<Rightarrow> header_state" where
  "header_toggleTheme h = h\<lparr>hd_theme := (if hd_theme h = ''dark'' then ''light'' else ''dark'')\<rparr>"

text \<open>The theme the page is drawn in: \<open>system\<close> follows the operating system's preference.\<close>

definition resolved_theme :: "string \<Rightarrow> header_state \<Rightarrow> string" where
  "resolved_theme os h = (if hd_theme h = ''system'' then os else hd_theme h)"

text \<open>The sheet's \<open>onOpenChange\<close>, and a click on one of its links, which closes it.\<close>

definition header_setIsOpen :: "bool \<Rightarrow> header_state \<Rightarrow> header_state" where
  "header_setIsOpen b h = h\<lparr>hd_isOpen := b\<rparr>"

definition header_mobile_click :: "string \<Rightarrow> nat \<Rightarrow> header_state \<Rightarrow> header_state \<times> string option" where
  "header_mobile_click locale i h =
     (if hd_isOpen h \<and> i < length (navigation locale)
      then (h\<lparr>hd_isOpen := False\<rparr>, Some (snd (navigation locale ! i))) else (h, None))"

text \<open>
  What the header shows: the logo's link, the desktop navigation, and the mobile sheet
  (open or not) with the same links.
\<close>

record header_view =
  hv_logo_href :: string
  hv_desktop_links :: "(string \<times> string) list"
  hv_sheet_open :: bool
  hv_mobile_links :: "(string \<times> string) list"

definition header_render :: "string \<Rightarrow> header_state \<Rightarrow> header_view" where
  "header_render locale h =
     \<lparr>hv_logo_href = header_logo_href locale, hv_desktop_links = navigation locale,
      hv_sheet_open = hd_isOpen h, hv_mobile_links = navigation locale\<rparr>"

section \<open>Footer\<close>

text \<open>The footer's link columns: a heading and its (label, \<open>href\<close>) entries.\<close>

definition footer_sections :: "string \<Rightarrow> (string \<times> (string \<times> string) list) list" where
  "footer_sections locale =
     [(''footer.features'',
        [(''footer.autoExpiration'', CHR ''/'' # locale @ ''/features/auto_expiration''),
         (''footer.customDomain'', CHR ''/'' # locale @ ''/features/custom_domain''),
         (''footer.emailForwarding'', CHR ''/'' # locale @ ''/features/email_forwarding'')]),
      (''footer.services'',
        [(''footer.fiveMinEmail'', CHR ''/'' # locale @ ''/5-minutes-temporary-email''),
         (''footer.tenMinEmail'', ''#''),
         (''footer.oneHourEmail'', ''#'')]),
      (''footer.company'',
        [(''footer.about'', CHR ''/'' # locale @ ''/about''),
         (''footer.privacyPolicy'', CHR ''/'' # locale @ ''/privacy''),
         (''footer.termsOfService'', CHR ''/'' # locale @ ''/terms''),
         (''footer.contact'', CHR ''/'' # locale @ ''/contact'')])]"

definition footer_links :: "string \<Rightarrow> (string \<times> string) list" where
  "footer_links locale = concat (map snd (footer_sections locale))"

text \<open>
  The footer's language menu: the button shows the current language, if the locale is
  one; each entry is a locale code, whether it is highlighted, and the path its click
  pushes through the footer's own \<open>handleLanguageChange\<close>.
\<close>

definition footer_language_menu :: "string \<Rightarrow> string \<Rightarrow> string option \<times> (string \<times> bool \<times> string) list" where
  "footer_language_menu locale pathname =
     (find (\<lambda>code. code = locale) languages,
      map (\<lambda>code. (code, locale = code, footer_handleLanguageChange locale pathname code)) languages)"

text \<open>
  What the footer shows: the description, the three link columns, the language menu for
  the current path, and the copyright line.
\<close>

record footer_view =
  fv_description :: string
  fv_sections :: "(string \<times> (string \<times> string) list) list"
  fv_language_heading :: string
  fv_language_menu :: "string option \<times> (string \<times> bool \<times> string) list"
  fv_copyright :: string

definition footer_render :: "string \<Rightarrow> string \<Rightarrow> footer_view" where
  "footer_render locale pathname =
     \<lparr>fv_description = ''footer.description'', fv_sections = footer_sections locale,
      fv_language_heading = ''footer.language'', fv_language_menu = footer_language_menu locale pathname,
      fv_copyright = ''footer.copyright''\<rparr>"

section \<open>Pages\<close>

datatype block =
    Heading string
  | Para string
  | Generator_Card gen_view
  | Card string string
  | Testimonial string string string nat
  | Stat string string
  | Check string
  | Link_Button string string

text \<open>The home page's lists: four benefits and three five-star testimonials.\<close>

definition home_benefits :: "(string \<times> string) list" where
  "home_benefits =
     [(''home.privacyProtection'', ''home.privacyProtectionDescription''),
      (''home.autoExpiration'', ''home.autoExpirationDescription''),
      (''home.instantGeneration'', ''home.instantGenerationDescription''),
      (''home.realInbox'', ''home.realInboxDescription'')]"

definition home_testimonials :: "(string \<times> string \<times> string \<times> nat) list" where
  "home_testimonials =
     map (\<lambda>p. (''testimonials.'' @ p @ ''.name'', ''testimonials.'' @ p @ ''.role'',
               ''testimonials.'' @ p @ ''.content'', 5))
         [''sarahChen'', ''mikeJohnson'', ''emmaDavis'']"

text \<open>The hero: badge, title, subtitle, the generator card, three check marks.\<close>

definition home_hero :: "generator \<Rightarrow> block list" where
  "home_hero g =
     [Para ''home.trustedBy'', Heading ''home.title'', Para ''home.subtitle'', Generator_Card (eg_render g),
      Check ''home.noRegistration'', Check ''home.anonymous'', Check ''home.autoDelete'']"

definition home_benefit_blocks :: "block list" where
  "home_benefit_blocks =
     [Heading ''home.whyChoose'', Para ''home.whyChooseDescription''] @
     map (\<lambda>(title, descr). Card title descr) home_benefits"

definition home_stats :: "block list" where
  "home_stats =
     [Stat ''2M+'' ''home.activeUsers'', Stat ''50M+'' ''home.emailsGenerated'', Stat ''99.9%'' ''home.uptime'']"

definition home_testimonial_blocks :: "block list" where
  "home_testimonial_blocks =
     [Heading ''home.whatUsersSay'', Para ''home.whatUsersSayDescription''] @
     map (\<lambda>(name, role, content, rating). Testimonial content name role rating) home_testimonials"

definition tech_key :: "string \<Rightarrow> string" where
  "tech_key k = ''techSection.'' @ k"

definition home_tech :: "block list" where
  "home_tech =
     [Heading (tech_key ''title''), Para (tech_key ''intro''), Para (tech_key ''problem''),
      Heading (tech_key ''whatIsTitle''), Para (tech_key ''whatIsDescription''), Para (tech_key ''whatIsDescription2''),
      Heading (tech_key ''whyNeedTitle''), Para (tech_key ''whyNeedDescription''),
      Para (tech_key ''whyNeedDescription2''), Para (tech_key ''legitimateReasons'')] @
     map (\<lambda>n. Card (tech_key (''reason'' @ n @ ''Title'')) (tech_key (''reason'' @ n))) [''1'', ''2'', ''3'', ''4''] @
     [Heading (tech_key ''howToChooseTitle''), Para (tech_key ''howToChooseDescription'')] @
     map (\<lambda>n. Check (tech_key (''criteria'' @ n))) [''1'', ''2'', ''3'', ''4'', ''5'', ''6''] @
     [Heading (tech_key ''howToUseTitle''), Para (tech_key ''howToUseDescription''),
      Para (tech_key ''howToUseDescription2''), Para (tech_key ''howToUseDescription3''),
      Heading (tech_key ''conclusionTitle''), Para (tech_key ''conclusion'')]"

text \<open>The closing call to action: \<open><Link href="inbox">\<close>, a relative link.\<close>

definition home_cta_href :: string where
  "home_cta_href = ''inbox''"

definition home_cta :: "block list" where
  "home_cta =
     [Heading ''home.readyToProtect'', Para ''home.readyToProtectDescription'',
      Link_Button home_cta_href ''home.getStartedNow'']"

definition HomePage :: "generator \<Rightarrow> block list" where
  "HomePage g = home_hero g @ home_benefit_blocks @ home_stats @ home_testimonial_blocks @ home_tech @ home_cta"

text \<open>
  \<open>generateStaticParams\<close>: one \<open>{locale}\<close> per configured locale (the list \<open>locales\<close> of
  \<open>i18n\<close>, which is not among the sources, is a parameter).
\<close>

record static_param =
  sp_locale :: string

definition generateStaticParams :: "string list \<Rightarrow> static_param list" where
  "generateStaticParams locales = map (\<lambda>locale. \<lparr>sp_locale = locale\<rparr>) locales"

text \<open>The about, privacy and terms pages: a title and a body under \<open>pages.<name>\<close>.\<close>

definition static_page :: "string \<Rightarrow> block list" where
  "static_page name = [Heading (''pages.'' @ name @ ''.title''), Para (''pages.'' @ name @ ''.body'')]"

definition AboutPage :: "block list" where
  "AboutPage = static_page ''about''"

definition PrivacyPage :: "block list" where
  "PrivacyPage = static_page ''privacy''"

definition TermsPage :: "block list" where
  "TermsPage = static_page ''terms''"

text \<open>
  The five-minute page's fixed sections below its card
  (\<open>src/app/[locale]/5-minutes-temporary-email/page.tsx\<close>): its use cases, its three
  features, the expiry steps and the privacy figures, in English in the code.
\<close>

definition fm_useCases :: "string list" where
  "fm_useCases =
     [''Quick account verification'', ''One-time downloads'', ''Newsletter signups'', ''Testing forms'',
      ''Avoiding spam'', ''Privacy protection'']"

definition fm_features :: "(string \<times> string) list" where
  "fm_features =
     [(''Auto-Expires in 5 Minutes'', ''Perfect for quick tasks and immediate verification''),
      (''Maximum Privacy'', ''No traces left after expiration''),
      (''Instant Delivery'', ''Receive emails immediately'')]"

definition fm_marketing :: "block list" where
  "fm_marketing =
     [Heading ''Why 5-Minute Emails?'', Para ''Sometimes you need maximum privacy with minimal exposure time''] @
     map (\<lambda>(title, descr). Card title descr) fm_features @
     [Heading ''Perfect For Quick Tasks'',
      Para ''5-minute temporary emails are ideal when you need immediate access but want to ensure complete privacy and automatic cleanup.''] @
     map Check fm_useCases @
     [Heading ''Auto-Expiry Process'',
      Card ''Email Generated'' ''5-minute countdown begins'',
      Card ''Receive Emails'' ''Use normally during active period'',
      Card ''Auto-Delete'' ''Complete removal after 5 minutes'',
      Heading ''Maximum Privacy Guaranteed'',
      Para ''With 5-minute auto-expiry, your digital footprint is minimized to the absolute minimum. Perfect for users who prioritize privacy above all else.'',
      Stat ''100%'' ''Auto-Deletion Rate'', Stat ''5min'' ''Maximum Exposure'', Stat ''0'' ''Data Retention'']"

section \<open>Lemmas\<close>

lemma served_iff: "served l (CHR ''/'' # l @ r) \<longleftrightarrow> r \<in> set page_routes"
  by (auto simp: served_def list_ex_iff)

lemma theme_after_clicks:
  "hd_theme ((header_toggleTheme ^^ k) header_init) =
     (if k = 0 then ''system'' else if odd k then ''dark'' else ''light'')"
  by (induction k) (simp_all add: header_toggleTheme_def header_init_def)

text \<open>The footer's language menu and the floating switcher's offer the same entries and push the same paths.\<close>

lemma footer_menu_is_switcher_menu: "footer_language_menu l p = switcher_menu l p"
  by (simp add: footer_language_menu_def switcher_menu_def currentLanguage_def
                footer_handleLanguageChange_def handleLanguageChange_def)

section \<open>Properties\<close>

text \<open>
  C25: the layout's locale is always one the application has messages for: the
  \<open>lang\<close> attribute and the provider's locale are \<open>en\<close> or \<open>es\<close> whatever the URL's
  segment, so the cast to \<open>AppLocale\<close> is sound and \<open>messagesMap\<close> never reads
  \<open>undefined\<close>.
\<close>

theorem layout_locale_type:
  "lv_lang (LocaleLayout l) \<in> set languages \<and>
   lv_provider_locale (LocaleLayout l) = lv_lang (LocaleLayout l) \<and>
   lv_messages (LocaleLayout l) \<noteq> None"
  by (simp add: LocaleLayout_def Let_def safeLocale_def languages_def messagesMap_def)

text \<open>
  C28: the links of the frame: every link of the header leads to a page of the
  application, in the current locale; of the footer's links, the three feature links and
  the contact link lead to no page (there is no \<open>features\<close> or \<open>contact\<close> route), and the
  ten-minute and one-hour entries are placeholders (\<open>#\<close>).
\<close>

theorem chrome_links:
  "list_all (\<lambda>(k, h). served l h) (navigation l) \<and> served l (header_logo_href l) \<and>
   filter (\<lambda>(k, h). h \<noteq> ''#'' \<and> \<not> served l h) (footer_links l) =
     [(''footer.autoExpiration'', CHR ''/'' # l @ ''/features/auto_expiration''),
      (''footer.customDomain'', CHR ''/'' # l @ ''/features/custom_domain''),
      (''footer.emailForwarding'', CHR ''/'' # l @ ''/features/email_forwarding''),
      (''footer.contact'', CHR ''/'' # l @ ''/contact'')] \<and>
   map fst (filter (\<lambda>(k, h). h = ''#'') (footer_links l)) = [''footer.tenMinEmail'', ''footer.oneHourEmail'']"
proof -
  have root: "served l (CHR ''/'' # l)" using served_iff [of l "[]"] by (simp add: page_routes_def)
  show ?thesis
    using root
    by (simp add: navigation_def header_logo_href_def footer_links_def footer_sections_def served_iff
                  page_routes_def)
qed

text \<open>
  C36: the theme button compares \<open>theme\<close>, which starts at \<open>system\<close>, not the theme
  drawn: the first click always selects dark, so on an operating system in dark mode it
  changes nothing visible; from then on clicks alternate light and dark.
\<close>

theorem theme_toggle_clicks:
  "resolved_theme os ((header_toggleTheme ^^ k) header_init) =
     (if k = 0 then os else if odd k then ''dark'' else ''light'')"
  by (simp add: resolved_theme_def theme_after_clicks)

text \<open>
  C35: the home page's closing button links to the relative \<open>inbox\<close>: on the home page
  \<open>/<locale>\<close> the browser resolves it to \<open>/inbox\<close>, dropping the locale, where the
  header's inbox link is \<open>/<locale>/inbox\<close>; no page of the application is at \<open>/inbox\<close>
  for a supported locale.
\<close>

theorem home_cta_drops_locale:
  assumes "CHR ''/'' \<notin> set l"
  shows "resolve_href (CHR ''/'' # l) home_cta_href = ''/inbox'' \<and>
         resolve_href (CHR ''/'' # l) home_cta_href \<noteq> snd (navigation l ! 1) \<and>
         (\<forall>l' \<in> set languages. \<not> served l' (resolve_href (CHR ''/'' # l) home_cta_href))"
proof -
  have "dropWhile (\<lambda>c. c \<noteq> CHR ''/'') (rev l @ [CHR ''/'']) = [CHR ''/'']"
    using assms by (subst dropWhile_append2) auto
  then have r: "resolve_href (CHR ''/'' # l) home_cta_href = ''/inbox''"
    by (simp add: resolve_href_def home_cta_href_def)
  show ?thesis
    unfolding r by (simp add: navigation_def languages_def served_def page_routes_def)
qed

theorem home_cta_drops_locale_witness:
  "resolve_href ''/es'' home_cta_href = ''/inbox''"
  using home_cta_drops_locale [of "''es''"] by simp

end
