(* ===== verification/Spec2Isabelle.thy ===== *)
theory Spec2Isabelle
  imports Five_Minute Email_Modal Site_Chrome
begin

text \<open>
  \<^bold>\<open>A verification library for sendbun/DisposableMail.\<close>

  The repository is a Next.js application that hands out disposable mailboxes.  Its
  logic lives in \<open>src/lib/email-service.ts\<close> (accounts, \<open>localStorage\<close>, REST calls
  with fallbacks, expiry) and in the client pages that use it: the regular inbox
  (\<open>src/app/[locale]/inbox/page.tsx\<close> with \<open>src/components/email-detail-modal.tsx\<close>),
  the five-minute page and its inbox (\<open>src/app/[locale]/5-minutes-temporary-email/\<close>),
  the generator card (\<open>src/components/email-generator.tsx\<close>) and the locale switchers.
  Both inboxes drive a real-time notification client (\<open>@/lib/email-notification-client\<close>)
  that is not among the sources; the specification describes it.

  \<^bold>\<open>Theories.\<close>
  \<^item> \<open>Prelude\<close>: milliseconds and \<open>Math.random\<close> streams (\<open>rng\<close>, values in
    \<open>[0, 1)\<close>), the JavaScript built-ins the code calls on strings and numbers
    (\<open>||\<close>, \<open>split\<close>, \<open>includes\<close>, \<open>toLowerCase\<close>, \<open>replace\<close>, \<open>toString\<close>,
    \<open>padStart\<close>, \<open>%\<close>, string indexing), an insertion-ordered \<open>Set\<close>, and their
    lemmas (the \<open>js_eval\<close> collection evaluates them on literals).
  \<^item> \<open>Email_Service\<close>: \<open>email-service.ts\<close> function by function.  The interfaces
    \<open>Domain\<close>, \<open>EmailAccount\<close>, \<open>SiteEmailData\<close> are records; ISO date strings are
    the millisecond they denote.  Browser state is passed explicitly: the window (\<open>None\<close>
    on the server, else the host name), the clock, the values \<open>Math.random()\<close> returns,
    and \<open>localStorage\<close> as a map from keys to stored texts.  A \<open>fetch\<close> is its
    outcome (\<open>Fetch_Error\<close> when it or \<open>json()\<close> threw, else the body with
    \<open>success\<close> true or false), so every \<open>catch\<close> is a branch.  Lemmas: the
    password generator's output (length 12, one character of each class, the shuffle a
    permutation); the storage keys differ and each record round-trips; expiry arithmetic; the only rejection of the initialisers; validity of the
    five-minute account returned; what the clean-up removes.
  \<^item> \<open>Notification_Client\<close> (from the specification, section 4.1): the client's state as
    a record, one function per method and per transport callback, a step function over
    events, its runs, and the inductive set of states reachable from construction with the
    invariant proved by rule induction (attempt bound, reconnect pending only while
    disconnected, a REST-URL client inert), the give-up state closed under all events, and
    the re-handshake on every re-opened connection.  A new-email push (\<open>on_message\<close>)
    is dropped when a push with the same sender and subject arrived less than 5000 ms
    before (records expire on lookup, as section 9 suggests), and otherwise is handed to
    every registered handler in order; the handler calls are logged in \<open>delivered\<close>.
    Lemma: the duplicate window of one push is exactly \<open>[t, t + 5000)\<close>.  The
    specification's connection state
    machine is an inductive relation \<open>spec_conn_step\<close> over (phase, attempts); the
    abstraction \<open>conn_abs\<close> maps a client to it, and every run of the client is a run
    of that machine with stuttering (a simulation under the invariant, as in the event
    systems of the references).
  \<^item> \<open>Inbox_Page\<close>: the regular inbox as a record of its hooks and refs with one
    function per handler; an awaited request is two steps (the call, then its result
    against the state of that moment, the oldest load in flight settling first); timers
    are due times fired by \<open>tick\<close>; the render is a function to what the page shows,
    failing with \<open>TypeError\<close> where the code would throw.  Lemmas: the duplicate
    window of notifications and its two defects (keys split on \<open>-\<close>), the load
    throttle, the search filter's exact error condition and the render crash on a
    sender-less e-mail, the delete handler's stale list, the pager, and the page's client:
    invariant, one handshake per connection, giving up, inert on the REST URL, final after
    unmount.  The search filter is shown equal to \<open>filter\<close> with a plain reference
    predicate \<open>matches_ref\<close> on e-mails that have a sender.  The page composed with its
    client (\<open>page_push\<close>: the client dispatches, each logged call runs the page's
    handler on the page state): the client's window is shown to shield the page's own,
    defective, key check.
  \<^item> \<open>Five_Minute\<close>: the five-minute page (creation with clean-up and demo fallback,
    the one-second countdown, \<open>handleAccountExpiry\<close>, \<open>formatTime\<close>) and the
    five-minute inbox (its state is the regular page's plus the countdown, the 200 ms
    account poll and the countdown effect re-run on every change of \<open>timeLeft\<close>, as
    React does).  Lemmas: the first zero tick deletes nothing, the demo address never
    expires, \<open>formatTime\<close> round-trips, "generate new" returns the old account, the
    poll ends, and with an account it survives the initial check and stops at its first
    firing after a second check, sending one request; the countdown clears storage only after
    the expiry.  \<open>refreshEmailAccount\<close> of the five-minute inbox also recomputes the time
    left, which re-runs the countdown effect.
    The five-minute inbox's own copy of the client wiring (\<open>fi_ws_init\<close>,
    \<open>fi_ws_effect\<close>, its clean-up, unmount and re-run) is modelled as written; its
    handlers never accumulate.  Its copies of \<open>formatTime\<close>, \<open>formatDate\<close>, the sender
    readers and the pager are written out and shown equal to the originals
    (\<open>fi_copies_agree\<close>); its render is written out with its own rows (English
    fallbacks) and crashes on a sender-less e-mail as the regular one does.
  \<^item> \<open>Generator\<close>: the home page's generator card (\<open>email-generator.tsx\<close>) over the
    regular record: mount, "generate new", copy and render.  Lemmas: the card shows the
    stored account, a failed "generate new" has already cleared it, a stale account is
    shown where the service would replace it.
  \<^item> \<open>Email_Modal\<close>: the detail dialog (\<open>email-detail-modal.tsx\<close>): its props as the
    inboxes pass them, \<open>isDeleting\<close>, the delete button and the render.  Lemmas: one
    delete per press; the e-mail's HTML is injected as the server sent it.
  \<^item> \<open>Locale_Switch\<close>: \<open>safeLocale\<close> of the layout and the language switch of the
    floating switcher and the footer, and the switcher's menu (round trip, and the wrong
    path it builds on an unsupported locale; the footer's menu equals the switcher's).
  \<^item> \<open>Site_Chrome\<close>: the layout (\<open>layout.tsx\<close>: metadata, locale, catalogue, parts;
    \<open>messages/index.ts\<close>), the header, the footer (links, language menu, render), the home page and the about, privacy and terms
    pages and the five-minute page's fixed sections, each as the list of blocks it renders.  Which paths are served is read off the
    page files under \<open>src/app/[locale]\<close>; relative links are resolved as a browser does.
    Lemmas: the layout's locale always has messages; the header's links all lead to pages,
    four footer links lead to none; the theme button's first click; the home page's relative
    call-to-action link loses the locale.
  \<^item> This theory: the status poll of the inbox page together with the client.

  \<^bold>\<open>Modelling choices.\<close>  \<open>Math.random()\<close> values are rationals in \<open>[0, 1)\<close>; the
  engine's \<open>sort\<close> with the random comparator is an insertion sort that draws one
  value per comparison (the properties use only that it permutes).  User names come from
  \<open>./name-generator\<close>, which is not in the repository, so they are inputs.  A function
  that reads the clock several times is given one instant.  Strings are ASCII; \<open>NaN\<close>
  times are \<open>None\<close>.  Translations (\<open>t(key)\<close>), styling and icons are not modelled:
  toasts are constructors and views are what is shown.  The runs in the lemmas have no
  fuel: every loop of the code is bounded (the password fill by its index, the poll by its
  attempt count, the reconnects by the attempt limit), so each is structural recursion or a
  measure, and termination is proved, not assumed.

  \<^bold>\<open>Not modelled.\<close>  The notification client's wire format (the client itself is not in
  the repository; only its specified behaviour is modelled); the user-name generator
  (\<open>./name-generator\<close>, not in the repository); the text of the \<open>next-intl\<close> message
  catalogues (keys stand for texts) and the \<open>i18n\<close> locale list (a parameter of
  \<open>generateStaticParams\<close>); styling, icons, and the locale-dependent formatting of dates.
\<close>


section \<open>The inbox page and the notification client\<close>

text \<open>
  The inbox page's \<open>updateConnectionStatus\<close> runs every two seconds while the page
  has an account: it copies the client's status into the page and, when the client is
  connected and enabled and both the account id and the address are set, calls
  \<open>authenticate\<close> and \<open>joinEmailRoom\<close> on it.
\<close>

definition status_poll ::
  "string option \<Rightarrow> string option \<Rightarrow> inbox_state \<times> 'h client \<Rightarrow> inbox_state \<times> 'h client" where
  "status_poll emailAccountId currentEmail sc =
     (case updateConnectionStatus (getConnectionStatus (snd sc)) emailAccountId currentEmail (fst sc) of
        (s', True) \<Rightarrow> (s', joinEmailRoom (the currentEmail) (authenticate (the emailAccountId) (snd sc)))
      | (s', False) \<Rightarrow> (s', snd sc))"

lemma status_poll_connected:
  assumes "transport c = Connected" "enabled c" "aid \<noteq> []" "em \<noteq> []"
  shows "status_poll (Some aid) (Some em) (s, c) =
           (s\<lparr>wsConnectionStatus := getConnectionStatus c\<rparr>,
            c\<lparr>session_account := Some aid, session_room := Some em,
              outbox := outbox c @ [Authenticate aid, Join_Room em]\<rparr>)"
  using assms
  by (simp add: status_poll_def updateConnectionStatus_def getConnectionStatus_def authenticate_def
                joinEmailRoom_def)

text \<open>
  C20: each two-second status poll of the inbox page re-sends \<open>authenticate\<close> and
  \<open>joinEmailRoom\<close> while the client is connected: after \<open>n\<close> polls the client has sent
  \<open>n\<close> more pairs on the same connection, where the specification's client sends exactly
  one pair per connection.
\<close>

theorem poll_resends_handshake:
  assumes "transport c = Connected" "enabled c" "aid \<noteq> []" "em \<noteq> []"
  shows "outbox (snd ((status_poll (Some aid) (Some em) ^^ n) (s, c))) =
           outbox c @ concat (replicate n [Authenticate aid, Join_Room em])"
  using assms(1,2)
proof (induction n arbitrary: s c)
  case 0
  then show ?case by simp
next
  case (Suc n)
  let ?c' = "c\<lparr>session_account := Some aid, session_room := Some em,
                outbox := outbox c @ [Authenticate aid, Join_Room em]\<rparr>"
  have "(status_poll (Some aid) (Some em) ^^ Suc n) (s, c) =
          (status_poll (Some aid) (Some em) ^^ n) (s\<lparr>wsConnectionStatus := getConnectionStatus c\<rparr>, ?c')"
    using Suc.prems assms(3,4)
    by (simp only: funpow_Suc_right comp_apply) (simp add: status_poll_connected)
  moreover have "transport ?c' = Connected" "enabled ?c'" using Suc.prems by simp_all
  ultimately show ?case using Suc.IH by (simp add: replicate_append_same)
qed

theorem poll_resends_handshake_witness:
  "outbox (snd ((status_poll (Some ''7'') (Some ''a@b.c'') ^^ 2)
      (inbox_init, client_run (newEmailNotificationClient ''wss://ws.example'' 5 :: unit client)
                     [Ev_Authenticate ''7'', Ev_Join ''a@b.c'', Ev_Open])))
   = [Authenticate ''7'', Join_Room ''a@b.c'', Authenticate ''7'', Join_Room ''a@b.c'',
      Authenticate ''7'', Join_Room ''a@b.c'']"
proof -
  let ?c = "client_run (newEmailNotificationClient ''wss://ws.example'' 5 :: unit client)
              [Ev_Authenticate ''7'', Ev_Join ''a@b.c'', Ev_Open]"
  have c: "transport ?c = Connected" "enabled ?c" "outbox ?c = [Authenticate ''7'', Join_Room ''a@b.c'']"
    by (simp_all add: newEmailNotificationClient_def is_rest_url_def js_eval authenticate_def
                      joinEmailRoom_def on_open_def handshake_def)
  have "outbox (snd ((status_poll (Some ''7'') (Some ''a@b.c'') ^^ 2) (inbox_init, ?c))) =
          outbox ?c @ concat (replicate 2 [Authenticate ''7'', Join_Room ''a@b.c''])"
    using c(1,2) by (rule poll_resends_handshake) simp_all
  then show ?thesis by (simp only: c(3)) (simp add: numeral_2_eq_2)
qed

end
